theory Spec2Isabelle
  imports Complex_Main "HOL-Library.Word"
begin

section \<open>Data model\<close>

text \<open>
  The repository is one HIP device function, \<^verbatim>\<open>kernel\<close> in
  \<^verbatim>\<open>codes/lbm_shared_3.cpp\<close>: the fused collision and streaming update of one
  lattice site of a two-phase D3Q7/D3Q19 lattice Boltzmann solver.

  \<^item> The scalar parameters of the kernel (lines 11 to 15) are the record \<open>params\<close>.
    A C \<^verbatim>\<open>int\<close> is a HOL \<open>int\<close>: signed overflow is undefined behaviour in C++, so
    the model describes the runs in which the index arithmetic does not overflow.
  \<^item> A \<^verbatim>\<open>double\<close> is a HOL \<open>real\<close>: arithmetic is exact, so rounding, infinities
    and NaN are outside the model. In particular \<open>1 / 0 = 0\<close> in HOL where the code
    produces an infinity: statements about velocities carry \<open>rho \<noteq> 0\<close>.
    Every expression keeps the source's order of operations.
  \<^item> The 31 pointer parameters (lines 3 to 10) are the record \<open>arrays\<close>. Each array is a
    total function from an index to a value: the kernel checks no index against an
    allocation, and \<^verbatim>\<open>__restrict__\<close> promises that no two of them overlap, so each
    field is a store of its own.
  \<^item> The built-in coordinates \<^verbatim>\<open>threadIdx\<close>, \<^verbatim>\<open>blockIdx\<close>, \<^verbatim>\<open>blockDim\<close> are 32-bit
    unsigned; the record \<open>thread\<close> holds the nine of them that one thread sees.
\<close>

record params =
  nx :: int
  ny :: int
  nz :: int
  ldx :: int
  ldy :: int
  current :: int
  "next" :: int
  k :: real
  alpha :: real
  phi2 :: real
  gamma :: real
  itauphi :: real
  itauphi1 :: real
  ieta :: real
  itaurho :: real
  grav :: real
  eg1 :: real
  eg2 :: real
  eg0 :: real
  egc0 :: real
  egc1 :: real
  egc2 :: real

record arrays =
  phi :: "int \<Rightarrow> real"
  laplacian_phi :: "int \<Rightarrow> real"
  grad_phi_x :: "int \<Rightarrow> real"
  grad_phi_y :: "int \<Rightarrow> real"
  grad_phi_z :: "int \<Rightarrow> real"
  f0 :: "int \<Rightarrow> real"
  f1 :: "int \<Rightarrow> real"
  f2 :: "int \<Rightarrow> real"
  f3 :: "int \<Rightarrow> real"
  f4 :: "int \<Rightarrow> real"
  f5 :: "int \<Rightarrow> real"
  f6 :: "int \<Rightarrow> real"
  g0 :: "int \<Rightarrow> real"
  g1 :: "int \<Rightarrow> real"
  g2 :: "int \<Rightarrow> real"
  g3 :: "int \<Rightarrow> real"
  g4 :: "int \<Rightarrow> real"
  g5 :: "int \<Rightarrow> real"
  g6 :: "int \<Rightarrow> real"
  g7 :: "int \<Rightarrow> real"
  g8 :: "int \<Rightarrow> real"
  g9 :: "int \<Rightarrow> real"
  g10 :: "int \<Rightarrow> real"
  g11 :: "int \<Rightarrow> real"
  g12 :: "int \<Rightarrow> real"
  g13 :: "int \<Rightarrow> real"
  g14 :: "int \<Rightarrow> real"
  g15 :: "int \<Rightarrow> real"
  g16 :: "int \<Rightarrow> real"
  g17 :: "int \<Rightarrow> real"
  g18 :: "int \<Rightarrow> real"

record thread =
  threadIdx_x :: "32 word"
  threadIdx_y :: "32 word"
  threadIdx_z :: "32 word"
  blockIdx_x :: "32 word"
  blockIdx_y :: "32 word"
  blockIdx_z :: "32 word"
  blockDim_x :: "32 word"
  blockDim_y :: "32 word"
  blockDim_z :: "32 word"

section \<open>The local values of one thread\<close>

text \<open>
  Lines 17 to 19: the sum and product are taken in \<^verbatim>\<open>unsigned int\<close> (they wrap modulo
  \<open>2 ^ 32\<close>) and the result is converted to \<^verbatim>\<open>int\<close>.
\<close>

definition i :: "thread \<Rightarrow> int" where
  "i t = sint (threadIdx_x t + blockIdx_x t * blockDim_x t)"

definition j :: "thread \<Rightarrow> int" where
  "j t = sint (threadIdx_y t + blockIdx_y t * blockDim_y t)"

definition z :: "thread \<Rightarrow> int" where
  "z t = sint (threadIdx_z t + blockIdx_z t * blockDim_z t)"

text \<open>
  Lines 26 to 60 and 71 to 139: every \<^verbatim>\<open>const\<close> local of the body is a function of the
  parameters \<open>P\<close>, the thread \<open>t\<close> and the arrays \<open>s\<close> as they are when the thread starts.
  All their array reads are in lines 29 to 57, before the first store of line 62; the
  locals of lines 59 to 139 are computed from other locals only.
\<close>

definition m :: "params \<Rightarrow> thread \<Rightarrow> int" where
  "m P t = i t + ldx P * (j t + ldy P * z t)"

definition current_pos :: "params \<Rightarrow> thread \<Rightarrow> int" where
  "current_pos P t = m P t + current P"

definition current_phi :: "params \<Rightarrow> thread \<Rightarrow> arrays \<Rightarrow> real" where
  "current_phi P t s = phi s (m P t)"

definition current_phi_2 :: "params \<Rightarrow> thread \<Rightarrow> arrays \<Rightarrow> real" where
  "current_phi_2 P t s = current_phi P t s * current_phi P t s"

definition rho :: "params \<Rightarrow> thread \<Rightarrow> arrays \<Rightarrow> real" where
  "rho P t s =
     g0 s (m P t) + g1 s (current_pos P t) + g2 s (current_pos P t) + g3 s (current_pos P t) +
     g4 s (current_pos P t) + g5 s (current_pos P t) + g6 s (current_pos P t) +
     g7 s (current_pos P t) + g8 s (current_pos P t) + g9 s (current_pos P t) +
     g10 s (current_pos P t) + g11 s (current_pos P t) + g12 s (current_pos P t) +
     g13 s (current_pos P t) + g14 s (current_pos P t) + g15 s (current_pos P t) +
     g16 s (current_pos P t) + g17 s (current_pos P t) + g18 s (current_pos P t)"

definition irho :: "params \<Rightarrow> thread \<Rightarrow> arrays \<Rightarrow> real" where
  "irho P t s =
     1.0 / rho P t s"

definition mu_phi :: "params \<Rightarrow> thread \<Rightarrow> arrays \<Rightarrow> real" where
  "mu_phi P t s =
     alpha P * current_phi P t s * (current_phi_2 P t s - phi2 P) -
     k P * laplacian_phi s (m P t)"

definition fx :: "params \<Rightarrow> thread \<Rightarrow> arrays \<Rightarrow> real" where
  "fx P t s =
     mu_phi P t s * grad_phi_x s (m P t)"

definition ux :: "params \<Rightarrow> thread \<Rightarrow> arrays \<Rightarrow> real" where
  "ux P t s =
     (g1 s (current_pos P t) - g2 s (current_pos P t) + g7 s (current_pos P t) -
      g8 s (current_pos P t) + g9 s (current_pos P t) - g10 s (current_pos P t) +
      g11 s (current_pos P t) - g12 s (current_pos P t) + g13 s (current_pos P t) -
      g14 s (current_pos P t) +
      0.50 * fx P t s) * irho P t s"

definition fy :: "params \<Rightarrow> thread \<Rightarrow> arrays \<Rightarrow> real" where
  "fy P t s =
     mu_phi P t s * grad_phi_y s (m P t)"

definition uy :: "params \<Rightarrow> thread \<Rightarrow> arrays \<Rightarrow> real" where
  "uy P t s =
     (g3 s (current_pos P t) - g4 s (current_pos P t) + g7 s (current_pos P t) -
      g8 s (current_pos P t) - g9 s (current_pos P t) + g10 s (current_pos P t) +
      g15 s (current_pos P t) - g16 s (current_pos P t) + g17 s (current_pos P t) -
      g18 s (current_pos P t) +
      0.50 * fy P t s) * irho P t s"

definition fz :: "params \<Rightarrow> thread \<Rightarrow> arrays \<Rightarrow> real" where
  "fz P t s =
     mu_phi P t s * grad_phi_z s (m P t)"

definition uz :: "params \<Rightarrow> thread \<Rightarrow> arrays \<Rightarrow> real" where
  "uz P t s =
     (g5 s (current_pos P t) - g6 s (current_pos P t) + g11 s (current_pos P t) -
      g12 s (current_pos P t) - g13 s (current_pos P t) + g14 s (current_pos P t) +
      g15 s (current_pos P t) - g16 s (current_pos P t) - g17 s (current_pos P t) +
      g18 s (current_pos P t) +
      0.50 * fz P t s) * irho P t s"

definition af :: "params \<Rightarrow> thread \<Rightarrow> arrays \<Rightarrow> real" where
  "af P t s =
     0.50 * gamma P * mu_phi P t s * itauphi P"

definition cf :: "params \<Rightarrow> thread \<Rightarrow> arrays \<Rightarrow> real" where
  "cf P t s =
     itauphi P * ieta P * current_phi P t s"

definition ag :: "params \<Rightarrow> thread \<Rightarrow> arrays \<Rightarrow> real" where
  "ag P t s =
     3.0 * current_phi P t s * mu_phi P t s + rho P t s"

definition v :: "params \<Rightarrow> thread \<Rightarrow> arrays \<Rightarrow> real" where
  "v P t s =
     1.50 * (ux P t s * ux P t s + uy P t s * uy P t s + uz P t s * uz P t s)"

definition uf :: "params \<Rightarrow> thread \<Rightarrow> arrays \<Rightarrow> real" where
  "uf P t s =
     ux P t s * fx P t s + uy P t s * fy P t s + uz P t s * fz P t s"

definition eg1ag :: "params \<Rightarrow> thread \<Rightarrow> arrays \<Rightarrow> real" where
  "eg1ag P t s =
     eg1 P * ag P t s"

definition eg1rho :: "params \<Rightarrow> thread \<Rightarrow> arrays \<Rightarrow> real" where
  "eg1rho P t s =
     eg1 P * rho P t s"

definition eg2ag :: "params \<Rightarrow> thread \<Rightarrow> arrays \<Rightarrow> real" where
  "eg2ag P t s =
     eg2 P * ag P t s"

definition eg2rho :: "params \<Rightarrow> thread \<Rightarrow> arrays \<Rightarrow> real" where
  "eg2rho P t s =
     eg2 P * rho P t s"

text \<open>
  The source assigns the two scratch variables \<^verbatim>\<open>tmp1\<close> and \<^verbatim>\<open>tmp2\<close> nine times, once
  before each pair of opposite directions. \<open>tmp1_n\<close> and \<open>tmp2_n\<close> are their values
  before the stores to \<open>g\<^sub>n\<close> and \<open>g\<^sub>n\<^sub>+\<^sub>1\<close> (lines 80, 86, 92, 101, 109, 116, 123,
  130 and 137).
\<close>

definition tmp1_1 :: "params \<Rightarrow> thread \<Rightarrow> arrays \<Rightarrow> real" where
  "tmp1_1 P t s =
     eg1ag P t s + eg1rho P t s * (0.50 * ux P t s * ux P t s - v P t s) +
     egc1 P * (ux P t s * fx P t s - uf P t s)"

definition tmp2_1 :: "params \<Rightarrow> thread \<Rightarrow> arrays \<Rightarrow> real" where
  "tmp2_1 P t s =
     eg1rho P t s * ux P t s + egc1 P * fx P t s"

definition tmp1_3 :: "params \<Rightarrow> thread \<Rightarrow> arrays \<Rightarrow> real" where
  "tmp1_3 P t s =
     eg1ag P t s + eg1rho P t s * (0.50 * uy P t s * uy P t s - v P t s) +
     egc1 P * (uy P t s * fy P t s - uf P t s)"

definition tmp2_3 :: "params \<Rightarrow> thread \<Rightarrow> arrays \<Rightarrow> real" where
  "tmp2_3 P t s =
     eg1rho P t s * uy P t s + egc1 P * fy P t s"

definition tmp1_5 :: "params \<Rightarrow> thread \<Rightarrow> arrays \<Rightarrow> real" where
  "tmp1_5 P t s =
     eg1ag P t s + eg1rho P t s * (0.50 * uz P t s * uz P t s - v P t s) +
     egc1 P * (uz P t s * fz P t s - uf P t s)"

definition tmp2_5 :: "params \<Rightarrow> thread \<Rightarrow> arrays \<Rightarrow> real" where
  "tmp2_5 P t s =
     eg1rho P t s * uz P t s + egc1 P * fz P t s"

definition tmp1_7 :: "params \<Rightarrow> thread \<Rightarrow> arrays \<Rightarrow> real" where
  "tmp1_7 P t s =
     eg2ag P t s + eg2rho P t s * (0.50 * (ux P t s + uy P t s) * (ux P t s + uy P t s) - v P t s) +
     egc2 P * ((ux P t s + uy P t s) * (fx P t s + fy P t s) - uf P t s)"

definition tmp2_7 :: "params \<Rightarrow> thread \<Rightarrow> arrays \<Rightarrow> real" where
  "tmp2_7 P t s =
     eg2rho P t s * (ux P t s + uy P t s) + egc2 P * (fx P t s + fy P t s)"

definition tmp1_9 :: "params \<Rightarrow> thread \<Rightarrow> arrays \<Rightarrow> real" where
  "tmp1_9 P t s =
     eg2ag P t s + eg2rho P t s * (0.50 * (ux P t s - uy P t s) * (ux P t s - uy P t s) - v P t s) +
     egc2 P * ((ux P t s - uy P t s) * (fx P t s - fy P t s) - uf P t s)"

definition tmp2_9 :: "params \<Rightarrow> thread \<Rightarrow> arrays \<Rightarrow> real" where
  "tmp2_9 P t s =
     eg2rho P t s * (ux P t s - uy P t s) + egc2 P * (fx P t s - fy P t s)"

definition tmp1_11 :: "params \<Rightarrow> thread \<Rightarrow> arrays \<Rightarrow> real" where
  "tmp1_11 P t s =
     eg2ag P t s + eg2rho P t s * (0.50 * (ux P t s + uz P t s) * (ux P t s + uz P t s) - v P t s) +
     egc2 P * ((ux P t s + uz P t s) * (fx P t s + fz P t s) - uf P t s)"

definition tmp2_11 :: "params \<Rightarrow> thread \<Rightarrow> arrays \<Rightarrow> real" where
  "tmp2_11 P t s =
     eg2rho P t s * (ux P t s + uz P t s) + egc2 P * (fx P t s + fz P t s)"

definition tmp1_13 :: "params \<Rightarrow> thread \<Rightarrow> arrays \<Rightarrow> real" where
  "tmp1_13 P t s =
     eg2ag P t s + eg2rho P t s * (0.50 * (ux P t s - uz P t s) * (ux P t s - uz P t s) - v P t s) +
     egc2 P * ((ux P t s - uz P t s) * (fx P t s - fz P t s) - uf P t s)"

definition tmp2_13 :: "params \<Rightarrow> thread \<Rightarrow> arrays \<Rightarrow> real" where
  "tmp2_13 P t s =
     eg2rho P t s * (ux P t s - uz P t s) + egc2 P * (fx P t s - fz P t s)"

definition tmp1_15 :: "params \<Rightarrow> thread \<Rightarrow> arrays \<Rightarrow> real" where
  "tmp1_15 P t s =
     eg2ag P t s + eg2rho P t s * (0.50 * (uy P t s + uz P t s) * (uy P t s + uz P t s) - v P t s) +
     egc2 P * ((uy P t s + uz P t s) * (fy P t s + fz P t s) - uf P t s)"

definition tmp2_15 :: "params \<Rightarrow> thread \<Rightarrow> arrays \<Rightarrow> real" where
  "tmp2_15 P t s =
     eg2rho P t s * (uy P t s + uz P t s) + egc2 P * (fy P t s + fz P t s)"

definition tmp1_17 :: "params \<Rightarrow> thread \<Rightarrow> arrays \<Rightarrow> real" where
  "tmp1_17 P t s =
     eg2ag P t s + eg2rho P t s * (0.50 * (uy P t s - uz P t s) * (uy P t s - uz P t s) - v P t s) +
     egc2 P * ((uy P t s - uz P t s) * (fy P t s - fz P t s) - uf P t s)"

definition tmp2_17 :: "params \<Rightarrow> thread \<Rightarrow> arrays \<Rightarrow> real" where
  "tmp2_17 P t s =
     eg2rho P t s * (uy P t s - uz P t s) + egc2 P * (fy P t s - fz P t s)"

section \<open>The kernel\<close>

text \<open>
  One thread of the kernel, as a function from the arrays before it runs to the arrays
  after it. The guard is line 24. \<open>s\<^sub>n\<close> is the memory after the store of source line
  \<open>n\<close>; a store \<^verbatim>\<open>a[p] = e\<close> updates the one field \<open>a\<close> at \<open>p\<close>, and an array read on its
  right-hand side reads that field as it is when the store runs.
\<close>

definition kernel :: "params \<Rightarrow> thread \<Rightarrow> arrays \<Rightarrow> arrays" where
  "kernel P t s =
    (if i t \<le> nx P \<and> j t \<le> ny P \<and> z t \<le> nz P then
       let s62 = f0_update (\<lambda>a. a(m P t :=
                   itauphi1 P * a (m P t) + - 3.0 * gamma P * mu_phi P t s * itauphi P +
                   itauphi P * current_phi P t s)) s;
           s64 = f1_update (\<lambda>a. a(current_pos P t :=
                   itauphi1 P * a (current_pos P t) + af P t s + cf P t s * ux P t s)) s62;
           s65 = f2_update (\<lambda>a. a(current_pos P t :=
                   itauphi1 P * a (current_pos P t) + af P t s - cf P t s * ux P t s)) s64;
           s66 = f3_update (\<lambda>a. a(current_pos P t :=
                   itauphi1 P * a (current_pos P t) + af P t s + cf P t s * uy P t s)) s65;
           s67 = f4_update (\<lambda>a. a(current_pos P t :=
                   itauphi1 P * a (current_pos P t) + af P t s - cf P t s * uy P t s)) s66;
           s68 = f5_update (\<lambda>a. a(current_pos P t :=
                   itauphi1 P * a (current_pos P t) + af P t s + cf P t s * uz P t s)) s67;
           s69 = f6_update (\<lambda>a. a(current_pos P t :=
                   itauphi1 P * a (current_pos P t) + af P t s - cf P t s * uz P t s)) s68;
           s75 = g0_update (\<lambda>a. a(m P t :=
                   itaurho P * a (m P t) +
                   eg0 P * ((rho P t s - 6.0 * current_phi P t s * mu_phi P t s) -
                            rho P t s * v P t s) -
                   egc0 P * uf P t s)) s69;
           s83 = g1_update (\<lambda>a. a(m P t + next P + 1 :=
                   itaurho P * a (current_pos P t) + tmp1_1 P t s + tmp2_1 P t s)) s75;
           s84 = g2_update (\<lambda>a. a(m P t + next P - 1 :=
                   itaurho P * a (current_pos P t) + tmp1_1 P t s - tmp2_1 P t s)) s83;
           s89 = g3_update (\<lambda>a. a(m P t + next P + ldx P :=
                   itaurho P * a (current_pos P t) + tmp1_3 P t s + tmp2_3 P t s)) s84;
           s90 = g4_update (\<lambda>a. a(m P t + next P - ldx P :=
                   itaurho P * a (current_pos P t) + tmp1_3 P t s - tmp2_3 P t s)) s89;
           s95 = g5_update (\<lambda>a. a(m P t + next P + ldx P * ldy P :=
                   itaurho P * a (current_pos P t) + tmp1_5 P t s + tmp2_5 P t s)) s90;
           s96 = g6_update (\<lambda>a. a(m P t + next P - ldx P * ldy P :=
                   itaurho P * a (current_pos P t) + tmp1_5 P t s - tmp2_5 P t s)) s95;
           s106 = g7_update (\<lambda>a. a(m P t + next P + 1 + ldx P :=
                   itaurho P * a (current_pos P t) + tmp1_7 P t s + tmp2_7 P t s)) s96;
           s107 = g8_update (\<lambda>a. a(m P t + next P - 1 - ldx P :=
                   itaurho P * a (current_pos P t) + tmp1_7 P t s - tmp2_7 P t s)) s106;
           s113 = g9_update (\<lambda>a. a(m P t + next P + 1 - ldx P :=
                   itaurho P * a (current_pos P t) + tmp1_9 P t s + tmp2_9 P t s)) s107;
           s114 = g10_update (\<lambda>a. a(m P t + next P - 1 + ldx P :=
                   itaurho P * a (current_pos P t) + tmp1_9 P t s - tmp2_9 P t s)) s113;
           s120 = g11_update (\<lambda>a. a(m P t + next P + 1 + ldx P * ldy P :=
                   itaurho P * a (current_pos P t) + tmp1_11 P t s + tmp2_11 P t s)) s114;
           s121 = g12_update (\<lambda>a. a(m P t + next P - 1 - ldx P * ldy P :=
                   itaurho P * a (current_pos P t) + tmp1_11 P t s - tmp2_11 P t s)) s120;
           s127 = g13_update (\<lambda>a. a(m P t + next P + 1 - ldx P * ldy P :=
                   itaurho P * a (current_pos P t) + tmp1_13 P t s + tmp2_13 P t s)) s121;
           s128 = g14_update (\<lambda>a. a(m P t + next P - 1 + ldx P * ldy P :=
                   itaurho P * a (current_pos P t) + tmp1_13 P t s - tmp2_13 P t s)) s127;
           s134 = g15_update (\<lambda>a. a(m P t + next P + ldx P + ldx P * ldy P :=
                   itaurho P * a (current_pos P t) + tmp1_15 P t s + tmp2_15 P t s)) s128;
           s135 = g16_update (\<lambda>a. a(m P t + next P - ldx P - ldx P * ldy P :=
                   itaurho P * a (current_pos P t) + tmp1_15 P t s - tmp2_15 P t s)) s134;
           s141 = g17_update (\<lambda>a. a(m P t + next P + ldx P - ldx P * ldy P :=
                   itaurho P * a (current_pos P t) + tmp1_17 P t s + tmp2_17 P t s)) s135;
           s142 = g18_update (\<lambda>a. a(m P t + next P - ldx P + ldx P * ldy P :=
                   itaurho P * a (current_pos P t) + tmp1_17 P t s - tmp2_17 P t s)) s141
       in s142
     else s)"

section \<open>Vocabulary of the specification\<close>

text \<open>
  The displacement of each hydrodynamic direction in the flattened index space, as the
  specification lists it: one step along x is \<open>1\<close>, along y is \<open>ldx\<close>, along z is
  \<open>ldx * ldy\<close>; directions 1 to 6 step along one axis, directions 7 to 18 along two.
\<close>

definition step_x :: "params \<Rightarrow> int" where
  "step_x P = 1"

definition step_y :: "params \<Rightarrow> int" where
  "step_y P = ldx P"

definition step_z :: "params \<Rightarrow> int" where
  "step_z P = ldx P * ldy P"

definition displacement :: "params \<Rightarrow> nat \<Rightarrow> int" where
  "displacement P n =
     [0,
      step_x P, - step_x P, step_y P, - step_y P, step_z P, - step_z P,
      step_x P + step_y P, - step_x P - step_y P, step_x P - step_y P, - step_x P + step_y P,
      step_x P + step_z P, - step_x P - step_z P, step_x P - step_z P, - step_x P + step_z P,
      step_y P + step_z P, - step_y P - step_z P, step_y P - step_z P, - step_y P + step_z P] ! n"

text \<open>The zeroth moment of the hydrodynamic family: the rest population at \<open>b\<close>, the
  other eighteen at \<open>p\<close>.\<close>

definition hydro_directions :: "(arrays \<Rightarrow> int \<Rightarrow> real) list" where
  "hydro_directions =
     [g1, g2, g3, g4, g5, g6, g7, g8, g9, g10, g11, g12, g13, g14, g15, g16, g17, g18]"

definition zeroth_moment :: "arrays \<Rightarrow> int \<Rightarrow> int \<Rightarrow> real" where
  "zeroth_moment s b p = g0 s b + (\<Sum>d\<leftarrow>hydro_directions. d s p)"

text \<open>The 31 array entries at the site's own index and at its current position, and
  the 26 entries that the body of the kernel stores to.\<close>

definition local_inputs :: "params \<Rightarrow> thread \<Rightarrow> arrays \<Rightarrow> real list" where
  "local_inputs P t s =
     [phi s (m P t), laplacian_phi s (m P t),
      grad_phi_x s (m P t), grad_phi_y s (m P t), grad_phi_z s (m P t),
      f0 s (m P t), f1 s (m P t + current P), f2 s (m P t + current P), f3 s (m P t + current P),
      f4 s (m P t + current P), f5 s (m P t + current P), f6 s (m P t + current P),
      g0 s (m P t),
      g1 s (m P t + current P), g2 s (m P t + current P), g3 s (m P t + current P),
      g4 s (m P t + current P), g5 s (m P t + current P), g6 s (m P t + current P),
      g7 s (m P t + current P), g8 s (m P t + current P), g9 s (m P t + current P),
      g10 s (m P t + current P), g11 s (m P t + current P), g12 s (m P t + current P),
      g13 s (m P t + current P), g14 s (m P t + current P), g15 s (m P t + current P),
      g16 s (m P t + current P), g17 s (m P t + current P), g18 s (m P t + current P)]"

definition written_values :: "params \<Rightarrow> thread \<Rightarrow> arrays \<Rightarrow> real list" where
  "written_values P t r =
     [f0 r (m P t), f1 r (m P t + current P), f2 r (m P t + current P), f3 r (m P t + current P),
      f4 r (m P t + current P), f5 r (m P t + current P), f6 r (m P t + current P),
      g0 r (m P t),
      g1 r (m P t + next P + 1), g2 r (m P t + next P - 1),
      g3 r (m P t + next P + ldx P), g4 r (m P t + next P - ldx P),
      g5 r (m P t + next P + ldx P * ldy P), g6 r (m P t + next P - ldx P * ldy P),
      g7 r (m P t + next P + 1 + ldx P), g8 r (m P t + next P - 1 - ldx P),
      g9 r (m P t + next P + 1 - ldx P), g10 r (m P t + next P - 1 + ldx P),
      g11 r (m P t + next P + 1 + ldx P * ldy P), g12 r (m P t + next P - 1 - ldx P * ldy P),
      g13 r (m P t + next P + 1 - ldx P * ldy P), g14 r (m P t + next P - 1 + ldx P * ldy P),
      g15 r (m P t + next P + ldx P + ldx P * ldy P), g16 r (m P t + next P - ldx P - ldx P * ldy P),
      g17 r (m P t + next P + ldx P - ldx P * ldy P), g18 r (m P t + next P - ldx P + ldx P * ldy P)]"

text \<open>
  A pass of the kernel is a launch: every thread of the grid runs the body once. The
  launch configuration is not part of the file, so a pass takes the list of its threads,
  run one after the other in the order of the list.
\<close>

definition pass :: "params \<Rightarrow> thread list \<Rightarrow> arrays \<Rightarrow> arrays" where
  "pass P ts s = fold (kernel P) ts s"

text \<open>The base indices of the sites of \<open>[0, nx] \<times> [0, ny] \<times> [0, nz]\<close>, and the buffer
  locations that these sites address: the base index itself and the base index moved by
  one of the two buffer offsets.\<close>

definition region :: "params \<Rightarrow> int set" where
  "region P =
     (\<lambda>(a, b, c). a + ldx P * (b + ldy P * c)) ` ({0..nx P} \<times> {0..ny P} \<times> {0..nz P})"

definition addressed :: "params \<Rightarrow> int set" where
  "addressed P = region P \<union> (\<lambda>q. q + current P) ` region P \<union> (\<lambda>q. q + next P) ` region P"

text \<open>The indices at which the array \<open>b\<close> differs from the array \<open>a\<close>.\<close>

definition changed :: "(int \<Rightarrow> real) \<Rightarrow> (int \<Rightarrow> real) \<Rightarrow> int set" where
  "changed a b = {n. b n \<noteq> a n}"

text \<open>The guard of line 24.\<close>

definition inside :: "params \<Rightarrow> thread \<Rightarrow> bool" where
  "inside P t \<longleftrightarrow> i t \<le> nx P \<and> j t \<le> ny P \<and> z t \<le> nz P"

text \<open>
  What the kernel relies on and the caller has to establish for the threads of a pass:
  the threads that pass the guard address different sites, and no store of the streaming
  step, at \<open>m + next + displacement\<close>, falls on an entry that a thread of the pass reads,
  at \<open>m + current\<close>.
\<close>

definition race_free :: "params \<Rightarrow> thread list \<Rightarrow> bool" where
  "race_free P ts \<longleftrightarrow>
     distinct (map (m P) (filter (inside P) ts)) \<and>
     (\<forall>t\<in>set ts. \<forall>u\<in>set ts. inside P t \<longrightarrow> inside P u \<longrightarrow>
        (\<forall>d\<in>displacement P ` {1..18}. m P u + next P + d \<noteq> m P t + current P))"

text \<open>The threads of the pass from which direction \<open>n\<close> streams into the site of \<open>t\<close>, and
  the sites that receive all eighteen moving populations from threads of the pass.\<close>

definition upstream :: "params \<Rightarrow> thread list \<Rightarrow> thread \<Rightarrow> nat \<Rightarrow> thread list" where
  "upstream P ts t n = filter (\<lambda>u. inside P u \<and> m P u + displacement P n = m P t) ts"

definition fed :: "params \<Rightarrow> thread list \<Rightarrow> thread \<Rightarrow> bool" where
  "fed P ts t \<longleftrightarrow> (\<forall>n\<in>{1..18}. upstream P ts t n \<noteq> [])"

text \<open>The zeroth moment of the phase-field family: the rest population at \<open>b\<close>, the other
  six at \<open>p\<close>.\<close>

definition phase_directions :: "(arrays \<Rightarrow> int \<Rightarrow> real) list" where
  "phase_directions = [f1, f2, f3, f4, f5, f6]"

definition phase_zeroth_moment :: "arrays \<Rightarrow> int \<Rightarrow> int \<Rightarrow> real" where
  "phase_zeroth_moment s b p = f0 s b + (\<Sum>d\<leftarrow>phase_directions. d s p)"

text \<open>
  A spatially uniform memory: every entry of \<open>phi\<close> is \<open>c\<close>, the gradient and the Laplacian
  of \<open>phi\<close> are zero, every entry of \<open>f\<^sub>n\<close> is \<open>fv n\<close> and every entry of \<open>g\<^sub>n\<close> is \<open>gv n\<close>.
\<close>

definition uniform_arrays :: "real \<Rightarrow> (nat \<Rightarrow> real) \<Rightarrow> (nat \<Rightarrow> real) \<Rightarrow> arrays" where
  "uniform_arrays c fv gv =
     \<lparr>phi = (\<lambda>_. c), laplacian_phi = (\<lambda>_. 0),
      grad_phi_x = (\<lambda>_. 0), grad_phi_y = (\<lambda>_. 0), grad_phi_z = (\<lambda>_. 0),
      f0 = (\<lambda>_. fv 0), f1 = (\<lambda>_. fv 1), f2 = (\<lambda>_. fv 2), f3 = (\<lambda>_. fv 3),
      f4 = (\<lambda>_. fv 4), f5 = (\<lambda>_. fv 5), f6 = (\<lambda>_. fv 6),
      g0 = (\<lambda>_. gv 0), g1 = (\<lambda>_. gv 1), g2 = (\<lambda>_. gv 2), g3 = (\<lambda>_. gv 3),
      g4 = (\<lambda>_. gv 4), g5 = (\<lambda>_. gv 5), g6 = (\<lambda>_. gv 6), g7 = (\<lambda>_. gv 7),
      g8 = (\<lambda>_. gv 8), g9 = (\<lambda>_. gv 9), g10 = (\<lambda>_. gv 10), g11 = (\<lambda>_. gv 11),
      g12 = (\<lambda>_. gv 12), g13 = (\<lambda>_. gv 13), g14 = (\<lambda>_. gv 14), g15 = (\<lambda>_. gv 15),
      g16 = (\<lambda>_. gv 16), g17 = (\<lambda>_. gv 17), g18 = (\<lambda>_. gv 18)\<rparr>"

section \<open>Concrete launches\<close>

text \<open>
  A grid of \<open>3 \<times> 3 \<times> 3\<close> sites with strides 5, the two buffers 1000 entries apart, the
  usual D3Q19 weights at relaxation time 1, and arrays that hold the same value at every
  index: density 1 at rest, order parameter 1/2.
\<close>

definition example_params :: params where
  "example_params =
     \<lparr>nx = 2, ny = 2, nz = 2, ldx = 5, ldy = 5, current = 0, next = 1000,
      k = 1, alpha = 1, phi2 = 1, gamma = 1, itauphi = 1, itauphi1 = 0, ieta = 1,
      itaurho = 0, grav = 0, eg1 = 1 / 18, eg2 = 1 / 36, eg0 = 1 / 3,
      egc0 = 1, egc1 = 1, egc2 = 1\<rparr>"

definition example_thread :: thread where
  "example_thread =
     \<lparr>threadIdx_x = 1, threadIdx_y = 1, threadIdx_z = 1,
      blockIdx_x = 0, blockIdx_y = 0, blockIdx_z = 0,
      blockDim_x = 4, blockDim_y = 4, blockDim_z = 4\<rparr>"

definition outside_thread :: thread where
  "outside_thread = example_thread\<lparr>threadIdx_x := 3\<rparr>"

definition example_arrays :: arrays where
  "example_arrays =
     \<lparr>phi = (\<lambda>_. 1 / 2), laplacian_phi = (\<lambda>_. 0),
      grad_phi_x = (\<lambda>_. 0), grad_phi_y = (\<lambda>_. 0), grad_phi_z = (\<lambda>_. 0),
      f0 = (\<lambda>_. 1 / 2), f1 = (\<lambda>_. 0), f2 = (\<lambda>_. 0), f3 = (\<lambda>_. 0),
      f4 = (\<lambda>_. 0), f5 = (\<lambda>_. 0), f6 = (\<lambda>_. 0),
      g0 = (\<lambda>_. 1), g1 = (\<lambda>_. 0), g2 = (\<lambda>_. 0), g3 = (\<lambda>_. 0), g4 = (\<lambda>_. 0),
      g5 = (\<lambda>_. 0), g6 = (\<lambda>_. 0), g7 = (\<lambda>_. 0), g8 = (\<lambda>_. 0), g9 = (\<lambda>_. 0),
      g10 = (\<lambda>_. 0), g11 = (\<lambda>_. 0), g12 = (\<lambda>_. 0), g13 = (\<lambda>_. 0), g14 = (\<lambda>_. 0),
      g15 = (\<lambda>_. 0), g16 = (\<lambda>_. 0), g17 = (\<lambda>_. 0), g18 = (\<lambda>_. 0)\<rparr>"

text \<open>
  The smallest launch: a domain of one site, \<open>nx = ny = nz = 0\<close>, and one block of one
  thread, which is the whole pass.
\<close>

definition single_site_params :: params where
  "single_site_params = example_params\<lparr>nx := 0, ny := 0, nz := 0\<rparr>"

definition origin_thread :: thread where
  "origin_thread =
     \<lparr>threadIdx_x = 0, threadIdx_y = 0, threadIdx_z = 0,
      blockIdx_x = 0, blockIdx_y = 0, blockIdx_z = 0,
      blockDim_x = 1, blockDim_y = 1, blockDim_z = 1\<rparr>"

text \<open>
  A full launch on the concrete domain: one block of \<open>4 \<times> 4 \<times> 4\<close> threads, of which the
  27 with indices at most 2 pass the guard. \<open>example_thread\<close> is the thread of the site in
  the middle of the domain.
\<close>

definition example_launch :: "thread list" where
  "example_launch =
     [example_thread\<lparr>threadIdx_x := a, threadIdx_y := b, threadIdx_z := c\<rparr>.
        c \<leftarrow> [0, 1, 2, 3], b \<leftarrow> [0, 1, 2, 3], a \<leftarrow> [0, 1, 2, 3]]"

text \<open>A uniform memory at rest whose phase-field populations do not add up to the order
  parameter, and parameters whose weights do not add up to one.\<close>

definition unbalanced_arrays :: arrays where
  "unbalanced_arrays =
     uniform_arrays (1 / 2) (\<lambda>n. if n = 0 then 1 else 0) (\<lambda>n. if n = 0 then 1 else 0)"

definition unbalanced_params :: params where
  "unbalanced_params = example_params\<lparr>eg0 := 1\<rparr>"

section \<open>What one thread does to each array\<close>

text \<open>
  The five scalar fields are never stored to, and each of the 26 distribution arrays is
  stored to once, at one index. The lemmas below read each field of the result.
\<close>

lemma kernel_phi: "phi (kernel P t s) = phi s"
  by (simp add: kernel_def Let_def)

lemma kernel_laplacian_phi: "laplacian_phi (kernel P t s) = laplacian_phi s"
  by (simp add: kernel_def Let_def)

lemma kernel_grad_phi_x: "grad_phi_x (kernel P t s) = grad_phi_x s"
  by (simp add: kernel_def Let_def)

lemma kernel_grad_phi_y: "grad_phi_y (kernel P t s) = grad_phi_y s"
  by (simp add: kernel_def Let_def)

lemma kernel_grad_phi_z: "grad_phi_z (kernel P t s) = grad_phi_z s"
  by (simp add: kernel_def Let_def)

lemma kernel_f0:
  "f0 (kernel P t s) =
     (if i t \<le> nx P \<and> j t \<le> ny P \<and> z t \<le> nz P then
        (f0 s)(m P t :=
           itauphi1 P * f0 s (m P t) + - 3.0 * gamma P * mu_phi P t s * itauphi P +
           itauphi P * current_phi P t s)
      else f0 s)"
  by (simp add: kernel_def Let_def)

lemma kernel_f1:
  "f1 (kernel P t s) =
     (if i t \<le> nx P \<and> j t \<le> ny P \<and> z t \<le> nz P then
        (f1 s)(current_pos P t :=
           itauphi1 P * f1 s (current_pos P t) + af P t s + cf P t s * ux P t s)
      else f1 s)"
  by (simp add: kernel_def Let_def)

lemma kernel_f2:
  "f2 (kernel P t s) =
     (if i t \<le> nx P \<and> j t \<le> ny P \<and> z t \<le> nz P then
        (f2 s)(current_pos P t :=
           itauphi1 P * f2 s (current_pos P t) + af P t s - cf P t s * ux P t s)
      else f2 s)"
  by (simp add: kernel_def Let_def)

lemma kernel_f3:
  "f3 (kernel P t s) =
     (if i t \<le> nx P \<and> j t \<le> ny P \<and> z t \<le> nz P then
        (f3 s)(current_pos P t :=
           itauphi1 P * f3 s (current_pos P t) + af P t s + cf P t s * uy P t s)
      else f3 s)"
  by (simp add: kernel_def Let_def)

lemma kernel_f4:
  "f4 (kernel P t s) =
     (if i t \<le> nx P \<and> j t \<le> ny P \<and> z t \<le> nz P then
        (f4 s)(current_pos P t :=
           itauphi1 P * f4 s (current_pos P t) + af P t s - cf P t s * uy P t s)
      else f4 s)"
  by (simp add: kernel_def Let_def)

lemma kernel_f5:
  "f5 (kernel P t s) =
     (if i t \<le> nx P \<and> j t \<le> ny P \<and> z t \<le> nz P then
        (f5 s)(current_pos P t :=
           itauphi1 P * f5 s (current_pos P t) + af P t s + cf P t s * uz P t s)
      else f5 s)"
  by (simp add: kernel_def Let_def)

lemma kernel_f6:
  "f6 (kernel P t s) =
     (if i t \<le> nx P \<and> j t \<le> ny P \<and> z t \<le> nz P then
        (f6 s)(current_pos P t :=
           itauphi1 P * f6 s (current_pos P t) + af P t s - cf P t s * uz P t s)
      else f6 s)"
  by (simp add: kernel_def Let_def)

lemma kernel_g0:
  "g0 (kernel P t s) =
     (if i t \<le> nx P \<and> j t \<le> ny P \<and> z t \<le> nz P then
        (g0 s)(m P t :=
           itaurho P * g0 s (m P t) +
           eg0 P * ((rho P t s - 6.0 * current_phi P t s * mu_phi P t s) - rho P t s * v P t s) -
           egc0 P * uf P t s)
      else g0 s)"
  by (simp add: kernel_def Let_def)

lemma kernel_g1:
  "g1 (kernel P t s) =
     (if i t \<le> nx P \<and> j t \<le> ny P \<and> z t \<le> nz P then
        (g1 s)(m P t + next P + 1 :=
           itaurho P * g1 s (current_pos P t) + tmp1_1 P t s + tmp2_1 P t s)
      else g1 s)"
  by (simp add: kernel_def Let_def)

lemma kernel_g2:
  "g2 (kernel P t s) =
     (if i t \<le> nx P \<and> j t \<le> ny P \<and> z t \<le> nz P then
        (g2 s)(m P t + next P - 1 :=
           itaurho P * g2 s (current_pos P t) + tmp1_1 P t s - tmp2_1 P t s)
      else g2 s)"
  by (simp add: kernel_def Let_def)

lemma kernel_g3:
  "g3 (kernel P t s) =
     (if i t \<le> nx P \<and> j t \<le> ny P \<and> z t \<le> nz P then
        (g3 s)(m P t + next P + ldx P :=
           itaurho P * g3 s (current_pos P t) + tmp1_3 P t s + tmp2_3 P t s)
      else g3 s)"
  by (simp add: kernel_def Let_def)

lemma kernel_g4:
  "g4 (kernel P t s) =
     (if i t \<le> nx P \<and> j t \<le> ny P \<and> z t \<le> nz P then
        (g4 s)(m P t + next P - ldx P :=
           itaurho P * g4 s (current_pos P t) + tmp1_3 P t s - tmp2_3 P t s)
      else g4 s)"
  by (simp add: kernel_def Let_def)

lemma kernel_g5:
  "g5 (kernel P t s) =
     (if i t \<le> nx P \<and> j t \<le> ny P \<and> z t \<le> nz P then
        (g5 s)(m P t + next P + ldx P * ldy P :=
           itaurho P * g5 s (current_pos P t) + tmp1_5 P t s + tmp2_5 P t s)
      else g5 s)"
  by (simp add: kernel_def Let_def)

lemma kernel_g6:
  "g6 (kernel P t s) =
     (if i t \<le> nx P \<and> j t \<le> ny P \<and> z t \<le> nz P then
        (g6 s)(m P t + next P - ldx P * ldy P :=
           itaurho P * g6 s (current_pos P t) + tmp1_5 P t s - tmp2_5 P t s)
      else g6 s)"
  by (simp add: kernel_def Let_def)

lemma kernel_g7:
  "g7 (kernel P t s) =
     (if i t \<le> nx P \<and> j t \<le> ny P \<and> z t \<le> nz P then
        (g7 s)(m P t + next P + 1 + ldx P :=
           itaurho P * g7 s (current_pos P t) + tmp1_7 P t s + tmp2_7 P t s)
      else g7 s)"
  by (simp add: kernel_def Let_def)

lemma kernel_g8:
  "g8 (kernel P t s) =
     (if i t \<le> nx P \<and> j t \<le> ny P \<and> z t \<le> nz P then
        (g8 s)(m P t + next P - 1 - ldx P :=
           itaurho P * g8 s (current_pos P t) + tmp1_7 P t s - tmp2_7 P t s)
      else g8 s)"
  by (simp add: kernel_def Let_def)

lemma kernel_g9:
  "g9 (kernel P t s) =
     (if i t \<le> nx P \<and> j t \<le> ny P \<and> z t \<le> nz P then
        (g9 s)(m P t + next P + 1 - ldx P :=
           itaurho P * g9 s (current_pos P t) + tmp1_9 P t s + tmp2_9 P t s)
      else g9 s)"
  by (simp add: kernel_def Let_def)

lemma kernel_g10:
  "g10 (kernel P t s) =
     (if i t \<le> nx P \<and> j t \<le> ny P \<and> z t \<le> nz P then
        (g10 s)(m P t + next P - 1 + ldx P :=
           itaurho P * g10 s (current_pos P t) + tmp1_9 P t s - tmp2_9 P t s)
      else g10 s)"
  by (simp add: kernel_def Let_def)

lemma kernel_g11:
  "g11 (kernel P t s) =
     (if i t \<le> nx P \<and> j t \<le> ny P \<and> z t \<le> nz P then
        (g11 s)(m P t + next P + 1 + ldx P * ldy P :=
           itaurho P * g11 s (current_pos P t) + tmp1_11 P t s + tmp2_11 P t s)
      else g11 s)"
  by (simp add: kernel_def Let_def)

lemma kernel_g12:
  "g12 (kernel P t s) =
     (if i t \<le> nx P \<and> j t \<le> ny P \<and> z t \<le> nz P then
        (g12 s)(m P t + next P - 1 - ldx P * ldy P :=
           itaurho P * g12 s (current_pos P t) + tmp1_11 P t s - tmp2_11 P t s)
      else g12 s)"
  by (simp add: kernel_def Let_def)

lemma kernel_g13:
  "g13 (kernel P t s) =
     (if i t \<le> nx P \<and> j t \<le> ny P \<and> z t \<le> nz P then
        (g13 s)(m P t + next P + 1 - ldx P * ldy P :=
           itaurho P * g13 s (current_pos P t) + tmp1_13 P t s + tmp2_13 P t s)
      else g13 s)"
  by (simp add: kernel_def Let_def)

lemma kernel_g14:
  "g14 (kernel P t s) =
     (if i t \<le> nx P \<and> j t \<le> ny P \<and> z t \<le> nz P then
        (g14 s)(m P t + next P - 1 + ldx P * ldy P :=
           itaurho P * g14 s (current_pos P t) + tmp1_13 P t s - tmp2_13 P t s)
      else g14 s)"
  by (simp add: kernel_def Let_def)

lemma kernel_g15:
  "g15 (kernel P t s) =
     (if i t \<le> nx P \<and> j t \<le> ny P \<and> z t \<le> nz P then
        (g15 s)(m P t + next P + ldx P + ldx P * ldy P :=
           itaurho P * g15 s (current_pos P t) + tmp1_15 P t s + tmp2_15 P t s)
      else g15 s)"
  by (simp add: kernel_def Let_def)

lemma kernel_g16:
  "g16 (kernel P t s) =
     (if i t \<le> nx P \<and> j t \<le> ny P \<and> z t \<le> nz P then
        (g16 s)(m P t + next P - ldx P - ldx P * ldy P :=
           itaurho P * g16 s (current_pos P t) + tmp1_15 P t s - tmp2_15 P t s)
      else g16 s)"
  by (simp add: kernel_def Let_def)

lemma kernel_g17:
  "g17 (kernel P t s) =
     (if i t \<le> nx P \<and> j t \<le> ny P \<and> z t \<le> nz P then
        (g17 s)(m P t + next P + ldx P - ldx P * ldy P :=
           itaurho P * g17 s (current_pos P t) + tmp1_17 P t s + tmp2_17 P t s)
      else g17 s)"
  by (simp add: kernel_def Let_def)

lemma kernel_g18:
  "g18 (kernel P t s) =
     (if i t \<le> nx P \<and> j t \<le> ny P \<and> z t \<le> nz P then
        (g18 s)(m P t + next P - ldx P + ldx P * ldy P :=
           itaurho P * g18 s (current_pos P t) + tmp1_17 P t s - tmp2_17 P t s)
      else g18 s)"
  by (simp add: kernel_def Let_def)

lemmas kernel_fields =
  kernel_phi kernel_laplacian_phi kernel_grad_phi_x kernel_grad_phi_y kernel_grad_phi_z kernel_f0
  kernel_f1 kernel_f2 kernel_f3 kernel_f4 kernel_f5 kernel_f6
  kernel_g0 kernel_g1 kernel_g2 kernel_g3 kernel_g4 kernel_g5
  kernel_g6 kernel_g7 kernel_g8 kernel_g9 kernel_g10 kernel_g11
  kernel_g12 kernel_g13 kernel_g14 kernel_g15 kernel_g16 kernel_g17
  kernel_g18

section \<open>The parameter \<open>grav\<close> is never read\<close>

lemma m_grav: "m (P\<lparr>grav := a\<rparr>) t = m P t"
  by (simp add: m_def)

lemma current_pos_grav: "current_pos (P\<lparr>grav := a\<rparr>) t = current_pos P t"
  by (simp add: current_pos_def m_grav)

lemma current_phi_grav: "current_phi (P\<lparr>grav := a\<rparr>) t s = current_phi P t s"
  by (simp add: current_phi_def m_grav)

lemma current_phi_2_grav: "current_phi_2 (P\<lparr>grav := a\<rparr>) t s = current_phi_2 P t s"
  by (simp add: current_phi_2_def current_phi_grav)

lemma rho_grav: "rho (P\<lparr>grav := a\<rparr>) t s = rho P t s"
  by (simp add: rho_def m_grav current_pos_grav)

lemma irho_grav: "irho (P\<lparr>grav := a\<rparr>) t s = irho P t s"
  by (simp add: irho_def rho_grav)

lemma mu_phi_grav: "mu_phi (P\<lparr>grav := a\<rparr>) t s = mu_phi P t s"
  by (simp add: mu_phi_def current_phi_grav current_phi_2_grav m_grav)

lemma fx_grav: "fx (P\<lparr>grav := a\<rparr>) t s = fx P t s"
  by (simp add: fx_def mu_phi_grav m_grav)

lemma ux_grav: "ux (P\<lparr>grav := a\<rparr>) t s = ux P t s"
  by (simp add: ux_def current_pos_grav fx_grav irho_grav)

lemma fy_grav: "fy (P\<lparr>grav := a\<rparr>) t s = fy P t s"
  by (simp add: fy_def mu_phi_grav m_grav)

lemma uy_grav: "uy (P\<lparr>grav := a\<rparr>) t s = uy P t s"
  by (simp add: uy_def current_pos_grav fy_grav irho_grav)

lemma fz_grav: "fz (P\<lparr>grav := a\<rparr>) t s = fz P t s"
  by (simp add: fz_def mu_phi_grav m_grav)

lemma uz_grav: "uz (P\<lparr>grav := a\<rparr>) t s = uz P t s"
  by (simp add: uz_def current_pos_grav fz_grav irho_grav)

lemma af_grav: "af (P\<lparr>grav := a\<rparr>) t s = af P t s"
  by (simp add: af_def mu_phi_grav)

lemma cf_grav: "cf (P\<lparr>grav := a\<rparr>) t s = cf P t s"
  by (simp add: cf_def current_phi_grav)

lemma ag_grav: "ag (P\<lparr>grav := a\<rparr>) t s = ag P t s"
  by (simp add: ag_def current_phi_grav mu_phi_grav rho_grav)

lemma v_grav: "v (P\<lparr>grav := a\<rparr>) t s = v P t s"
  by (simp add: v_def ux_grav uy_grav uz_grav)

lemma uf_grav: "uf (P\<lparr>grav := a\<rparr>) t s = uf P t s"
  by (simp add: uf_def ux_grav uy_grav uz_grav fx_grav fy_grav fz_grav)

lemma eg1ag_grav: "eg1ag (P\<lparr>grav := a\<rparr>) t s = eg1ag P t s"
  by (simp add: eg1ag_def ag_grav)

lemma eg1rho_grav: "eg1rho (P\<lparr>grav := a\<rparr>) t s = eg1rho P t s"
  by (simp add: eg1rho_def rho_grav)

lemma eg2ag_grav: "eg2ag (P\<lparr>grav := a\<rparr>) t s = eg2ag P t s"
  by (simp add: eg2ag_def ag_grav)

lemma eg2rho_grav: "eg2rho (P\<lparr>grav := a\<rparr>) t s = eg2rho P t s"
  by (simp add: eg2rho_def rho_grav)

lemma tmp1_1_grav: "tmp1_1 (P\<lparr>grav := a\<rparr>) t s = tmp1_1 P t s"
  by (simp add: tmp1_1_def eg1ag_grav eg1rho_grav ux_grav fx_grav v_grav uf_grav)

lemma tmp2_1_grav: "tmp2_1 (P\<lparr>grav := a\<rparr>) t s = tmp2_1 P t s"
  by (simp add: tmp2_1_def eg1rho_grav ux_grav fx_grav)

lemma tmp1_3_grav: "tmp1_3 (P\<lparr>grav := a\<rparr>) t s = tmp1_3 P t s"
  by (simp add: tmp1_3_def eg1ag_grav eg1rho_grav uy_grav fy_grav v_grav uf_grav)

lemma tmp2_3_grav: "tmp2_3 (P\<lparr>grav := a\<rparr>) t s = tmp2_3 P t s"
  by (simp add: tmp2_3_def eg1rho_grav uy_grav fy_grav)

lemma tmp1_5_grav: "tmp1_5 (P\<lparr>grav := a\<rparr>) t s = tmp1_5 P t s"
  by (simp add: tmp1_5_def eg1ag_grav eg1rho_grav uz_grav fz_grav v_grav uf_grav)

lemma tmp2_5_grav: "tmp2_5 (P\<lparr>grav := a\<rparr>) t s = tmp2_5 P t s"
  by (simp add: tmp2_5_def eg1rho_grav uz_grav fz_grav)

lemma tmp1_7_grav: "tmp1_7 (P\<lparr>grav := a\<rparr>) t s = tmp1_7 P t s"
  by (simp add: tmp1_7_def eg2ag_grav eg2rho_grav ux_grav uy_grav fx_grav fy_grav v_grav uf_grav)

lemma tmp2_7_grav: "tmp2_7 (P\<lparr>grav := a\<rparr>) t s = tmp2_7 P t s"
  by (simp add: tmp2_7_def eg2rho_grav ux_grav uy_grav fx_grav fy_grav)

lemma tmp1_9_grav: "tmp1_9 (P\<lparr>grav := a\<rparr>) t s = tmp1_9 P t s"
  by (simp add: tmp1_9_def eg2ag_grav eg2rho_grav ux_grav uy_grav fx_grav fy_grav v_grav uf_grav)

lemma tmp2_9_grav: "tmp2_9 (P\<lparr>grav := a\<rparr>) t s = tmp2_9 P t s"
  by (simp add: tmp2_9_def eg2rho_grav ux_grav uy_grav fx_grav fy_grav)

lemma tmp1_11_grav: "tmp1_11 (P\<lparr>grav := a\<rparr>) t s = tmp1_11 P t s"
  by (simp add: tmp1_11_def eg2ag_grav eg2rho_grav ux_grav uz_grav fx_grav fz_grav v_grav uf_grav)

lemma tmp2_11_grav: "tmp2_11 (P\<lparr>grav := a\<rparr>) t s = tmp2_11 P t s"
  by (simp add: tmp2_11_def eg2rho_grav ux_grav uz_grav fx_grav fz_grav)

lemma tmp1_13_grav: "tmp1_13 (P\<lparr>grav := a\<rparr>) t s = tmp1_13 P t s"
  by (simp add: tmp1_13_def eg2ag_grav eg2rho_grav ux_grav uz_grav fx_grav fz_grav v_grav uf_grav)

lemma tmp2_13_grav: "tmp2_13 (P\<lparr>grav := a\<rparr>) t s = tmp2_13 P t s"
  by (simp add: tmp2_13_def eg2rho_grav ux_grav uz_grav fx_grav fz_grav)

lemma tmp1_15_grav: "tmp1_15 (P\<lparr>grav := a\<rparr>) t s = tmp1_15 P t s"
  by (simp add: tmp1_15_def eg2ag_grav eg2rho_grav uy_grav uz_grav fy_grav fz_grav v_grav uf_grav)

lemma tmp2_15_grav: "tmp2_15 (P\<lparr>grav := a\<rparr>) t s = tmp2_15 P t s"
  by (simp add: tmp2_15_def eg2rho_grav uy_grav uz_grav fy_grav fz_grav)

lemma tmp1_17_grav: "tmp1_17 (P\<lparr>grav := a\<rparr>) t s = tmp1_17 P t s"
  by (simp add: tmp1_17_def eg2ag_grav eg2rho_grav uy_grav uz_grav fy_grav fz_grav v_grav uf_grav)

lemma tmp2_17_grav: "tmp2_17 (P\<lparr>grav := a\<rparr>) t s = tmp2_17 P t s"
  by (simp add: tmp2_17_def eg2rho_grav uy_grav uz_grav fy_grav fz_grav)

lemmas locals_grav =
  m_grav current_pos_grav current_phi_grav current_phi_2_grav rho_grav irho_grav mu_phi_grav
  fx_grav ux_grav fy_grav uy_grav fz_grav uz_grav af_grav
  cf_grav ag_grav v_grav uf_grav eg1ag_grav eg1rho_grav eg2ag_grav
  eg2rho_grav tmp1_1_grav tmp2_1_grav tmp1_3_grav tmp2_3_grav tmp1_5_grav tmp2_5_grav
  tmp1_7_grav tmp2_7_grav tmp1_9_grav tmp2_9_grav tmp1_11_grav tmp2_11_grav tmp1_13_grav
  tmp2_13_grav tmp1_15_grav tmp2_15_grav tmp1_17_grav tmp2_17_grav

lemma kernel_grav: "kernel (P\<lparr>grav := a\<rparr>) t s = kernel P t s"
  by (simp add: kernel_def locals_grav)

section \<open>The local values depend on the local inputs only\<close>

text \<open>
  Two threads, each on a memory of its own, whose 31 local inputs agree compute the same
  local values.
\<close>

lemma local_inputs_eqD:
  assumes "local_inputs P t s = local_inputs P t' s'"
  shows "phi s (m P t) = phi s' (m P t')" "laplacian_phi s (m P t) = laplacian_phi s' (m P t')"
    "grad_phi_x s (m P t) = grad_phi_x s' (m P t')" "grad_phi_y s (m P t) = grad_phi_y s' (m P t')"
    "grad_phi_z s (m P t) = grad_phi_z s' (m P t')"
    "f0 s (m P t) = f0 s' (m P t')"
    "f1 s (current_pos P t) = f1 s' (current_pos P t')"
    "f2 s (current_pos P t) = f2 s' (current_pos P t')"
    "f3 s (current_pos P t) = f3 s' (current_pos P t')"
    "f4 s (current_pos P t) = f4 s' (current_pos P t')"
    "f5 s (current_pos P t) = f5 s' (current_pos P t')"
    "f6 s (current_pos P t) = f6 s' (current_pos P t')"
    "g0 s (m P t) = g0 s' (m P t')"
    "g1 s (current_pos P t) = g1 s' (current_pos P t')"
    "g2 s (current_pos P t) = g2 s' (current_pos P t')"
    "g3 s (current_pos P t) = g3 s' (current_pos P t')"
    "g4 s (current_pos P t) = g4 s' (current_pos P t')"
    "g5 s (current_pos P t) = g5 s' (current_pos P t')"
    "g6 s (current_pos P t) = g6 s' (current_pos P t')"
    "g7 s (current_pos P t) = g7 s' (current_pos P t')"
    "g8 s (current_pos P t) = g8 s' (current_pos P t')"
    "g9 s (current_pos P t) = g9 s' (current_pos P t')"
    "g10 s (current_pos P t) = g10 s' (current_pos P t')"
    "g11 s (current_pos P t) = g11 s' (current_pos P t')"
    "g12 s (current_pos P t) = g12 s' (current_pos P t')"
    "g13 s (current_pos P t) = g13 s' (current_pos P t')"
    "g14 s (current_pos P t) = g14 s' (current_pos P t')"
    "g15 s (current_pos P t) = g15 s' (current_pos P t')"
    "g16 s (current_pos P t) = g16 s' (current_pos P t')"
    "g17 s (current_pos P t) = g17 s' (current_pos P t')"
    "g18 s (current_pos P t) = g18 s' (current_pos P t')"
  using assms by (simp_all add: local_inputs_def current_pos_def)

lemma current_phi_local:
  assumes L: "local_inputs P t s = local_inputs P t' s'"
  shows "current_phi P t s = current_phi P t' s'"
  by (simp add: current_phi_def local_inputs_eqD [OF L])

lemma current_phi_2_local:
  assumes L: "local_inputs P t s = local_inputs P t' s'"
  shows "current_phi_2 P t s = current_phi_2 P t' s'"
  by (simp add: current_phi_2_def current_phi_local [OF L] local_inputs_eqD [OF L])

lemma rho_local:
  assumes L: "local_inputs P t s = local_inputs P t' s'"
  shows "rho P t s = rho P t' s'"
  by (simp add: rho_def local_inputs_eqD [OF L])

lemma irho_local:
  assumes L: "local_inputs P t s = local_inputs P t' s'"
  shows "irho P t s = irho P t' s'"
  by (simp add: irho_def rho_local [OF L] local_inputs_eqD [OF L])

lemma mu_phi_local:
  assumes L: "local_inputs P t s = local_inputs P t' s'"
  shows "mu_phi P t s = mu_phi P t' s'"
  by (simp add: mu_phi_def current_phi_local [OF L] current_phi_2_local [OF L] local_inputs_eqD [OF L])

lemma fx_local:
  assumes L: "local_inputs P t s = local_inputs P t' s'"
  shows "fx P t s = fx P t' s'"
  by (simp add: fx_def mu_phi_local [OF L] local_inputs_eqD [OF L])

lemma ux_local:
  assumes L: "local_inputs P t s = local_inputs P t' s'"
  shows "ux P t s = ux P t' s'"
  by (simp add: ux_def fx_local [OF L] irho_local [OF L] local_inputs_eqD [OF L])

lemma fy_local:
  assumes L: "local_inputs P t s = local_inputs P t' s'"
  shows "fy P t s = fy P t' s'"
  by (simp add: fy_def mu_phi_local [OF L] local_inputs_eqD [OF L])

lemma uy_local:
  assumes L: "local_inputs P t s = local_inputs P t' s'"
  shows "uy P t s = uy P t' s'"
  by (simp add: uy_def fy_local [OF L] irho_local [OF L] local_inputs_eqD [OF L])

lemma fz_local:
  assumes L: "local_inputs P t s = local_inputs P t' s'"
  shows "fz P t s = fz P t' s'"
  by (simp add: fz_def mu_phi_local [OF L] local_inputs_eqD [OF L])

lemma uz_local:
  assumes L: "local_inputs P t s = local_inputs P t' s'"
  shows "uz P t s = uz P t' s'"
  by (simp add: uz_def fz_local [OF L] irho_local [OF L] local_inputs_eqD [OF L])

lemma af_local:
  assumes L: "local_inputs P t s = local_inputs P t' s'"
  shows "af P t s = af P t' s'"
  by (simp add: af_def mu_phi_local [OF L] local_inputs_eqD [OF L])

lemma cf_local:
  assumes L: "local_inputs P t s = local_inputs P t' s'"
  shows "cf P t s = cf P t' s'"
  by (simp add: cf_def current_phi_local [OF L] local_inputs_eqD [OF L])

lemma ag_local:
  assumes L: "local_inputs P t s = local_inputs P t' s'"
  shows "ag P t s = ag P t' s'"
  by (simp add: ag_def current_phi_local [OF L] mu_phi_local [OF L] rho_local [OF L] local_inputs_eqD [OF L])

lemma v_local:
  assumes L: "local_inputs P t s = local_inputs P t' s'"
  shows "v P t s = v P t' s'"
  by (simp add: v_def ux_local [OF L] uy_local [OF L] uz_local [OF L] local_inputs_eqD [OF L])

lemma uf_local:
  assumes L: "local_inputs P t s = local_inputs P t' s'"
  shows "uf P t s = uf P t' s'"
  by (simp add: uf_def ux_local [OF L] uy_local [OF L] uz_local [OF L] fx_local [OF L] fy_local [OF L] fz_local [OF L] local_inputs_eqD [OF L])

lemma eg1ag_local:
  assumes L: "local_inputs P t s = local_inputs P t' s'"
  shows "eg1ag P t s = eg1ag P t' s'"
  by (simp add: eg1ag_def ag_local [OF L] local_inputs_eqD [OF L])

lemma eg1rho_local:
  assumes L: "local_inputs P t s = local_inputs P t' s'"
  shows "eg1rho P t s = eg1rho P t' s'"
  by (simp add: eg1rho_def rho_local [OF L] local_inputs_eqD [OF L])

lemma eg2ag_local:
  assumes L: "local_inputs P t s = local_inputs P t' s'"
  shows "eg2ag P t s = eg2ag P t' s'"
  by (simp add: eg2ag_def ag_local [OF L] local_inputs_eqD [OF L])

lemma eg2rho_local:
  assumes L: "local_inputs P t s = local_inputs P t' s'"
  shows "eg2rho P t s = eg2rho P t' s'"
  by (simp add: eg2rho_def rho_local [OF L] local_inputs_eqD [OF L])

lemma tmp1_1_local:
  assumes L: "local_inputs P t s = local_inputs P t' s'"
  shows "tmp1_1 P t s = tmp1_1 P t' s'"
  by (simp add: tmp1_1_def eg1ag_local [OF L] eg1rho_local [OF L] ux_local [OF L] fx_local [OF L] v_local [OF L] uf_local [OF L] local_inputs_eqD [OF L])

lemma tmp2_1_local:
  assumes L: "local_inputs P t s = local_inputs P t' s'"
  shows "tmp2_1 P t s = tmp2_1 P t' s'"
  by (simp add: tmp2_1_def eg1rho_local [OF L] ux_local [OF L] fx_local [OF L] local_inputs_eqD [OF L])

lemma tmp1_3_local:
  assumes L: "local_inputs P t s = local_inputs P t' s'"
  shows "tmp1_3 P t s = tmp1_3 P t' s'"
  by (simp add: tmp1_3_def eg1ag_local [OF L] eg1rho_local [OF L] uy_local [OF L] fy_local [OF L] v_local [OF L] uf_local [OF L] local_inputs_eqD [OF L])

lemma tmp2_3_local:
  assumes L: "local_inputs P t s = local_inputs P t' s'"
  shows "tmp2_3 P t s = tmp2_3 P t' s'"
  by (simp add: tmp2_3_def eg1rho_local [OF L] uy_local [OF L] fy_local [OF L] local_inputs_eqD [OF L])

lemma tmp1_5_local:
  assumes L: "local_inputs P t s = local_inputs P t' s'"
  shows "tmp1_5 P t s = tmp1_5 P t' s'"
  by (simp add: tmp1_5_def eg1ag_local [OF L] eg1rho_local [OF L] uz_local [OF L] fz_local [OF L] v_local [OF L] uf_local [OF L] local_inputs_eqD [OF L])

lemma tmp2_5_local:
  assumes L: "local_inputs P t s = local_inputs P t' s'"
  shows "tmp2_5 P t s = tmp2_5 P t' s'"
  by (simp add: tmp2_5_def eg1rho_local [OF L] uz_local [OF L] fz_local [OF L] local_inputs_eqD [OF L])

lemma tmp1_7_local:
  assumes L: "local_inputs P t s = local_inputs P t' s'"
  shows "tmp1_7 P t s = tmp1_7 P t' s'"
  by (simp add: tmp1_7_def eg2ag_local [OF L] eg2rho_local [OF L] ux_local [OF L] uy_local [OF L] fx_local [OF L] fy_local [OF L] v_local [OF L] uf_local [OF L] local_inputs_eqD [OF L])

lemma tmp2_7_local:
  assumes L: "local_inputs P t s = local_inputs P t' s'"
  shows "tmp2_7 P t s = tmp2_7 P t' s'"
  by (simp add: tmp2_7_def eg2rho_local [OF L] ux_local [OF L] uy_local [OF L] fx_local [OF L] fy_local [OF L] local_inputs_eqD [OF L])

lemma tmp1_9_local:
  assumes L: "local_inputs P t s = local_inputs P t' s'"
  shows "tmp1_9 P t s = tmp1_9 P t' s'"
  by (simp add: tmp1_9_def eg2ag_local [OF L] eg2rho_local [OF L] ux_local [OF L] uy_local [OF L] fx_local [OF L] fy_local [OF L] v_local [OF L] uf_local [OF L] local_inputs_eqD [OF L])

lemma tmp2_9_local:
  assumes L: "local_inputs P t s = local_inputs P t' s'"
  shows "tmp2_9 P t s = tmp2_9 P t' s'"
  by (simp add: tmp2_9_def eg2rho_local [OF L] ux_local [OF L] uy_local [OF L] fx_local [OF L] fy_local [OF L] local_inputs_eqD [OF L])

lemma tmp1_11_local:
  assumes L: "local_inputs P t s = local_inputs P t' s'"
  shows "tmp1_11 P t s = tmp1_11 P t' s'"
  by (simp add: tmp1_11_def eg2ag_local [OF L] eg2rho_local [OF L] ux_local [OF L] uz_local [OF L] fx_local [OF L] fz_local [OF L] v_local [OF L] uf_local [OF L] local_inputs_eqD [OF L])

lemma tmp2_11_local:
  assumes L: "local_inputs P t s = local_inputs P t' s'"
  shows "tmp2_11 P t s = tmp2_11 P t' s'"
  by (simp add: tmp2_11_def eg2rho_local [OF L] ux_local [OF L] uz_local [OF L] fx_local [OF L] fz_local [OF L] local_inputs_eqD [OF L])

lemma tmp1_13_local:
  assumes L: "local_inputs P t s = local_inputs P t' s'"
  shows "tmp1_13 P t s = tmp1_13 P t' s'"
  by (simp add: tmp1_13_def eg2ag_local [OF L] eg2rho_local [OF L] ux_local [OF L] uz_local [OF L] fx_local [OF L] fz_local [OF L] v_local [OF L] uf_local [OF L] local_inputs_eqD [OF L])

lemma tmp2_13_local:
  assumes L: "local_inputs P t s = local_inputs P t' s'"
  shows "tmp2_13 P t s = tmp2_13 P t' s'"
  by (simp add: tmp2_13_def eg2rho_local [OF L] ux_local [OF L] uz_local [OF L] fx_local [OF L] fz_local [OF L] local_inputs_eqD [OF L])

lemma tmp1_15_local:
  assumes L: "local_inputs P t s = local_inputs P t' s'"
  shows "tmp1_15 P t s = tmp1_15 P t' s'"
  by (simp add: tmp1_15_def eg2ag_local [OF L] eg2rho_local [OF L] uy_local [OF L] uz_local [OF L] fy_local [OF L] fz_local [OF L] v_local [OF L] uf_local [OF L] local_inputs_eqD [OF L])

lemma tmp2_15_local:
  assumes L: "local_inputs P t s = local_inputs P t' s'"
  shows "tmp2_15 P t s = tmp2_15 P t' s'"
  by (simp add: tmp2_15_def eg2rho_local [OF L] uy_local [OF L] uz_local [OF L] fy_local [OF L] fz_local [OF L] local_inputs_eqD [OF L])

lemma tmp1_17_local:
  assumes L: "local_inputs P t s = local_inputs P t' s'"
  shows "tmp1_17 P t s = tmp1_17 P t' s'"
  by (simp add: tmp1_17_def eg2ag_local [OF L] eg2rho_local [OF L] uy_local [OF L] uz_local [OF L] fy_local [OF L] fz_local [OF L] v_local [OF L] uf_local [OF L] local_inputs_eqD [OF L])

lemma tmp2_17_local:
  assumes L: "local_inputs P t s = local_inputs P t' s'"
  shows "tmp2_17 P t s = tmp2_17 P t' s'"
  by (simp add: tmp2_17_def eg2rho_local [OF L] uy_local [OF L] uz_local [OF L] fy_local [OF L] fz_local [OF L] local_inputs_eqD [OF L])

lemmas locals_local =
  current_phi_local current_phi_2_local rho_local irho_local mu_phi_local fx_local ux_local
  fy_local uy_local fz_local uz_local af_local cf_local ag_local
  v_local uf_local eg1ag_local eg1rho_local eg2ag_local eg2rho_local tmp1_1_local
  tmp2_1_local tmp1_3_local tmp2_3_local tmp1_5_local tmp2_5_local tmp1_7_local tmp2_7_local
  tmp1_9_local tmp2_9_local tmp1_11_local tmp2_11_local tmp1_13_local tmp2_13_local tmp1_15_local
  tmp2_15_local tmp1_17_local tmp2_17_local

section \<open>Facts about the concrete launch\<close>

lemma example_thread_inside:
  "i example_thread \<le> nx example_params" "j example_thread \<le> ny example_params"
  "z example_thread \<le> nz example_params"
  by (simp_all add: i_def j_def z_def example_thread_def example_params_def)

lemma example_site: "m example_params example_thread = 31"
  by (simp add: m_def i_def j_def z_def example_thread_def example_params_def)

lemmas locals_defs =
  m_def current_pos_def current_phi_def current_phi_2_def rho_def irho_def mu_phi_def fx_def ux_def fy_def uy_def fz_def uz_def af_def cf_def ag_def v_def uf_def eg1ag_def eg1rho_def eg2ag_def eg2rho_def tmp1_1_def tmp2_1_def tmp1_3_def tmp2_3_def tmp1_5_def tmp2_5_def tmp1_7_def tmp2_7_def tmp1_9_def tmp2_9_def tmp1_11_def tmp2_11_def tmp1_13_def tmp2_13_def tmp1_15_def tmp2_15_def tmp1_17_def tmp2_17_def

lemma example_values:
  "rho example_params example_thread example_arrays = 1" "mu_phi example_params example_thread example_arrays = - (3 / 8)"
  "ux example_params example_thread example_arrays = 0" "uy example_params example_thread example_arrays = 0" "uz example_params example_thread example_arrays = 0"
  "fx example_params example_thread example_arrays = 0" "fy example_params example_thread example_arrays = 0" "fz example_params example_thread example_arrays = 0"
  "tmp1_1 example_params example_thread example_arrays = 7 / 288" "tmp2_1 example_params example_thread example_arrays = 0"
  "tmp1_3 example_params example_thread example_arrays = 7 / 288" "tmp2_3 example_params example_thread example_arrays = 0"
  "tmp1_5 example_params example_thread example_arrays = 7 / 288" "tmp2_5 example_params example_thread example_arrays = 0"
  "tmp1_7 example_params example_thread example_arrays = 7 / 576" "tmp2_7 example_params example_thread example_arrays = 0"
  "tmp1_9 example_params example_thread example_arrays = 7 / 576" "tmp2_9 example_params example_thread example_arrays = 0"
  "tmp1_11 example_params example_thread example_arrays = 7 / 576" "tmp2_11 example_params example_thread example_arrays = 0"
  "tmp1_13 example_params example_thread example_arrays = 7 / 576" "tmp2_13 example_params example_thread example_arrays = 0"
  "tmp1_15 example_params example_thread example_arrays = 7 / 576" "tmp2_15 example_params example_thread example_arrays = 0"
  "tmp1_17 example_params example_thread example_arrays = 7 / 576" "tmp2_17 example_params example_thread example_arrays = 0"
  by (simp_all add: locals_defs example_site [unfolded m_def] example_params_def example_arrays_def)

section \<open>What a pass can change\<close>

lemma changed_fun_upd: "changed a (a(n := x)) \<subseteq> {n}"
  by (auto simp add: changed_def)

lemma changed_trans: "changed a c \<subseteq> changed a b \<union> changed b c"
  by (auto simp add: changed_def)

text \<open>
  An array that one thread stores to at one index, and only when the guard holds, differs
  after a pass at most at the indices of the threads of the pass that pass the guard.
\<close>

lemma fold_changed:
  fixes sel :: "arrays \<Rightarrow> int \<Rightarrow> real"
  assumes eff: "\<And>t s. sel (kernel P t s) = (if G t then (sel s)(tg t := val t s) else sel s)"
  shows "changed (sel s) (sel (fold (kernel P) ts s)) \<subseteq> tg ` {t \<in> set ts. G t}"
proof (induction ts arbitrary: s)
  case Nil
  show ?case
    by (simp add: changed_def)
next
  case (Cons t ts)
  have one: "changed (sel s) (sel (kernel P t s)) \<subseteq> tg ` {u \<in> set (t # ts). G u}"
    using changed_fun_upd [of "sel s" "tg t" "val t s"]
    by (cases "G t") (auto simp add: eff changed_def)
  have rest: "changed (sel (kernel P t s)) (sel (fold (kernel P) ts (kernel P t s)))
      \<subseteq> tg ` {u \<in> set (t # ts). G u}"
    using Cons.IH [of "kernel P t s"] by auto
  show ?case
    using changed_trans [of "sel s" "sel (fold (kernel P) ts (kernel P t s))" "sel (kernel P t s)"]
      one rest
    by auto
qed

lemma fold_unchanged:
  fixes sel :: "arrays \<Rightarrow> int \<Rightarrow> real"
  assumes eff: "\<And>t s. sel (kernel P t s) = sel s"
  shows "sel (fold (kernel P) ts s) = sel s"
  by (induction ts arbitrary: s) (simp_all add: eff)

lemma site_in_region:
  assumes "0 \<le> i t" "0 \<le> j t" "0 \<le> z t" "i t \<le> nx P" "j t \<le> ny P" "z t \<le> nz P"
  shows "m P t \<in> region P"
  using assms unfolding region_def m_def by (intro image_eqI [where x = "(i t, j t, z t)"]) simp_all

lemma targets_in_region:
  assumes "\<forall>t\<in>set ts. 0 \<le> i t \<and> 0 \<le> j t \<and> 0 \<le> z t"
  shows "(\<lambda>t. h (m P t)) ` {t \<in> set ts. i t \<le> nx P \<and> j t \<le> ny P \<and> z t \<le> nz P} \<subseteq> h ` region P"
  using assms site_in_region [of _ P] by auto

lemma displacement_values:
  "displacement P 1 = 1" "displacement P 2 = - 1"
  "displacement P 3 = ldx P" "displacement P 4 = - ldx P"
  "displacement P 5 = ldx P * ldy P" "displacement P 6 = - (ldx P * ldy P)"
  "displacement P 7 = 1 + ldx P" "displacement P 8 = - 1 - ldx P"
  "displacement P 9 = 1 - ldx P" "displacement P 10 = - 1 + ldx P"
  "displacement P 11 = 1 + ldx P * ldy P" "displacement P 12 = - 1 - ldx P * ldy P"
  "displacement P 13 = 1 - ldx P * ldy P" "displacement P 14 = - 1 + ldx P * ldy P"
  "displacement P 15 = ldx P + ldx P * ldy P" "displacement P 16 = - ldx P - ldx P * ldy P"
  "displacement P 17 = ldx P - ldx P * ldy P" "displacement P 18 = - ldx P + ldx P * ldy P"
  by (simp_all add: displacement_def step_x_def step_y_def step_z_def)

lemma target_index:
  "m P t + next P + displacement P 1 = m P t + next P + 1"
  "m P t + next P + displacement P 2 = m P t + next P - 1"
  "m P t + next P + displacement P 3 = m P t + next P + ldx P"
  "m P t + next P + displacement P 4 = m P t + next P - ldx P"
  "m P t + next P + displacement P 5 = m P t + next P + ldx P * ldy P"
  "m P t + next P + displacement P 6 = m P t + next P - ldx P * ldy P"
  "m P t + next P + displacement P 7 = m P t + next P + 1 + ldx P"
  "m P t + next P + displacement P 8 = m P t + next P - 1 - ldx P"
  "m P t + next P + displacement P 9 = m P t + next P + 1 - ldx P"
  "m P t + next P + displacement P 10 = m P t + next P - 1 + ldx P"
  "m P t + next P + displacement P 11 = m P t + next P + 1 + ldx P * ldy P"
  "m P t + next P + displacement P 12 = m P t + next P - 1 - ldx P * ldy P"
  "m P t + next P + displacement P 13 = m P t + next P + 1 - ldx P * ldy P"
  "m P t + next P + displacement P 14 = m P t + next P - 1 + ldx P * ldy P"
  "m P t + next P + displacement P 15 = m P t + next P + ldx P + ldx P * ldy P"
  "m P t + next P + displacement P 16 = m P t + next P - ldx P - ldx P * ldy P"
  "m P t + next P + displacement P 17 = m P t + next P + ldx P - ldx P * ldy P"
  "m P t + next P + displacement P 18 = m P t + next P - ldx P + ldx P * ldy P"
  unfolding displacement_values by simp_all

lemma pass_changed_f0:
  assumes "\<forall>t\<in>set ts. 0 \<le> i t \<and> 0 \<le> j t \<and> 0 \<le> z t"
  shows "changed (f0 s) (f0 (pass P ts s)) \<subseteq> region P"
proof -
  have "changed (f0 s) (f0 (fold (kernel P) ts s))
      \<subseteq> (\<lambda>t. m P t) ` {t \<in> set ts. i t \<le> nx P \<and> j t \<le> ny P \<and> z t \<le> nz P}"
    by (rule fold_changed [where sel = f0 and G = "\<lambda>t. i t \<le> nx P \<and> j t \<le> ny P \<and> z t \<le> nz P"
          and tg = "\<lambda>t. m P t"
          and val = "\<lambda>t s. itauphi1 P * f0 s (m P t) + - 3.0 * gamma P * mu_phi P t s * itauphi P + itauphi P * current_phi P t s"])
      (simp only: kernel_f0 current_pos_def )
  then show ?thesis
    using targets_in_region [OF assms, of "\<lambda>q. q" P] by (simp add: pass_def)
qed

lemma pass_changed_f1:
  assumes "\<forall>t\<in>set ts. 0 \<le> i t \<and> 0 \<le> j t \<and> 0 \<le> z t"
  shows "changed (f1 s) (f1 (pass P ts s)) \<subseteq> (\<lambda>q. q + current P) ` region P"
proof -
  have "changed (f1 s) (f1 (fold (kernel P) ts s))
      \<subseteq> (\<lambda>t. m P t + current P) ` {t \<in> set ts. i t \<le> nx P \<and> j t \<le> ny P \<and> z t \<le> nz P}"
    by (rule fold_changed [where sel = f1 and G = "\<lambda>t. i t \<le> nx P \<and> j t \<le> ny P \<and> z t \<le> nz P"
          and tg = "\<lambda>t. m P t + current P"
          and val = "\<lambda>t s. itauphi1 P * f1 s (m P t + current P) + af P t s + cf P t s * ux P t s"])
      (simp only: kernel_f1 current_pos_def )
  then show ?thesis
    using targets_in_region [OF assms, of "\<lambda>q. q + current P" P] by (simp add: pass_def)
qed

lemma pass_changed_f2:
  assumes "\<forall>t\<in>set ts. 0 \<le> i t \<and> 0 \<le> j t \<and> 0 \<le> z t"
  shows "changed (f2 s) (f2 (pass P ts s)) \<subseteq> (\<lambda>q. q + current P) ` region P"
proof -
  have "changed (f2 s) (f2 (fold (kernel P) ts s))
      \<subseteq> (\<lambda>t. m P t + current P) ` {t \<in> set ts. i t \<le> nx P \<and> j t \<le> ny P \<and> z t \<le> nz P}"
    by (rule fold_changed [where sel = f2 and G = "\<lambda>t. i t \<le> nx P \<and> j t \<le> ny P \<and> z t \<le> nz P"
          and tg = "\<lambda>t. m P t + current P"
          and val = "\<lambda>t s. itauphi1 P * f2 s (m P t + current P) + af P t s - cf P t s * ux P t s"])
      (simp only: kernel_f2 current_pos_def )
  then show ?thesis
    using targets_in_region [OF assms, of "\<lambda>q. q + current P" P] by (simp add: pass_def)
qed

lemma pass_changed_f3:
  assumes "\<forall>t\<in>set ts. 0 \<le> i t \<and> 0 \<le> j t \<and> 0 \<le> z t"
  shows "changed (f3 s) (f3 (pass P ts s)) \<subseteq> (\<lambda>q. q + current P) ` region P"
proof -
  have "changed (f3 s) (f3 (fold (kernel P) ts s))
      \<subseteq> (\<lambda>t. m P t + current P) ` {t \<in> set ts. i t \<le> nx P \<and> j t \<le> ny P \<and> z t \<le> nz P}"
    by (rule fold_changed [where sel = f3 and G = "\<lambda>t. i t \<le> nx P \<and> j t \<le> ny P \<and> z t \<le> nz P"
          and tg = "\<lambda>t. m P t + current P"
          and val = "\<lambda>t s. itauphi1 P * f3 s (m P t + current P) + af P t s + cf P t s * uy P t s"])
      (simp only: kernel_f3 current_pos_def )
  then show ?thesis
    using targets_in_region [OF assms, of "\<lambda>q. q + current P" P] by (simp add: pass_def)
qed

lemma pass_changed_f4:
  assumes "\<forall>t\<in>set ts. 0 \<le> i t \<and> 0 \<le> j t \<and> 0 \<le> z t"
  shows "changed (f4 s) (f4 (pass P ts s)) \<subseteq> (\<lambda>q. q + current P) ` region P"
proof -
  have "changed (f4 s) (f4 (fold (kernel P) ts s))
      \<subseteq> (\<lambda>t. m P t + current P) ` {t \<in> set ts. i t \<le> nx P \<and> j t \<le> ny P \<and> z t \<le> nz P}"
    by (rule fold_changed [where sel = f4 and G = "\<lambda>t. i t \<le> nx P \<and> j t \<le> ny P \<and> z t \<le> nz P"
          and tg = "\<lambda>t. m P t + current P"
          and val = "\<lambda>t s. itauphi1 P * f4 s (m P t + current P) + af P t s - cf P t s * uy P t s"])
      (simp only: kernel_f4 current_pos_def )
  then show ?thesis
    using targets_in_region [OF assms, of "\<lambda>q. q + current P" P] by (simp add: pass_def)
qed

lemma pass_changed_f5:
  assumes "\<forall>t\<in>set ts. 0 \<le> i t \<and> 0 \<le> j t \<and> 0 \<le> z t"
  shows "changed (f5 s) (f5 (pass P ts s)) \<subseteq> (\<lambda>q. q + current P) ` region P"
proof -
  have "changed (f5 s) (f5 (fold (kernel P) ts s))
      \<subseteq> (\<lambda>t. m P t + current P) ` {t \<in> set ts. i t \<le> nx P \<and> j t \<le> ny P \<and> z t \<le> nz P}"
    by (rule fold_changed [where sel = f5 and G = "\<lambda>t. i t \<le> nx P \<and> j t \<le> ny P \<and> z t \<le> nz P"
          and tg = "\<lambda>t. m P t + current P"
          and val = "\<lambda>t s. itauphi1 P * f5 s (m P t + current P) + af P t s + cf P t s * uz P t s"])
      (simp only: kernel_f5 current_pos_def )
  then show ?thesis
    using targets_in_region [OF assms, of "\<lambda>q. q + current P" P] by (simp add: pass_def)
qed

lemma pass_changed_f6:
  assumes "\<forall>t\<in>set ts. 0 \<le> i t \<and> 0 \<le> j t \<and> 0 \<le> z t"
  shows "changed (f6 s) (f6 (pass P ts s)) \<subseteq> (\<lambda>q. q + current P) ` region P"
proof -
  have "changed (f6 s) (f6 (fold (kernel P) ts s))
      \<subseteq> (\<lambda>t. m P t + current P) ` {t \<in> set ts. i t \<le> nx P \<and> j t \<le> ny P \<and> z t \<le> nz P}"
    by (rule fold_changed [where sel = f6 and G = "\<lambda>t. i t \<le> nx P \<and> j t \<le> ny P \<and> z t \<le> nz P"
          and tg = "\<lambda>t. m P t + current P"
          and val = "\<lambda>t s. itauphi1 P * f6 s (m P t + current P) + af P t s - cf P t s * uz P t s"])
      (simp only: kernel_f6 current_pos_def )
  then show ?thesis
    using targets_in_region [OF assms, of "\<lambda>q. q + current P" P] by (simp add: pass_def)
qed

lemma pass_changed_g0:
  assumes "\<forall>t\<in>set ts. 0 \<le> i t \<and> 0 \<le> j t \<and> 0 \<le> z t"
  shows "changed (g0 s) (g0 (pass P ts s)) \<subseteq> region P"
proof -
  have "changed (g0 s) (g0 (fold (kernel P) ts s))
      \<subseteq> (\<lambda>t. m P t) ` {t \<in> set ts. i t \<le> nx P \<and> j t \<le> ny P \<and> z t \<le> nz P}"
    by (rule fold_changed [where sel = g0 and G = "\<lambda>t. i t \<le> nx P \<and> j t \<le> ny P \<and> z t \<le> nz P"
          and tg = "\<lambda>t. m P t"
          and val = "\<lambda>t s. itaurho P * g0 s (m P t) + eg0 P * ((rho P t s - 6.0 * current_phi P t s * mu_phi P t s) - rho P t s * v P t s) - egc0 P * uf P t s"])
      (simp only: kernel_g0 current_pos_def )
  then show ?thesis
    using targets_in_region [OF assms, of "\<lambda>q. q" P] by (simp add: pass_def)
qed

lemma pass_changed_g1:
  assumes "\<forall>t\<in>set ts. 0 \<le> i t \<and> 0 \<le> j t \<and> 0 \<le> z t"
  shows "changed (g1 s) (g1 (pass P ts s)) \<subseteq> (\<lambda>q. q + next P + displacement P 1) ` region P"
proof -
  have "changed (g1 s) (g1 (fold (kernel P) ts s))
      \<subseteq> (\<lambda>t. m P t + next P + displacement P 1) ` {t \<in> set ts. i t \<le> nx P \<and> j t \<le> ny P \<and> z t \<le> nz P}"
    by (rule fold_changed [where sel = g1 and G = "\<lambda>t. i t \<le> nx P \<and> j t \<le> ny P \<and> z t \<le> nz P"
          and tg = "\<lambda>t. m P t + next P + displacement P 1"
          and val = "\<lambda>t s. itaurho P * g1 s (m P t + current P) + tmp1_1 P t s + tmp2_1 P t s"])
      (simp only: kernel_g1 current_pos_def target_index)
  then show ?thesis
    using targets_in_region [OF assms, of "\<lambda>q. q + next P + displacement P 1" P] by (simp add: pass_def)
qed

lemma pass_changed_g2:
  assumes "\<forall>t\<in>set ts. 0 \<le> i t \<and> 0 \<le> j t \<and> 0 \<le> z t"
  shows "changed (g2 s) (g2 (pass P ts s)) \<subseteq> (\<lambda>q. q + next P + displacement P 2) ` region P"
proof -
  have "changed (g2 s) (g2 (fold (kernel P) ts s))
      \<subseteq> (\<lambda>t. m P t + next P + displacement P 2) ` {t \<in> set ts. i t \<le> nx P \<and> j t \<le> ny P \<and> z t \<le> nz P}"
    by (rule fold_changed [where sel = g2 and G = "\<lambda>t. i t \<le> nx P \<and> j t \<le> ny P \<and> z t \<le> nz P"
          and tg = "\<lambda>t. m P t + next P + displacement P 2"
          and val = "\<lambda>t s. itaurho P * g2 s (m P t + current P) + tmp1_1 P t s - tmp2_1 P t s"])
      (simp only: kernel_g2 current_pos_def target_index)
  then show ?thesis
    using targets_in_region [OF assms, of "\<lambda>q. q + next P + displacement P 2" P] by (simp add: pass_def)
qed

lemma pass_changed_g3:
  assumes "\<forall>t\<in>set ts. 0 \<le> i t \<and> 0 \<le> j t \<and> 0 \<le> z t"
  shows "changed (g3 s) (g3 (pass P ts s)) \<subseteq> (\<lambda>q. q + next P + displacement P 3) ` region P"
proof -
  have "changed (g3 s) (g3 (fold (kernel P) ts s))
      \<subseteq> (\<lambda>t. m P t + next P + displacement P 3) ` {t \<in> set ts. i t \<le> nx P \<and> j t \<le> ny P \<and> z t \<le> nz P}"
    by (rule fold_changed [where sel = g3 and G = "\<lambda>t. i t \<le> nx P \<and> j t \<le> ny P \<and> z t \<le> nz P"
          and tg = "\<lambda>t. m P t + next P + displacement P 3"
          and val = "\<lambda>t s. itaurho P * g3 s (m P t + current P) + tmp1_3 P t s + tmp2_3 P t s"])
      (simp only: kernel_g3 current_pos_def target_index)
  then show ?thesis
    using targets_in_region [OF assms, of "\<lambda>q. q + next P + displacement P 3" P] by (simp add: pass_def)
qed

lemma pass_changed_g4:
  assumes "\<forall>t\<in>set ts. 0 \<le> i t \<and> 0 \<le> j t \<and> 0 \<le> z t"
  shows "changed (g4 s) (g4 (pass P ts s)) \<subseteq> (\<lambda>q. q + next P + displacement P 4) ` region P"
proof -
  have "changed (g4 s) (g4 (fold (kernel P) ts s))
      \<subseteq> (\<lambda>t. m P t + next P + displacement P 4) ` {t \<in> set ts. i t \<le> nx P \<and> j t \<le> ny P \<and> z t \<le> nz P}"
    by (rule fold_changed [where sel = g4 and G = "\<lambda>t. i t \<le> nx P \<and> j t \<le> ny P \<and> z t \<le> nz P"
          and tg = "\<lambda>t. m P t + next P + displacement P 4"
          and val = "\<lambda>t s. itaurho P * g4 s (m P t + current P) + tmp1_3 P t s - tmp2_3 P t s"])
      (simp only: kernel_g4 current_pos_def target_index)
  then show ?thesis
    using targets_in_region [OF assms, of "\<lambda>q. q + next P + displacement P 4" P] by (simp add: pass_def)
qed

lemma pass_changed_g5:
  assumes "\<forall>t\<in>set ts. 0 \<le> i t \<and> 0 \<le> j t \<and> 0 \<le> z t"
  shows "changed (g5 s) (g5 (pass P ts s)) \<subseteq> (\<lambda>q. q + next P + displacement P 5) ` region P"
proof -
  have "changed (g5 s) (g5 (fold (kernel P) ts s))
      \<subseteq> (\<lambda>t. m P t + next P + displacement P 5) ` {t \<in> set ts. i t \<le> nx P \<and> j t \<le> ny P \<and> z t \<le> nz P}"
    by (rule fold_changed [where sel = g5 and G = "\<lambda>t. i t \<le> nx P \<and> j t \<le> ny P \<and> z t \<le> nz P"
          and tg = "\<lambda>t. m P t + next P + displacement P 5"
          and val = "\<lambda>t s. itaurho P * g5 s (m P t + current P) + tmp1_5 P t s + tmp2_5 P t s"])
      (simp only: kernel_g5 current_pos_def target_index)
  then show ?thesis
    using targets_in_region [OF assms, of "\<lambda>q. q + next P + displacement P 5" P] by (simp add: pass_def)
qed

lemma pass_changed_g6:
  assumes "\<forall>t\<in>set ts. 0 \<le> i t \<and> 0 \<le> j t \<and> 0 \<le> z t"
  shows "changed (g6 s) (g6 (pass P ts s)) \<subseteq> (\<lambda>q. q + next P + displacement P 6) ` region P"
proof -
  have "changed (g6 s) (g6 (fold (kernel P) ts s))
      \<subseteq> (\<lambda>t. m P t + next P + displacement P 6) ` {t \<in> set ts. i t \<le> nx P \<and> j t \<le> ny P \<and> z t \<le> nz P}"
    by (rule fold_changed [where sel = g6 and G = "\<lambda>t. i t \<le> nx P \<and> j t \<le> ny P \<and> z t \<le> nz P"
          and tg = "\<lambda>t. m P t + next P + displacement P 6"
          and val = "\<lambda>t s. itaurho P * g6 s (m P t + current P) + tmp1_5 P t s - tmp2_5 P t s"])
      (simp only: kernel_g6 current_pos_def target_index)
  then show ?thesis
    using targets_in_region [OF assms, of "\<lambda>q. q + next P + displacement P 6" P] by (simp add: pass_def)
qed

lemma pass_changed_g7:
  assumes "\<forall>t\<in>set ts. 0 \<le> i t \<and> 0 \<le> j t \<and> 0 \<le> z t"
  shows "changed (g7 s) (g7 (pass P ts s)) \<subseteq> (\<lambda>q. q + next P + displacement P 7) ` region P"
proof -
  have "changed (g7 s) (g7 (fold (kernel P) ts s))
      \<subseteq> (\<lambda>t. m P t + next P + displacement P 7) ` {t \<in> set ts. i t \<le> nx P \<and> j t \<le> ny P \<and> z t \<le> nz P}"
    by (rule fold_changed [where sel = g7 and G = "\<lambda>t. i t \<le> nx P \<and> j t \<le> ny P \<and> z t \<le> nz P"
          and tg = "\<lambda>t. m P t + next P + displacement P 7"
          and val = "\<lambda>t s. itaurho P * g7 s (m P t + current P) + tmp1_7 P t s + tmp2_7 P t s"])
      (simp only: kernel_g7 current_pos_def target_index)
  then show ?thesis
    using targets_in_region [OF assms, of "\<lambda>q. q + next P + displacement P 7" P] by (simp add: pass_def)
qed

lemma pass_changed_g8:
  assumes "\<forall>t\<in>set ts. 0 \<le> i t \<and> 0 \<le> j t \<and> 0 \<le> z t"
  shows "changed (g8 s) (g8 (pass P ts s)) \<subseteq> (\<lambda>q. q + next P + displacement P 8) ` region P"
proof -
  have "changed (g8 s) (g8 (fold (kernel P) ts s))
      \<subseteq> (\<lambda>t. m P t + next P + displacement P 8) ` {t \<in> set ts. i t \<le> nx P \<and> j t \<le> ny P \<and> z t \<le> nz P}"
    by (rule fold_changed [where sel = g8 and G = "\<lambda>t. i t \<le> nx P \<and> j t \<le> ny P \<and> z t \<le> nz P"
          and tg = "\<lambda>t. m P t + next P + displacement P 8"
          and val = "\<lambda>t s. itaurho P * g8 s (m P t + current P) + tmp1_7 P t s - tmp2_7 P t s"])
      (simp only: kernel_g8 current_pos_def target_index)
  then show ?thesis
    using targets_in_region [OF assms, of "\<lambda>q. q + next P + displacement P 8" P] by (simp add: pass_def)
qed

lemma pass_changed_g9:
  assumes "\<forall>t\<in>set ts. 0 \<le> i t \<and> 0 \<le> j t \<and> 0 \<le> z t"
  shows "changed (g9 s) (g9 (pass P ts s)) \<subseteq> (\<lambda>q. q + next P + displacement P 9) ` region P"
proof -
  have "changed (g9 s) (g9 (fold (kernel P) ts s))
      \<subseteq> (\<lambda>t. m P t + next P + displacement P 9) ` {t \<in> set ts. i t \<le> nx P \<and> j t \<le> ny P \<and> z t \<le> nz P}"
    by (rule fold_changed [where sel = g9 and G = "\<lambda>t. i t \<le> nx P \<and> j t \<le> ny P \<and> z t \<le> nz P"
          and tg = "\<lambda>t. m P t + next P + displacement P 9"
          and val = "\<lambda>t s. itaurho P * g9 s (m P t + current P) + tmp1_9 P t s + tmp2_9 P t s"])
      (simp only: kernel_g9 current_pos_def target_index)
  then show ?thesis
    using targets_in_region [OF assms, of "\<lambda>q. q + next P + displacement P 9" P] by (simp add: pass_def)
qed

lemma pass_changed_g10:
  assumes "\<forall>t\<in>set ts. 0 \<le> i t \<and> 0 \<le> j t \<and> 0 \<le> z t"
  shows "changed (g10 s) (g10 (pass P ts s)) \<subseteq> (\<lambda>q. q + next P + displacement P 10) ` region P"
proof -
  have "changed (g10 s) (g10 (fold (kernel P) ts s))
      \<subseteq> (\<lambda>t. m P t + next P + displacement P 10) ` {t \<in> set ts. i t \<le> nx P \<and> j t \<le> ny P \<and> z t \<le> nz P}"
    by (rule fold_changed [where sel = g10 and G = "\<lambda>t. i t \<le> nx P \<and> j t \<le> ny P \<and> z t \<le> nz P"
          and tg = "\<lambda>t. m P t + next P + displacement P 10"
          and val = "\<lambda>t s. itaurho P * g10 s (m P t + current P) + tmp1_9 P t s - tmp2_9 P t s"])
      (simp only: kernel_g10 current_pos_def target_index)
  then show ?thesis
    using targets_in_region [OF assms, of "\<lambda>q. q + next P + displacement P 10" P] by (simp add: pass_def)
qed

lemma pass_changed_g11:
  assumes "\<forall>t\<in>set ts. 0 \<le> i t \<and> 0 \<le> j t \<and> 0 \<le> z t"
  shows "changed (g11 s) (g11 (pass P ts s)) \<subseteq> (\<lambda>q. q + next P + displacement P 11) ` region P"
proof -
  have "changed (g11 s) (g11 (fold (kernel P) ts s))
      \<subseteq> (\<lambda>t. m P t + next P + displacement P 11) ` {t \<in> set ts. i t \<le> nx P \<and> j t \<le> ny P \<and> z t \<le> nz P}"
    by (rule fold_changed [where sel = g11 and G = "\<lambda>t. i t \<le> nx P \<and> j t \<le> ny P \<and> z t \<le> nz P"
          and tg = "\<lambda>t. m P t + next P + displacement P 11"
          and val = "\<lambda>t s. itaurho P * g11 s (m P t + current P) + tmp1_11 P t s + tmp2_11 P t s"])
      (simp only: kernel_g11 current_pos_def target_index)
  then show ?thesis
    using targets_in_region [OF assms, of "\<lambda>q. q + next P + displacement P 11" P] by (simp add: pass_def)
qed

lemma pass_changed_g12:
  assumes "\<forall>t\<in>set ts. 0 \<le> i t \<and> 0 \<le> j t \<and> 0 \<le> z t"
  shows "changed (g12 s) (g12 (pass P ts s)) \<subseteq> (\<lambda>q. q + next P + displacement P 12) ` region P"
proof -
  have "changed (g12 s) (g12 (fold (kernel P) ts s))
      \<subseteq> (\<lambda>t. m P t + next P + displacement P 12) ` {t \<in> set ts. i t \<le> nx P \<and> j t \<le> ny P \<and> z t \<le> nz P}"
    by (rule fold_changed [where sel = g12 and G = "\<lambda>t. i t \<le> nx P \<and> j t \<le> ny P \<and> z t \<le> nz P"
          and tg = "\<lambda>t. m P t + next P + displacement P 12"
          and val = "\<lambda>t s. itaurho P * g12 s (m P t + current P) + tmp1_11 P t s - tmp2_11 P t s"])
      (simp only: kernel_g12 current_pos_def target_index)
  then show ?thesis
    using targets_in_region [OF assms, of "\<lambda>q. q + next P + displacement P 12" P] by (simp add: pass_def)
qed

lemma pass_changed_g13:
  assumes "\<forall>t\<in>set ts. 0 \<le> i t \<and> 0 \<le> j t \<and> 0 \<le> z t"
  shows "changed (g13 s) (g13 (pass P ts s)) \<subseteq> (\<lambda>q. q + next P + displacement P 13) ` region P"
proof -
  have "changed (g13 s) (g13 (fold (kernel P) ts s))
      \<subseteq> (\<lambda>t. m P t + next P + displacement P 13) ` {t \<in> set ts. i t \<le> nx P \<and> j t \<le> ny P \<and> z t \<le> nz P}"
    by (rule fold_changed [where sel = g13 and G = "\<lambda>t. i t \<le> nx P \<and> j t \<le> ny P \<and> z t \<le> nz P"
          and tg = "\<lambda>t. m P t + next P + displacement P 13"
          and val = "\<lambda>t s. itaurho P * g13 s (m P t + current P) + tmp1_13 P t s + tmp2_13 P t s"])
      (simp only: kernel_g13 current_pos_def target_index)
  then show ?thesis
    using targets_in_region [OF assms, of "\<lambda>q. q + next P + displacement P 13" P] by (simp add: pass_def)
qed

lemma pass_changed_g14:
  assumes "\<forall>t\<in>set ts. 0 \<le> i t \<and> 0 \<le> j t \<and> 0 \<le> z t"
  shows "changed (g14 s) (g14 (pass P ts s)) \<subseteq> (\<lambda>q. q + next P + displacement P 14) ` region P"
proof -
  have "changed (g14 s) (g14 (fold (kernel P) ts s))
      \<subseteq> (\<lambda>t. m P t + next P + displacement P 14) ` {t \<in> set ts. i t \<le> nx P \<and> j t \<le> ny P \<and> z t \<le> nz P}"
    by (rule fold_changed [where sel = g14 and G = "\<lambda>t. i t \<le> nx P \<and> j t \<le> ny P \<and> z t \<le> nz P"
          and tg = "\<lambda>t. m P t + next P + displacement P 14"
          and val = "\<lambda>t s. itaurho P * g14 s (m P t + current P) + tmp1_13 P t s - tmp2_13 P t s"])
      (simp only: kernel_g14 current_pos_def target_index)
  then show ?thesis
    using targets_in_region [OF assms, of "\<lambda>q. q + next P + displacement P 14" P] by (simp add: pass_def)
qed

lemma pass_changed_g15:
  assumes "\<forall>t\<in>set ts. 0 \<le> i t \<and> 0 \<le> j t \<and> 0 \<le> z t"
  shows "changed (g15 s) (g15 (pass P ts s)) \<subseteq> (\<lambda>q. q + next P + displacement P 15) ` region P"
proof -
  have "changed (g15 s) (g15 (fold (kernel P) ts s))
      \<subseteq> (\<lambda>t. m P t + next P + displacement P 15) ` {t \<in> set ts. i t \<le> nx P \<and> j t \<le> ny P \<and> z t \<le> nz P}"
    by (rule fold_changed [where sel = g15 and G = "\<lambda>t. i t \<le> nx P \<and> j t \<le> ny P \<and> z t \<le> nz P"
          and tg = "\<lambda>t. m P t + next P + displacement P 15"
          and val = "\<lambda>t s. itaurho P * g15 s (m P t + current P) + tmp1_15 P t s + tmp2_15 P t s"])
      (simp only: kernel_g15 current_pos_def target_index)
  then show ?thesis
    using targets_in_region [OF assms, of "\<lambda>q. q + next P + displacement P 15" P] by (simp add: pass_def)
qed

lemma pass_changed_g16:
  assumes "\<forall>t\<in>set ts. 0 \<le> i t \<and> 0 \<le> j t \<and> 0 \<le> z t"
  shows "changed (g16 s) (g16 (pass P ts s)) \<subseteq> (\<lambda>q. q + next P + displacement P 16) ` region P"
proof -
  have "changed (g16 s) (g16 (fold (kernel P) ts s))
      \<subseteq> (\<lambda>t. m P t + next P + displacement P 16) ` {t \<in> set ts. i t \<le> nx P \<and> j t \<le> ny P \<and> z t \<le> nz P}"
    by (rule fold_changed [where sel = g16 and G = "\<lambda>t. i t \<le> nx P \<and> j t \<le> ny P \<and> z t \<le> nz P"
          and tg = "\<lambda>t. m P t + next P + displacement P 16"
          and val = "\<lambda>t s. itaurho P * g16 s (m P t + current P) + tmp1_15 P t s - tmp2_15 P t s"])
      (simp only: kernel_g16 current_pos_def target_index)
  then show ?thesis
    using targets_in_region [OF assms, of "\<lambda>q. q + next P + displacement P 16" P] by (simp add: pass_def)
qed

lemma pass_changed_g17:
  assumes "\<forall>t\<in>set ts. 0 \<le> i t \<and> 0 \<le> j t \<and> 0 \<le> z t"
  shows "changed (g17 s) (g17 (pass P ts s)) \<subseteq> (\<lambda>q. q + next P + displacement P 17) ` region P"
proof -
  have "changed (g17 s) (g17 (fold (kernel P) ts s))
      \<subseteq> (\<lambda>t. m P t + next P + displacement P 17) ` {t \<in> set ts. i t \<le> nx P \<and> j t \<le> ny P \<and> z t \<le> nz P}"
    by (rule fold_changed [where sel = g17 and G = "\<lambda>t. i t \<le> nx P \<and> j t \<le> ny P \<and> z t \<le> nz P"
          and tg = "\<lambda>t. m P t + next P + displacement P 17"
          and val = "\<lambda>t s. itaurho P * g17 s (m P t + current P) + tmp1_17 P t s + tmp2_17 P t s"])
      (simp only: kernel_g17 current_pos_def target_index)
  then show ?thesis
    using targets_in_region [OF assms, of "\<lambda>q. q + next P + displacement P 17" P] by (simp add: pass_def)
qed

lemma pass_changed_g18:
  assumes "\<forall>t\<in>set ts. 0 \<le> i t \<and> 0 \<le> j t \<and> 0 \<le> z t"
  shows "changed (g18 s) (g18 (pass P ts s)) \<subseteq> (\<lambda>q. q + next P + displacement P 18) ` region P"
proof -
  have "changed (g18 s) (g18 (fold (kernel P) ts s))
      \<subseteq> (\<lambda>t. m P t + next P + displacement P 18) ` {t \<in> set ts. i t \<le> nx P \<and> j t \<le> ny P \<and> z t \<le> nz P}"
    by (rule fold_changed [where sel = g18 and G = "\<lambda>t. i t \<le> nx P \<and> j t \<le> ny P \<and> z t \<le> nz P"
          and tg = "\<lambda>t. m P t + next P + displacement P 18"
          and val = "\<lambda>t s. itaurho P * g18 s (m P t + current P) + tmp1_17 P t s - tmp2_17 P t s"])
      (simp only: kernel_g18 current_pos_def target_index)
  then show ?thesis
    using targets_in_region [OF assms, of "\<lambda>q. q + next P + displacement P 18" P] by (simp add: pass_def)
qed

lemma single_site_thread:
  "i origin_thread = 0" "j origin_thread = 0" "z origin_thread = 0"
  "m single_site_params origin_thread = 0"
  by (simp_all add: m_def i_def j_def z_def origin_thread_def)

lemma single_site_geometry:
  "nx single_site_params = 0" "ny single_site_params = 0" "nz single_site_params = 0"
  "ldx single_site_params = 5" "ldy single_site_params = 5"
  "current single_site_params = 0" "next single_site_params = 1000"
  by (simp_all add: single_site_params_def example_params_def)

lemma single_site_values:
  "tmp1_1 single_site_params origin_thread example_arrays = 7 / 288"
  "tmp2_1 single_site_params origin_thread example_arrays = 0"
  "rho single_site_params origin_thread example_arrays = 1"
  "current_phi single_site_params origin_thread example_arrays = 1 / 2"
  "mu_phi single_site_params origin_thread example_arrays = - (3 / 8)"
  "v single_site_params origin_thread example_arrays = 0"
  "uf single_site_params origin_thread example_arrays = 0"
  by (simp_all add: locals_defs single_site_thread [unfolded m_def] single_site_params_def
      example_params_def example_arrays_def)

section \<open>A pass without races\<close>

lemma kernel_outside: "\<not> inside P t \<Longrightarrow> kernel P t s = s"
  by (auto simp add: kernel_def inside_def)

lemma race_free_Cons: "race_free P (t # ts) \<Longrightarrow> race_free P ts"
  by (auto simp add: race_free_def split: if_splits)

lemma race_free_head:
  assumes "race_free P (t # ts)" "inside P t" "u \<in> set ts" "inside P u"
  shows "m P t \<noteq> m P u"
  using assms by (auto simp add: race_free_def)

lemma race_free_alias:
  assumes "race_free P ts" "t \<in> set ts" "u \<in> set ts" "inside P t" "inside P u"
    and "1 \<le> n" "n \<le> 18"
  shows "m P u + next P + displacement P n \<noteq> m P t + current P"
  using assms unfolding race_free_def by (meson atLeastAtMost_iff imageI)

text \<open>A thread leaves the local inputs of another thread alone when the two address
  different sites and none of its streaming stores falls on the current position of the
  other.\<close>

lemma undisturbed:
  assumes "m P u \<noteq> m P t"
    and a: "\<And>n. 1 \<le> n \<Longrightarrow> n \<le> 18 \<Longrightarrow> m P u + next P + displacement P n \<noteq> m P t + current P"
  shows "local_inputs P t (kernel P u s) = local_inputs P t s"
proof -
  have b:
    "m P t + current P \<noteq> m P u + next P + 1"
    "m P t + current P \<noteq> m P u + next P - 1"
    "m P t + current P \<noteq> m P u + next P + ldx P"
    "m P t + current P \<noteq> m P u + next P - ldx P"
    "m P t + current P \<noteq> m P u + next P + ldx P * ldy P"
    "m P t + current P \<noteq> m P u + next P - ldx P * ldy P"
    "m P t + current P \<noteq> m P u + next P + 1 + ldx P"
    "m P t + current P \<noteq> m P u + next P - 1 - ldx P"
    "m P t + current P \<noteq> m P u + next P + 1 - ldx P"
    "m P t + current P \<noteq> m P u + next P - 1 + ldx P"
    "m P t + current P \<noteq> m P u + next P + 1 + ldx P * ldy P"
    "m P t + current P \<noteq> m P u + next P - 1 - ldx P * ldy P"
    "m P t + current P \<noteq> m P u + next P + 1 - ldx P * ldy P"
    "m P t + current P \<noteq> m P u + next P - 1 + ldx P * ldy P"
    "m P t + current P \<noteq> m P u + next P + ldx P + ldx P * ldy P"
    "m P t + current P \<noteq> m P u + next P - ldx P - ldx P * ldy P"
    "m P t + current P \<noteq> m P u + next P + ldx P - ldx P * ldy P"
    "m P t + current P \<noteq> m P u + next P - ldx P + ldx P * ldy P"
    using a [of 1] a [of 2] a [of 3] a [of 4] a [of 5] a [of 6] a [of 7] a [of 8] a [of 9]
      a [of 10] a [of 11] a [of 12] a [of 13] a [of 14] a [of 15] a [of 16] a [of 17] a [of 18]
    unfolding target_index by (simp_all add: neq_commute)
  show ?thesis
    using assms(1) b
    by (simp add: local_inputs_def kernel_fields current_pos_def)
qed

text \<open>
  In a pass without races a thread finds, when its turn comes, the local inputs that
  the memory had before the pass, so its store holds the value computed from that memory,
  whatever the order of the threads.
\<close>

lemma fold_value:
  fixes sel :: "arrays \<Rightarrow> int \<Rightarrow> real"
  assumes eff: "\<And>t s. sel (kernel P t s) =
      (if inside P t then (sel s)(m P t + c := val t s) else sel s)"
    and loc: "\<And>t s s'. local_inputs P t s = local_inputs P t s' \<Longrightarrow> val t s = val t s'"
    and rf: "race_free P ts" and t: "t \<in> set ts" "inside P t"
  shows "sel (fold (kernel P) ts s) (m P t + c) = val t s"
  using rf t(1)
proof (induction ts arbitrary: s)
  case Nil
  then show ?case
    by simp
next
  case (Cons u ts)
  note rf' = race_free_Cons [OF Cons.prems(1)]
  show ?case
  proof (cases "t \<in> set ts")
    case True
    have "local_inputs P t (kernel P u s) = local_inputs P t s"
    proof (cases "inside P u")
      case True
      have "m P u \<noteq> m P t"
        using race_free_head [OF Cons.prems(1) True \<open>t \<in> set ts\<close> t(2)] .
      moreover have "m P u + next P + displacement P n \<noteq> m P t + current P"
        if "1 \<le> n" "n \<le> 18" for n
        using race_free_alias [OF Cons.prems(1) _ _ t(2) True that] \<open>t \<in> set ts\<close> by simp
      ultimately show ?thesis
        by (rule undisturbed)
    next
      case False
      then show ?thesis
        by (simp add: kernel_outside)
    qed
    then have "val t (kernel P u s) = val t s"
      by (rule loc)
    then show ?thesis
      using Cons.IH [OF rf' True, of "kernel P u s"] by simp
  next
    case False
    then have [simp]: "u = t"
      using Cons.prems(2) by simp
    have "m P t \<notin> m P ` {w \<in> set ts. inside P w}"
      using Cons.prems(1) t(2) by (auto simp add: race_free_def)
    then have "m P t + c \<notin> (\<lambda>w. m P w + c) ` {w \<in> set ts. inside P w}"
      by auto
    then have "m P t + c \<notin> changed (sel (kernel P t s)) (sel (fold (kernel P) ts (kernel P t s)))"
      using fold_changed [of sel P "inside P" "\<lambda>w. m P w + c" val "kernel P t s" ts, OF eff]
      by blast
    then have "sel (fold (kernel P) ts (kernel P t s)) (m P t + c) = sel (kernel P t s) (m P t + c)"
      by (simp add: changed_def)
    then show ?thesis
      using t(2) by (simp add: eff)
  qed
qed

lemma pass_value_f0:
  assumes "race_free P ts" "t \<in> set ts" "inside P t"
  shows "f0 (pass P ts s) (m P t) =
    itauphi1 P * f0 s (m P t) + - 3.0 * gamma P * mu_phi P t s * itauphi P +
      itauphi P * current_phi P t s"
proof -
  have "f0 (fold (kernel P) ts s) (m P t + (0)) =
    (\<lambda>t s. itauphi1 P * f0 s (m P t) + - 3.0 * gamma P * mu_phi P t s * itauphi P +
      itauphi P * current_phi P t s) t s"
  proof (rule fold_value [where sel = f0 and c = "0", OF _ _ assms])
    show "f0 (kernel P t s) =
      (if inside P t then (f0 s)(m P t + (0) :=
         itauphi1 P * f0 s (m P t) + - 3.0 * gamma P * mu_phi P t s * itauphi P +
      itauphi P * current_phi P t s)
       else f0 s)" for t s
      by (simp add: kernel_f0 inside_def current_pos_def)
    show "itauphi1 P * f0 s (m P t) + - 3.0 * gamma P * mu_phi P t s * itauphi P +
      itauphi P * current_phi P t s =
      itauphi1 P * f0 s' (m P t) + - 3.0 * gamma P * mu_phi P t s' * itauphi P +
      itauphi P * current_phi P t s'"
      if L: "local_inputs P t s = local_inputs P t s'" for t s s'
      by (simp add: locals_local [OF L] local_inputs_eqD [OF L, unfolded current_pos_def])
  qed
  then show ?thesis
    by (simp add: pass_def add.assoc)
qed

lemma pass_value_f1:
  assumes "race_free P ts" "t \<in> set ts" "inside P t"
  shows "f1 (pass P ts s) (m P t + current P) =
    itauphi1 P * f1 s (m P t + current P) + af P t s + cf P t s * ux P t s"
proof -
  have "f1 (fold (kernel P) ts s) (m P t + (current P)) =
    (\<lambda>t s. itauphi1 P * f1 s (m P t + current P) + af P t s + cf P t s * ux P t s) t s"
  proof (rule fold_value [where sel = f1 and c = "current P", OF _ _ assms])
    show "f1 (kernel P t s) =
      (if inside P t then (f1 s)(m P t + (current P) :=
         itauphi1 P * f1 s (m P t + current P) + af P t s + cf P t s * ux P t s)
       else f1 s)" for t s
      by (simp add: kernel_f1 inside_def current_pos_def)
    show "itauphi1 P * f1 s (m P t + current P) + af P t s + cf P t s * ux P t s =
      itauphi1 P * f1 s' (m P t + current P) + af P t s' + cf P t s' * ux P t s'"
      if L: "local_inputs P t s = local_inputs P t s'" for t s s'
      by (simp add: locals_local [OF L] local_inputs_eqD [OF L, unfolded current_pos_def])
  qed
  then show ?thesis
    by (simp add: pass_def add.assoc)
qed

lemma pass_value_f2:
  assumes "race_free P ts" "t \<in> set ts" "inside P t"
  shows "f2 (pass P ts s) (m P t + current P) =
    itauphi1 P * f2 s (m P t + current P) + af P t s - cf P t s * ux P t s"
proof -
  have "f2 (fold (kernel P) ts s) (m P t + (current P)) =
    (\<lambda>t s. itauphi1 P * f2 s (m P t + current P) + af P t s - cf P t s * ux P t s) t s"
  proof (rule fold_value [where sel = f2 and c = "current P", OF _ _ assms])
    show "f2 (kernel P t s) =
      (if inside P t then (f2 s)(m P t + (current P) :=
         itauphi1 P * f2 s (m P t + current P) + af P t s - cf P t s * ux P t s)
       else f2 s)" for t s
      by (simp add: kernel_f2 inside_def current_pos_def)
    show "itauphi1 P * f2 s (m P t + current P) + af P t s - cf P t s * ux P t s =
      itauphi1 P * f2 s' (m P t + current P) + af P t s' - cf P t s' * ux P t s'"
      if L: "local_inputs P t s = local_inputs P t s'" for t s s'
      by (simp add: locals_local [OF L] local_inputs_eqD [OF L, unfolded current_pos_def])
  qed
  then show ?thesis
    by (simp add: pass_def add.assoc)
qed

lemma pass_value_f3:
  assumes "race_free P ts" "t \<in> set ts" "inside P t"
  shows "f3 (pass P ts s) (m P t + current P) =
    itauphi1 P * f3 s (m P t + current P) + af P t s + cf P t s * uy P t s"
proof -
  have "f3 (fold (kernel P) ts s) (m P t + (current P)) =
    (\<lambda>t s. itauphi1 P * f3 s (m P t + current P) + af P t s + cf P t s * uy P t s) t s"
  proof (rule fold_value [where sel = f3 and c = "current P", OF _ _ assms])
    show "f3 (kernel P t s) =
      (if inside P t then (f3 s)(m P t + (current P) :=
         itauphi1 P * f3 s (m P t + current P) + af P t s + cf P t s * uy P t s)
       else f3 s)" for t s
      by (simp add: kernel_f3 inside_def current_pos_def)
    show "itauphi1 P * f3 s (m P t + current P) + af P t s + cf P t s * uy P t s =
      itauphi1 P * f3 s' (m P t + current P) + af P t s' + cf P t s' * uy P t s'"
      if L: "local_inputs P t s = local_inputs P t s'" for t s s'
      by (simp add: locals_local [OF L] local_inputs_eqD [OF L, unfolded current_pos_def])
  qed
  then show ?thesis
    by (simp add: pass_def add.assoc)
qed

lemma pass_value_f4:
  assumes "race_free P ts" "t \<in> set ts" "inside P t"
  shows "f4 (pass P ts s) (m P t + current P) =
    itauphi1 P * f4 s (m P t + current P) + af P t s - cf P t s * uy P t s"
proof -
  have "f4 (fold (kernel P) ts s) (m P t + (current P)) =
    (\<lambda>t s. itauphi1 P * f4 s (m P t + current P) + af P t s - cf P t s * uy P t s) t s"
  proof (rule fold_value [where sel = f4 and c = "current P", OF _ _ assms])
    show "f4 (kernel P t s) =
      (if inside P t then (f4 s)(m P t + (current P) :=
         itauphi1 P * f4 s (m P t + current P) + af P t s - cf P t s * uy P t s)
       else f4 s)" for t s
      by (simp add: kernel_f4 inside_def current_pos_def)
    show "itauphi1 P * f4 s (m P t + current P) + af P t s - cf P t s * uy P t s =
      itauphi1 P * f4 s' (m P t + current P) + af P t s' - cf P t s' * uy P t s'"
      if L: "local_inputs P t s = local_inputs P t s'" for t s s'
      by (simp add: locals_local [OF L] local_inputs_eqD [OF L, unfolded current_pos_def])
  qed
  then show ?thesis
    by (simp add: pass_def add.assoc)
qed

lemma pass_value_f5:
  assumes "race_free P ts" "t \<in> set ts" "inside P t"
  shows "f5 (pass P ts s) (m P t + current P) =
    itauphi1 P * f5 s (m P t + current P) + af P t s + cf P t s * uz P t s"
proof -
  have "f5 (fold (kernel P) ts s) (m P t + (current P)) =
    (\<lambda>t s. itauphi1 P * f5 s (m P t + current P) + af P t s + cf P t s * uz P t s) t s"
  proof (rule fold_value [where sel = f5 and c = "current P", OF _ _ assms])
    show "f5 (kernel P t s) =
      (if inside P t then (f5 s)(m P t + (current P) :=
         itauphi1 P * f5 s (m P t + current P) + af P t s + cf P t s * uz P t s)
       else f5 s)" for t s
      by (simp add: kernel_f5 inside_def current_pos_def)
    show "itauphi1 P * f5 s (m P t + current P) + af P t s + cf P t s * uz P t s =
      itauphi1 P * f5 s' (m P t + current P) + af P t s' + cf P t s' * uz P t s'"
      if L: "local_inputs P t s = local_inputs P t s'" for t s s'
      by (simp add: locals_local [OF L] local_inputs_eqD [OF L, unfolded current_pos_def])
  qed
  then show ?thesis
    by (simp add: pass_def add.assoc)
qed

lemma pass_value_f6:
  assumes "race_free P ts" "t \<in> set ts" "inside P t"
  shows "f6 (pass P ts s) (m P t + current P) =
    itauphi1 P * f6 s (m P t + current P) + af P t s - cf P t s * uz P t s"
proof -
  have "f6 (fold (kernel P) ts s) (m P t + (current P)) =
    (\<lambda>t s. itauphi1 P * f6 s (m P t + current P) + af P t s - cf P t s * uz P t s) t s"
  proof (rule fold_value [where sel = f6 and c = "current P", OF _ _ assms])
    show "f6 (kernel P t s) =
      (if inside P t then (f6 s)(m P t + (current P) :=
         itauphi1 P * f6 s (m P t + current P) + af P t s - cf P t s * uz P t s)
       else f6 s)" for t s
      by (simp add: kernel_f6 inside_def current_pos_def)
    show "itauphi1 P * f6 s (m P t + current P) + af P t s - cf P t s * uz P t s =
      itauphi1 P * f6 s' (m P t + current P) + af P t s' - cf P t s' * uz P t s'"
      if L: "local_inputs P t s = local_inputs P t s'" for t s s'
      by (simp add: locals_local [OF L] local_inputs_eqD [OF L, unfolded current_pos_def])
  qed
  then show ?thesis
    by (simp add: pass_def add.assoc)
qed

lemma pass_value_g0:
  assumes "race_free P ts" "t \<in> set ts" "inside P t"
  shows "g0 (pass P ts s) (m P t) =
    itaurho P * g0 s (m P t) +
      eg0 P * ((rho P t s - 6.0 * current_phi P t s * mu_phi P t s) - rho P t s * v P t s) -
      egc0 P * uf P t s"
proof -
  have "g0 (fold (kernel P) ts s) (m P t + (0)) =
    (\<lambda>t s. itaurho P * g0 s (m P t) +
      eg0 P * ((rho P t s - 6.0 * current_phi P t s * mu_phi P t s) - rho P t s * v P t s) -
      egc0 P * uf P t s) t s"
  proof (rule fold_value [where sel = g0 and c = "0", OF _ _ assms])
    show "g0 (kernel P t s) =
      (if inside P t then (g0 s)(m P t + (0) :=
         itaurho P * g0 s (m P t) +
      eg0 P * ((rho P t s - 6.0 * current_phi P t s * mu_phi P t s) - rho P t s * v P t s) -
      egc0 P * uf P t s)
       else g0 s)" for t s
      by (simp add: kernel_g0 inside_def current_pos_def)
    show "itaurho P * g0 s (m P t) +
      eg0 P * ((rho P t s - 6.0 * current_phi P t s * mu_phi P t s) - rho P t s * v P t s) -
      egc0 P * uf P t s =
      itaurho P * g0 s' (m P t) +
      eg0 P * ((rho P t s' - 6.0 * current_phi P t s' * mu_phi P t s') - rho P t s' * v P t s') -
      egc0 P * uf P t s'"
      if L: "local_inputs P t s = local_inputs P t s'" for t s s'
      by (simp add: locals_local [OF L] local_inputs_eqD [OF L, unfolded current_pos_def])
  qed
  then show ?thesis
    by (simp add: pass_def add.assoc)
qed

lemma pass_value_g1:
  assumes "race_free P ts" "t \<in> set ts" "inside P t"
  shows "g1 (pass P ts s) (m P t + next P + displacement P 1) =
    itaurho P * g1 s (m P t + current P) + tmp1_1 P t s + tmp2_1 P t s"
proof -
  have "g1 (fold (kernel P) ts s) (m P t + (next P + displacement P 1)) =
    (\<lambda>t s. itaurho P * g1 s (m P t + current P) + tmp1_1 P t s + tmp2_1 P t s) t s"
  proof (rule fold_value [where sel = g1 and c = "next P + displacement P 1", OF _ _ assms])
    show "g1 (kernel P t s) =
      (if inside P t then (g1 s)(m P t + (next P + displacement P 1) :=
         itaurho P * g1 s (m P t + current P) + tmp1_1 P t s + tmp2_1 P t s)
       else g1 s)" for t s
      by (simp only: kernel_g1 inside_def current_pos_def target_index add.assoc [symmetric])
    show "itaurho P * g1 s (m P t + current P) + tmp1_1 P t s + tmp2_1 P t s =
      itaurho P * g1 s' (m P t + current P) + tmp1_1 P t s' + tmp2_1 P t s'"
      if L: "local_inputs P t s = local_inputs P t s'" for t s s'
      by (simp add: locals_local [OF L] local_inputs_eqD [OF L, unfolded current_pos_def])
  qed
  then show ?thesis
    by (simp add: pass_def add.assoc)
qed

lemma pass_value_g2:
  assumes "race_free P ts" "t \<in> set ts" "inside P t"
  shows "g2 (pass P ts s) (m P t + next P + displacement P 2) =
    itaurho P * g2 s (m P t + current P) + tmp1_1 P t s - tmp2_1 P t s"
proof -
  have "g2 (fold (kernel P) ts s) (m P t + (next P + displacement P 2)) =
    (\<lambda>t s. itaurho P * g2 s (m P t + current P) + tmp1_1 P t s - tmp2_1 P t s) t s"
  proof (rule fold_value [where sel = g2 and c = "next P + displacement P 2", OF _ _ assms])
    show "g2 (kernel P t s) =
      (if inside P t then (g2 s)(m P t + (next P + displacement P 2) :=
         itaurho P * g2 s (m P t + current P) + tmp1_1 P t s - tmp2_1 P t s)
       else g2 s)" for t s
      by (simp only: kernel_g2 inside_def current_pos_def target_index add.assoc [symmetric])
    show "itaurho P * g2 s (m P t + current P) + tmp1_1 P t s - tmp2_1 P t s =
      itaurho P * g2 s' (m P t + current P) + tmp1_1 P t s' - tmp2_1 P t s'"
      if L: "local_inputs P t s = local_inputs P t s'" for t s s'
      by (simp add: locals_local [OF L] local_inputs_eqD [OF L, unfolded current_pos_def])
  qed
  then show ?thesis
    by (simp add: pass_def add.assoc)
qed

lemma pass_value_g3:
  assumes "race_free P ts" "t \<in> set ts" "inside P t"
  shows "g3 (pass P ts s) (m P t + next P + displacement P 3) =
    itaurho P * g3 s (m P t + current P) + tmp1_3 P t s + tmp2_3 P t s"
proof -
  have "g3 (fold (kernel P) ts s) (m P t + (next P + displacement P 3)) =
    (\<lambda>t s. itaurho P * g3 s (m P t + current P) + tmp1_3 P t s + tmp2_3 P t s) t s"
  proof (rule fold_value [where sel = g3 and c = "next P + displacement P 3", OF _ _ assms])
    show "g3 (kernel P t s) =
      (if inside P t then (g3 s)(m P t + (next P + displacement P 3) :=
         itaurho P * g3 s (m P t + current P) + tmp1_3 P t s + tmp2_3 P t s)
       else g3 s)" for t s
      by (simp only: kernel_g3 inside_def current_pos_def target_index add.assoc [symmetric])
    show "itaurho P * g3 s (m P t + current P) + tmp1_3 P t s + tmp2_3 P t s =
      itaurho P * g3 s' (m P t + current P) + tmp1_3 P t s' + tmp2_3 P t s'"
      if L: "local_inputs P t s = local_inputs P t s'" for t s s'
      by (simp add: locals_local [OF L] local_inputs_eqD [OF L, unfolded current_pos_def])
  qed
  then show ?thesis
    by (simp add: pass_def add.assoc)
qed

lemma pass_value_g4:
  assumes "race_free P ts" "t \<in> set ts" "inside P t"
  shows "g4 (pass P ts s) (m P t + next P + displacement P 4) =
    itaurho P * g4 s (m P t + current P) + tmp1_3 P t s - tmp2_3 P t s"
proof -
  have "g4 (fold (kernel P) ts s) (m P t + (next P + displacement P 4)) =
    (\<lambda>t s. itaurho P * g4 s (m P t + current P) + tmp1_3 P t s - tmp2_3 P t s) t s"
  proof (rule fold_value [where sel = g4 and c = "next P + displacement P 4", OF _ _ assms])
    show "g4 (kernel P t s) =
      (if inside P t then (g4 s)(m P t + (next P + displacement P 4) :=
         itaurho P * g4 s (m P t + current P) + tmp1_3 P t s - tmp2_3 P t s)
       else g4 s)" for t s
      by (simp only: kernel_g4 inside_def current_pos_def target_index add.assoc [symmetric])
    show "itaurho P * g4 s (m P t + current P) + tmp1_3 P t s - tmp2_3 P t s =
      itaurho P * g4 s' (m P t + current P) + tmp1_3 P t s' - tmp2_3 P t s'"
      if L: "local_inputs P t s = local_inputs P t s'" for t s s'
      by (simp add: locals_local [OF L] local_inputs_eqD [OF L, unfolded current_pos_def])
  qed
  then show ?thesis
    by (simp add: pass_def add.assoc)
qed

lemma pass_value_g5:
  assumes "race_free P ts" "t \<in> set ts" "inside P t"
  shows "g5 (pass P ts s) (m P t + next P + displacement P 5) =
    itaurho P * g5 s (m P t + current P) + tmp1_5 P t s + tmp2_5 P t s"
proof -
  have "g5 (fold (kernel P) ts s) (m P t + (next P + displacement P 5)) =
    (\<lambda>t s. itaurho P * g5 s (m P t + current P) + tmp1_5 P t s + tmp2_5 P t s) t s"
  proof (rule fold_value [where sel = g5 and c = "next P + displacement P 5", OF _ _ assms])
    show "g5 (kernel P t s) =
      (if inside P t then (g5 s)(m P t + (next P + displacement P 5) :=
         itaurho P * g5 s (m P t + current P) + tmp1_5 P t s + tmp2_5 P t s)
       else g5 s)" for t s
      by (simp only: kernel_g5 inside_def current_pos_def target_index add.assoc [symmetric])
    show "itaurho P * g5 s (m P t + current P) + tmp1_5 P t s + tmp2_5 P t s =
      itaurho P * g5 s' (m P t + current P) + tmp1_5 P t s' + tmp2_5 P t s'"
      if L: "local_inputs P t s = local_inputs P t s'" for t s s'
      by (simp add: locals_local [OF L] local_inputs_eqD [OF L, unfolded current_pos_def])
  qed
  then show ?thesis
    by (simp add: pass_def add.assoc)
qed

lemma pass_value_g6:
  assumes "race_free P ts" "t \<in> set ts" "inside P t"
  shows "g6 (pass P ts s) (m P t + next P + displacement P 6) =
    itaurho P * g6 s (m P t + current P) + tmp1_5 P t s - tmp2_5 P t s"
proof -
  have "g6 (fold (kernel P) ts s) (m P t + (next P + displacement P 6)) =
    (\<lambda>t s. itaurho P * g6 s (m P t + current P) + tmp1_5 P t s - tmp2_5 P t s) t s"
  proof (rule fold_value [where sel = g6 and c = "next P + displacement P 6", OF _ _ assms])
    show "g6 (kernel P t s) =
      (if inside P t then (g6 s)(m P t + (next P + displacement P 6) :=
         itaurho P * g6 s (m P t + current P) + tmp1_5 P t s - tmp2_5 P t s)
       else g6 s)" for t s
      by (simp only: kernel_g6 inside_def current_pos_def target_index add.assoc [symmetric])
    show "itaurho P * g6 s (m P t + current P) + tmp1_5 P t s - tmp2_5 P t s =
      itaurho P * g6 s' (m P t + current P) + tmp1_5 P t s' - tmp2_5 P t s'"
      if L: "local_inputs P t s = local_inputs P t s'" for t s s'
      by (simp add: locals_local [OF L] local_inputs_eqD [OF L, unfolded current_pos_def])
  qed
  then show ?thesis
    by (simp add: pass_def add.assoc)
qed

lemma pass_value_g7:
  assumes "race_free P ts" "t \<in> set ts" "inside P t"
  shows "g7 (pass P ts s) (m P t + next P + displacement P 7) =
    itaurho P * g7 s (m P t + current P) + tmp1_7 P t s + tmp2_7 P t s"
proof -
  have "g7 (fold (kernel P) ts s) (m P t + (next P + displacement P 7)) =
    (\<lambda>t s. itaurho P * g7 s (m P t + current P) + tmp1_7 P t s + tmp2_7 P t s) t s"
  proof (rule fold_value [where sel = g7 and c = "next P + displacement P 7", OF _ _ assms])
    show "g7 (kernel P t s) =
      (if inside P t then (g7 s)(m P t + (next P + displacement P 7) :=
         itaurho P * g7 s (m P t + current P) + tmp1_7 P t s + tmp2_7 P t s)
       else g7 s)" for t s
      by (simp only: kernel_g7 inside_def current_pos_def target_index add.assoc [symmetric])
    show "itaurho P * g7 s (m P t + current P) + tmp1_7 P t s + tmp2_7 P t s =
      itaurho P * g7 s' (m P t + current P) + tmp1_7 P t s' + tmp2_7 P t s'"
      if L: "local_inputs P t s = local_inputs P t s'" for t s s'
      by (simp add: locals_local [OF L] local_inputs_eqD [OF L, unfolded current_pos_def])
  qed
  then show ?thesis
    by (simp add: pass_def add.assoc)
qed

lemma pass_value_g8:
  assumes "race_free P ts" "t \<in> set ts" "inside P t"
  shows "g8 (pass P ts s) (m P t + next P + displacement P 8) =
    itaurho P * g8 s (m P t + current P) + tmp1_7 P t s - tmp2_7 P t s"
proof -
  have "g8 (fold (kernel P) ts s) (m P t + (next P + displacement P 8)) =
    (\<lambda>t s. itaurho P * g8 s (m P t + current P) + tmp1_7 P t s - tmp2_7 P t s) t s"
  proof (rule fold_value [where sel = g8 and c = "next P + displacement P 8", OF _ _ assms])
    show "g8 (kernel P t s) =
      (if inside P t then (g8 s)(m P t + (next P + displacement P 8) :=
         itaurho P * g8 s (m P t + current P) + tmp1_7 P t s - tmp2_7 P t s)
       else g8 s)" for t s
      by (simp only: kernel_g8 inside_def current_pos_def target_index add.assoc [symmetric])
    show "itaurho P * g8 s (m P t + current P) + tmp1_7 P t s - tmp2_7 P t s =
      itaurho P * g8 s' (m P t + current P) + tmp1_7 P t s' - tmp2_7 P t s'"
      if L: "local_inputs P t s = local_inputs P t s'" for t s s'
      by (simp add: locals_local [OF L] local_inputs_eqD [OF L, unfolded current_pos_def])
  qed
  then show ?thesis
    by (simp add: pass_def add.assoc)
qed

lemma pass_value_g9:
  assumes "race_free P ts" "t \<in> set ts" "inside P t"
  shows "g9 (pass P ts s) (m P t + next P + displacement P 9) =
    itaurho P * g9 s (m P t + current P) + tmp1_9 P t s + tmp2_9 P t s"
proof -
  have "g9 (fold (kernel P) ts s) (m P t + (next P + displacement P 9)) =
    (\<lambda>t s. itaurho P * g9 s (m P t + current P) + tmp1_9 P t s + tmp2_9 P t s) t s"
  proof (rule fold_value [where sel = g9 and c = "next P + displacement P 9", OF _ _ assms])
    show "g9 (kernel P t s) =
      (if inside P t then (g9 s)(m P t + (next P + displacement P 9) :=
         itaurho P * g9 s (m P t + current P) + tmp1_9 P t s + tmp2_9 P t s)
       else g9 s)" for t s
      by (simp only: kernel_g9 inside_def current_pos_def target_index add.assoc [symmetric])
    show "itaurho P * g9 s (m P t + current P) + tmp1_9 P t s + tmp2_9 P t s =
      itaurho P * g9 s' (m P t + current P) + tmp1_9 P t s' + tmp2_9 P t s'"
      if L: "local_inputs P t s = local_inputs P t s'" for t s s'
      by (simp add: locals_local [OF L] local_inputs_eqD [OF L, unfolded current_pos_def])
  qed
  then show ?thesis
    by (simp add: pass_def add.assoc)
qed

lemma pass_value_g10:
  assumes "race_free P ts" "t \<in> set ts" "inside P t"
  shows "g10 (pass P ts s) (m P t + next P + displacement P 10) =
    itaurho P * g10 s (m P t + current P) + tmp1_9 P t s - tmp2_9 P t s"
proof -
  have "g10 (fold (kernel P) ts s) (m P t + (next P + displacement P 10)) =
    (\<lambda>t s. itaurho P * g10 s (m P t + current P) + tmp1_9 P t s - tmp2_9 P t s) t s"
  proof (rule fold_value [where sel = g10 and c = "next P + displacement P 10", OF _ _ assms])
    show "g10 (kernel P t s) =
      (if inside P t then (g10 s)(m P t + (next P + displacement P 10) :=
         itaurho P * g10 s (m P t + current P) + tmp1_9 P t s - tmp2_9 P t s)
       else g10 s)" for t s
      by (simp only: kernel_g10 inside_def current_pos_def target_index add.assoc [symmetric])
    show "itaurho P * g10 s (m P t + current P) + tmp1_9 P t s - tmp2_9 P t s =
      itaurho P * g10 s' (m P t + current P) + tmp1_9 P t s' - tmp2_9 P t s'"
      if L: "local_inputs P t s = local_inputs P t s'" for t s s'
      by (simp add: locals_local [OF L] local_inputs_eqD [OF L, unfolded current_pos_def])
  qed
  then show ?thesis
    by (simp add: pass_def add.assoc)
qed

lemma pass_value_g11:
  assumes "race_free P ts" "t \<in> set ts" "inside P t"
  shows "g11 (pass P ts s) (m P t + next P + displacement P 11) =
    itaurho P * g11 s (m P t + current P) + tmp1_11 P t s + tmp2_11 P t s"
proof -
  have "g11 (fold (kernel P) ts s) (m P t + (next P + displacement P 11)) =
    (\<lambda>t s. itaurho P * g11 s (m P t + current P) + tmp1_11 P t s + tmp2_11 P t s) t s"
  proof (rule fold_value [where sel = g11 and c = "next P + displacement P 11", OF _ _ assms])
    show "g11 (kernel P t s) =
      (if inside P t then (g11 s)(m P t + (next P + displacement P 11) :=
         itaurho P * g11 s (m P t + current P) + tmp1_11 P t s + tmp2_11 P t s)
       else g11 s)" for t s
      by (simp only: kernel_g11 inside_def current_pos_def target_index add.assoc [symmetric])
    show "itaurho P * g11 s (m P t + current P) + tmp1_11 P t s + tmp2_11 P t s =
      itaurho P * g11 s' (m P t + current P) + tmp1_11 P t s' + tmp2_11 P t s'"
      if L: "local_inputs P t s = local_inputs P t s'" for t s s'
      by (simp add: locals_local [OF L] local_inputs_eqD [OF L, unfolded current_pos_def])
  qed
  then show ?thesis
    by (simp add: pass_def add.assoc)
qed

lemma pass_value_g12:
  assumes "race_free P ts" "t \<in> set ts" "inside P t"
  shows "g12 (pass P ts s) (m P t + next P + displacement P 12) =
    itaurho P * g12 s (m P t + current P) + tmp1_11 P t s - tmp2_11 P t s"
proof -
  have "g12 (fold (kernel P) ts s) (m P t + (next P + displacement P 12)) =
    (\<lambda>t s. itaurho P * g12 s (m P t + current P) + tmp1_11 P t s - tmp2_11 P t s) t s"
  proof (rule fold_value [where sel = g12 and c = "next P + displacement P 12", OF _ _ assms])
    show "g12 (kernel P t s) =
      (if inside P t then (g12 s)(m P t + (next P + displacement P 12) :=
         itaurho P * g12 s (m P t + current P) + tmp1_11 P t s - tmp2_11 P t s)
       else g12 s)" for t s
      by (simp only: kernel_g12 inside_def current_pos_def target_index add.assoc [symmetric])
    show "itaurho P * g12 s (m P t + current P) + tmp1_11 P t s - tmp2_11 P t s =
      itaurho P * g12 s' (m P t + current P) + tmp1_11 P t s' - tmp2_11 P t s'"
      if L: "local_inputs P t s = local_inputs P t s'" for t s s'
      by (simp add: locals_local [OF L] local_inputs_eqD [OF L, unfolded current_pos_def])
  qed
  then show ?thesis
    by (simp add: pass_def add.assoc)
qed

lemma pass_value_g13:
  assumes "race_free P ts" "t \<in> set ts" "inside P t"
  shows "g13 (pass P ts s) (m P t + next P + displacement P 13) =
    itaurho P * g13 s (m P t + current P) + tmp1_13 P t s + tmp2_13 P t s"
proof -
  have "g13 (fold (kernel P) ts s) (m P t + (next P + displacement P 13)) =
    (\<lambda>t s. itaurho P * g13 s (m P t + current P) + tmp1_13 P t s + tmp2_13 P t s) t s"
  proof (rule fold_value [where sel = g13 and c = "next P + displacement P 13", OF _ _ assms])
    show "g13 (kernel P t s) =
      (if inside P t then (g13 s)(m P t + (next P + displacement P 13) :=
         itaurho P * g13 s (m P t + current P) + tmp1_13 P t s + tmp2_13 P t s)
       else g13 s)" for t s
      by (simp only: kernel_g13 inside_def current_pos_def target_index add.assoc [symmetric])
    show "itaurho P * g13 s (m P t + current P) + tmp1_13 P t s + tmp2_13 P t s =
      itaurho P * g13 s' (m P t + current P) + tmp1_13 P t s' + tmp2_13 P t s'"
      if L: "local_inputs P t s = local_inputs P t s'" for t s s'
      by (simp add: locals_local [OF L] local_inputs_eqD [OF L, unfolded current_pos_def])
  qed
  then show ?thesis
    by (simp add: pass_def add.assoc)
qed

lemma pass_value_g14:
  assumes "race_free P ts" "t \<in> set ts" "inside P t"
  shows "g14 (pass P ts s) (m P t + next P + displacement P 14) =
    itaurho P * g14 s (m P t + current P) + tmp1_13 P t s - tmp2_13 P t s"
proof -
  have "g14 (fold (kernel P) ts s) (m P t + (next P + displacement P 14)) =
    (\<lambda>t s. itaurho P * g14 s (m P t + current P) + tmp1_13 P t s - tmp2_13 P t s) t s"
  proof (rule fold_value [where sel = g14 and c = "next P + displacement P 14", OF _ _ assms])
    show "g14 (kernel P t s) =
      (if inside P t then (g14 s)(m P t + (next P + displacement P 14) :=
         itaurho P * g14 s (m P t + current P) + tmp1_13 P t s - tmp2_13 P t s)
       else g14 s)" for t s
      by (simp only: kernel_g14 inside_def current_pos_def target_index add.assoc [symmetric])
    show "itaurho P * g14 s (m P t + current P) + tmp1_13 P t s - tmp2_13 P t s =
      itaurho P * g14 s' (m P t + current P) + tmp1_13 P t s' - tmp2_13 P t s'"
      if L: "local_inputs P t s = local_inputs P t s'" for t s s'
      by (simp add: locals_local [OF L] local_inputs_eqD [OF L, unfolded current_pos_def])
  qed
  then show ?thesis
    by (simp add: pass_def add.assoc)
qed

lemma pass_value_g15:
  assumes "race_free P ts" "t \<in> set ts" "inside P t"
  shows "g15 (pass P ts s) (m P t + next P + displacement P 15) =
    itaurho P * g15 s (m P t + current P) + tmp1_15 P t s + tmp2_15 P t s"
proof -
  have "g15 (fold (kernel P) ts s) (m P t + (next P + displacement P 15)) =
    (\<lambda>t s. itaurho P * g15 s (m P t + current P) + tmp1_15 P t s + tmp2_15 P t s) t s"
  proof (rule fold_value [where sel = g15 and c = "next P + displacement P 15", OF _ _ assms])
    show "g15 (kernel P t s) =
      (if inside P t then (g15 s)(m P t + (next P + displacement P 15) :=
         itaurho P * g15 s (m P t + current P) + tmp1_15 P t s + tmp2_15 P t s)
       else g15 s)" for t s
      by (simp only: kernel_g15 inside_def current_pos_def target_index add.assoc [symmetric])
    show "itaurho P * g15 s (m P t + current P) + tmp1_15 P t s + tmp2_15 P t s =
      itaurho P * g15 s' (m P t + current P) + tmp1_15 P t s' + tmp2_15 P t s'"
      if L: "local_inputs P t s = local_inputs P t s'" for t s s'
      by (simp add: locals_local [OF L] local_inputs_eqD [OF L, unfolded current_pos_def])
  qed
  then show ?thesis
    by (simp add: pass_def add.assoc)
qed

lemma pass_value_g16:
  assumes "race_free P ts" "t \<in> set ts" "inside P t"
  shows "g16 (pass P ts s) (m P t + next P + displacement P 16) =
    itaurho P * g16 s (m P t + current P) + tmp1_15 P t s - tmp2_15 P t s"
proof -
  have "g16 (fold (kernel P) ts s) (m P t + (next P + displacement P 16)) =
    (\<lambda>t s. itaurho P * g16 s (m P t + current P) + tmp1_15 P t s - tmp2_15 P t s) t s"
  proof (rule fold_value [where sel = g16 and c = "next P + displacement P 16", OF _ _ assms])
    show "g16 (kernel P t s) =
      (if inside P t then (g16 s)(m P t + (next P + displacement P 16) :=
         itaurho P * g16 s (m P t + current P) + tmp1_15 P t s - tmp2_15 P t s)
       else g16 s)" for t s
      by (simp only: kernel_g16 inside_def current_pos_def target_index add.assoc [symmetric])
    show "itaurho P * g16 s (m P t + current P) + tmp1_15 P t s - tmp2_15 P t s =
      itaurho P * g16 s' (m P t + current P) + tmp1_15 P t s' - tmp2_15 P t s'"
      if L: "local_inputs P t s = local_inputs P t s'" for t s s'
      by (simp add: locals_local [OF L] local_inputs_eqD [OF L, unfolded current_pos_def])
  qed
  then show ?thesis
    by (simp add: pass_def add.assoc)
qed

lemma pass_value_g17:
  assumes "race_free P ts" "t \<in> set ts" "inside P t"
  shows "g17 (pass P ts s) (m P t + next P + displacement P 17) =
    itaurho P * g17 s (m P t + current P) + tmp1_17 P t s + tmp2_17 P t s"
proof -
  have "g17 (fold (kernel P) ts s) (m P t + (next P + displacement P 17)) =
    (\<lambda>t s. itaurho P * g17 s (m P t + current P) + tmp1_17 P t s + tmp2_17 P t s) t s"
  proof (rule fold_value [where sel = g17 and c = "next P + displacement P 17", OF _ _ assms])
    show "g17 (kernel P t s) =
      (if inside P t then (g17 s)(m P t + (next P + displacement P 17) :=
         itaurho P * g17 s (m P t + current P) + tmp1_17 P t s + tmp2_17 P t s)
       else g17 s)" for t s
      by (simp only: kernel_g17 inside_def current_pos_def target_index add.assoc [symmetric])
    show "itaurho P * g17 s (m P t + current P) + tmp1_17 P t s + tmp2_17 P t s =
      itaurho P * g17 s' (m P t + current P) + tmp1_17 P t s' + tmp2_17 P t s'"
      if L: "local_inputs P t s = local_inputs P t s'" for t s s'
      by (simp add: locals_local [OF L] local_inputs_eqD [OF L, unfolded current_pos_def])
  qed
  then show ?thesis
    by (simp add: pass_def add.assoc)
qed

lemma pass_value_g18:
  assumes "race_free P ts" "t \<in> set ts" "inside P t"
  shows "g18 (pass P ts s) (m P t + next P + displacement P 18) =
    itaurho P * g18 s (m P t + current P) + tmp1_17 P t s - tmp2_17 P t s"
proof -
  have "g18 (fold (kernel P) ts s) (m P t + (next P + displacement P 18)) =
    (\<lambda>t s. itaurho P * g18 s (m P t + current P) + tmp1_17 P t s - tmp2_17 P t s) t s"
  proof (rule fold_value [where sel = g18 and c = "next P + displacement P 18", OF _ _ assms])
    show "g18 (kernel P t s) =
      (if inside P t then (g18 s)(m P t + (next P + displacement P 18) :=
         itaurho P * g18 s (m P t + current P) + tmp1_17 P t s - tmp2_17 P t s)
       else g18 s)" for t s
      by (simp only: kernel_g18 inside_def current_pos_def target_index add.assoc [symmetric])
    show "itaurho P * g18 s (m P t + current P) + tmp1_17 P t s - tmp2_17 P t s =
      itaurho P * g18 s' (m P t + current P) + tmp1_17 P t s' - tmp2_17 P t s'"
      if L: "local_inputs P t s = local_inputs P t s'" for t s s'
      by (simp add: locals_local [OF L] local_inputs_eqD [OF L, unfolded current_pos_def])
  qed
  then show ?thesis
    by (simp add: pass_def add.assoc)
qed

section \<open>A uniform memory\<close>

lemma uniform_fields:
  "phi (uniform_arrays c fv gv) n = c" "laplacian_phi (uniform_arrays c fv gv) n = 0"
  "grad_phi_x (uniform_arrays c fv gv) n = 0" "grad_phi_y (uniform_arrays c fv gv) n = 0"
  "grad_phi_z (uniform_arrays c fv gv) n = 0"
  "f0 (uniform_arrays c fv gv) n = fv 0"
  "f1 (uniform_arrays c fv gv) n = fv 1"
  "f2 (uniform_arrays c fv gv) n = fv 2"
  "f3 (uniform_arrays c fv gv) n = fv 3"
  "f4 (uniform_arrays c fv gv) n = fv 4"
  "f5 (uniform_arrays c fv gv) n = fv 5"
  "f6 (uniform_arrays c fv gv) n = fv 6"
  "g0 (uniform_arrays c fv gv) n = gv 0"
  "g1 (uniform_arrays c fv gv) n = gv 1"
  "g2 (uniform_arrays c fv gv) n = gv 2"
  "g3 (uniform_arrays c fv gv) n = gv 3"
  "g4 (uniform_arrays c fv gv) n = gv 4"
  "g5 (uniform_arrays c fv gv) n = gv 5"
  "g6 (uniform_arrays c fv gv) n = gv 6"
  "g7 (uniform_arrays c fv gv) n = gv 7"
  "g8 (uniform_arrays c fv gv) n = gv 8"
  "g9 (uniform_arrays c fv gv) n = gv 9"
  "g10 (uniform_arrays c fv gv) n = gv 10"
  "g11 (uniform_arrays c fv gv) n = gv 11"
  "g12 (uniform_arrays c fv gv) n = gv 12"
  "g13 (uniform_arrays c fv gv) n = gv 13"
  "g14 (uniform_arrays c fv gv) n = gv 14"
  "g15 (uniform_arrays c fv gv) n = gv 15"
  "g16 (uniform_arrays c fv gv) n = gv 16"
  "g17 (uniform_arrays c fv gv) n = gv 17"
  "g18 (uniform_arrays c fv gv) n = gv 18"
  by (simp_all add: uniform_arrays_def)

lemma local_inputs_uniform:
  "local_inputs P t (uniform_arrays c fv gv) = local_inputs P u (uniform_arrays c fv gv)"
  by (simp add: local_inputs_def uniform_fields)

lemma fedD:
  assumes "fed P ts t" "1 \<le> n" "n \<le> 18"
  shows "\<exists>u\<in>set ts. inside P u \<and> m P u + displacement P n = m P t"
proof -
  have "upstream P ts t n \<noteq> []"
    using assms by (simp add: fed_def)
  then show ?thesis
    by (auto simp add: upstream_def filter_empty_conv)
qed

text \<open>
  What a site of a uniform memory receives along direction \<open>n\<close> in a pass without races,
  when a thread of the pass streams into it: the value that its own thread sends out.
\<close>

lemma received_g1:
  assumes "race_free P ts" "fed P ts t"
  shows "g1 (pass P ts (uniform_arrays c fv gv)) (m P t + next P) =
    itaurho P * gv 1 + tmp1_1 P t (uniform_arrays c fv gv) + tmp2_1 P t (uniform_arrays c fv gv)"
proof -
  obtain u where u: "u \<in> set ts" "inside P u" "m P u + displacement P 1 = m P t"
    using fedD [OF assms(2), of 1] by auto
  have idx: "m P t + next P = m P u + next P + displacement P 1"
    using u(3) by simp
  have "g1 (pass P ts (uniform_arrays c fv gv)) (m P u + next P + displacement P 1) =
    itaurho P * gv 1 + tmp1_1 P t (uniform_arrays c fv gv) + tmp2_1 P t (uniform_arrays c fv gv)"
    unfolding pass_value_g1 [OF assms(1) u(1) u(2), of "uniform_arrays c fv gv"]
    by (simp only: uniform_fields tmp1_1_local [OF local_inputs_uniform [of P u c fv gv t]]
        tmp2_1_local [OF local_inputs_uniform [of P u c fv gv t]])
  then show ?thesis
    unfolding idx .
qed

lemma received_g2:
  assumes "race_free P ts" "fed P ts t"
  shows "g2 (pass P ts (uniform_arrays c fv gv)) (m P t + next P) =
    itaurho P * gv 2 + tmp1_1 P t (uniform_arrays c fv gv) - tmp2_1 P t (uniform_arrays c fv gv)"
proof -
  obtain u where u: "u \<in> set ts" "inside P u" "m P u + displacement P 2 = m P t"
    using fedD [OF assms(2), of 2] by auto
  have idx: "m P t + next P = m P u + next P + displacement P 2"
    using u(3) by simp
  have "g2 (pass P ts (uniform_arrays c fv gv)) (m P u + next P + displacement P 2) =
    itaurho P * gv 2 + tmp1_1 P t (uniform_arrays c fv gv) - tmp2_1 P t (uniform_arrays c fv gv)"
    unfolding pass_value_g2 [OF assms(1) u(1) u(2), of "uniform_arrays c fv gv"]
    by (simp only: uniform_fields tmp1_1_local [OF local_inputs_uniform [of P u c fv gv t]]
        tmp2_1_local [OF local_inputs_uniform [of P u c fv gv t]])
  then show ?thesis
    unfolding idx .
qed

lemma received_g3:
  assumes "race_free P ts" "fed P ts t"
  shows "g3 (pass P ts (uniform_arrays c fv gv)) (m P t + next P) =
    itaurho P * gv 3 + tmp1_3 P t (uniform_arrays c fv gv) + tmp2_3 P t (uniform_arrays c fv gv)"
proof -
  obtain u where u: "u \<in> set ts" "inside P u" "m P u + displacement P 3 = m P t"
    using fedD [OF assms(2), of 3] by auto
  have idx: "m P t + next P = m P u + next P + displacement P 3"
    using u(3) by simp
  have "g3 (pass P ts (uniform_arrays c fv gv)) (m P u + next P + displacement P 3) =
    itaurho P * gv 3 + tmp1_3 P t (uniform_arrays c fv gv) + tmp2_3 P t (uniform_arrays c fv gv)"
    unfolding pass_value_g3 [OF assms(1) u(1) u(2), of "uniform_arrays c fv gv"]
    by (simp only: uniform_fields tmp1_3_local [OF local_inputs_uniform [of P u c fv gv t]]
        tmp2_3_local [OF local_inputs_uniform [of P u c fv gv t]])
  then show ?thesis
    unfolding idx .
qed

lemma received_g4:
  assumes "race_free P ts" "fed P ts t"
  shows "g4 (pass P ts (uniform_arrays c fv gv)) (m P t + next P) =
    itaurho P * gv 4 + tmp1_3 P t (uniform_arrays c fv gv) - tmp2_3 P t (uniform_arrays c fv gv)"
proof -
  obtain u where u: "u \<in> set ts" "inside P u" "m P u + displacement P 4 = m P t"
    using fedD [OF assms(2), of 4] by auto
  have idx: "m P t + next P = m P u + next P + displacement P 4"
    using u(3) by simp
  have "g4 (pass P ts (uniform_arrays c fv gv)) (m P u + next P + displacement P 4) =
    itaurho P * gv 4 + tmp1_3 P t (uniform_arrays c fv gv) - tmp2_3 P t (uniform_arrays c fv gv)"
    unfolding pass_value_g4 [OF assms(1) u(1) u(2), of "uniform_arrays c fv gv"]
    by (simp only: uniform_fields tmp1_3_local [OF local_inputs_uniform [of P u c fv gv t]]
        tmp2_3_local [OF local_inputs_uniform [of P u c fv gv t]])
  then show ?thesis
    unfolding idx .
qed

lemma received_g5:
  assumes "race_free P ts" "fed P ts t"
  shows "g5 (pass P ts (uniform_arrays c fv gv)) (m P t + next P) =
    itaurho P * gv 5 + tmp1_5 P t (uniform_arrays c fv gv) + tmp2_5 P t (uniform_arrays c fv gv)"
proof -
  obtain u where u: "u \<in> set ts" "inside P u" "m P u + displacement P 5 = m P t"
    using fedD [OF assms(2), of 5] by auto
  have idx: "m P t + next P = m P u + next P + displacement P 5"
    using u(3) by simp
  have "g5 (pass P ts (uniform_arrays c fv gv)) (m P u + next P + displacement P 5) =
    itaurho P * gv 5 + tmp1_5 P t (uniform_arrays c fv gv) + tmp2_5 P t (uniform_arrays c fv gv)"
    unfolding pass_value_g5 [OF assms(1) u(1) u(2), of "uniform_arrays c fv gv"]
    by (simp only: uniform_fields tmp1_5_local [OF local_inputs_uniform [of P u c fv gv t]]
        tmp2_5_local [OF local_inputs_uniform [of P u c fv gv t]])
  then show ?thesis
    unfolding idx .
qed

lemma received_g6:
  assumes "race_free P ts" "fed P ts t"
  shows "g6 (pass P ts (uniform_arrays c fv gv)) (m P t + next P) =
    itaurho P * gv 6 + tmp1_5 P t (uniform_arrays c fv gv) - tmp2_5 P t (uniform_arrays c fv gv)"
proof -
  obtain u where u: "u \<in> set ts" "inside P u" "m P u + displacement P 6 = m P t"
    using fedD [OF assms(2), of 6] by auto
  have idx: "m P t + next P = m P u + next P + displacement P 6"
    using u(3) by simp
  have "g6 (pass P ts (uniform_arrays c fv gv)) (m P u + next P + displacement P 6) =
    itaurho P * gv 6 + tmp1_5 P t (uniform_arrays c fv gv) - tmp2_5 P t (uniform_arrays c fv gv)"
    unfolding pass_value_g6 [OF assms(1) u(1) u(2), of "uniform_arrays c fv gv"]
    by (simp only: uniform_fields tmp1_5_local [OF local_inputs_uniform [of P u c fv gv t]]
        tmp2_5_local [OF local_inputs_uniform [of P u c fv gv t]])
  then show ?thesis
    unfolding idx .
qed

lemma received_g7:
  assumes "race_free P ts" "fed P ts t"
  shows "g7 (pass P ts (uniform_arrays c fv gv)) (m P t + next P) =
    itaurho P * gv 7 + tmp1_7 P t (uniform_arrays c fv gv) + tmp2_7 P t (uniform_arrays c fv gv)"
proof -
  obtain u where u: "u \<in> set ts" "inside P u" "m P u + displacement P 7 = m P t"
    using fedD [OF assms(2), of 7] by auto
  have idx: "m P t + next P = m P u + next P + displacement P 7"
    using u(3) by simp
  have "g7 (pass P ts (uniform_arrays c fv gv)) (m P u + next P + displacement P 7) =
    itaurho P * gv 7 + tmp1_7 P t (uniform_arrays c fv gv) + tmp2_7 P t (uniform_arrays c fv gv)"
    unfolding pass_value_g7 [OF assms(1) u(1) u(2), of "uniform_arrays c fv gv"]
    by (simp only: uniform_fields tmp1_7_local [OF local_inputs_uniform [of P u c fv gv t]]
        tmp2_7_local [OF local_inputs_uniform [of P u c fv gv t]])
  then show ?thesis
    unfolding idx .
qed

lemma received_g8:
  assumes "race_free P ts" "fed P ts t"
  shows "g8 (pass P ts (uniform_arrays c fv gv)) (m P t + next P) =
    itaurho P * gv 8 + tmp1_7 P t (uniform_arrays c fv gv) - tmp2_7 P t (uniform_arrays c fv gv)"
proof -
  obtain u where u: "u \<in> set ts" "inside P u" "m P u + displacement P 8 = m P t"
    using fedD [OF assms(2), of 8] by auto
  have idx: "m P t + next P = m P u + next P + displacement P 8"
    using u(3) by simp
  have "g8 (pass P ts (uniform_arrays c fv gv)) (m P u + next P + displacement P 8) =
    itaurho P * gv 8 + tmp1_7 P t (uniform_arrays c fv gv) - tmp2_7 P t (uniform_arrays c fv gv)"
    unfolding pass_value_g8 [OF assms(1) u(1) u(2), of "uniform_arrays c fv gv"]
    by (simp only: uniform_fields tmp1_7_local [OF local_inputs_uniform [of P u c fv gv t]]
        tmp2_7_local [OF local_inputs_uniform [of P u c fv gv t]])
  then show ?thesis
    unfolding idx .
qed

lemma received_g9:
  assumes "race_free P ts" "fed P ts t"
  shows "g9 (pass P ts (uniform_arrays c fv gv)) (m P t + next P) =
    itaurho P * gv 9 + tmp1_9 P t (uniform_arrays c fv gv) + tmp2_9 P t (uniform_arrays c fv gv)"
proof -
  obtain u where u: "u \<in> set ts" "inside P u" "m P u + displacement P 9 = m P t"
    using fedD [OF assms(2), of 9] by auto
  have idx: "m P t + next P = m P u + next P + displacement P 9"
    using u(3) by simp
  have "g9 (pass P ts (uniform_arrays c fv gv)) (m P u + next P + displacement P 9) =
    itaurho P * gv 9 + tmp1_9 P t (uniform_arrays c fv gv) + tmp2_9 P t (uniform_arrays c fv gv)"
    unfolding pass_value_g9 [OF assms(1) u(1) u(2), of "uniform_arrays c fv gv"]
    by (simp only: uniform_fields tmp1_9_local [OF local_inputs_uniform [of P u c fv gv t]]
        tmp2_9_local [OF local_inputs_uniform [of P u c fv gv t]])
  then show ?thesis
    unfolding idx .
qed

lemma received_g10:
  assumes "race_free P ts" "fed P ts t"
  shows "g10 (pass P ts (uniform_arrays c fv gv)) (m P t + next P) =
    itaurho P * gv 10 + tmp1_9 P t (uniform_arrays c fv gv) - tmp2_9 P t (uniform_arrays c fv gv)"
proof -
  obtain u where u: "u \<in> set ts" "inside P u" "m P u + displacement P 10 = m P t"
    using fedD [OF assms(2), of 10] by auto
  have idx: "m P t + next P = m P u + next P + displacement P 10"
    using u(3) by simp
  have "g10 (pass P ts (uniform_arrays c fv gv)) (m P u + next P + displacement P 10) =
    itaurho P * gv 10 + tmp1_9 P t (uniform_arrays c fv gv) - tmp2_9 P t (uniform_arrays c fv gv)"
    unfolding pass_value_g10 [OF assms(1) u(1) u(2), of "uniform_arrays c fv gv"]
    by (simp only: uniform_fields tmp1_9_local [OF local_inputs_uniform [of P u c fv gv t]]
        tmp2_9_local [OF local_inputs_uniform [of P u c fv gv t]])
  then show ?thesis
    unfolding idx .
qed

lemma received_g11:
  assumes "race_free P ts" "fed P ts t"
  shows "g11 (pass P ts (uniform_arrays c fv gv)) (m P t + next P) =
    itaurho P * gv 11 + tmp1_11 P t (uniform_arrays c fv gv) + tmp2_11 P t (uniform_arrays c fv gv)"
proof -
  obtain u where u: "u \<in> set ts" "inside P u" "m P u + displacement P 11 = m P t"
    using fedD [OF assms(2), of 11] by auto
  have idx: "m P t + next P = m P u + next P + displacement P 11"
    using u(3) by simp
  have "g11 (pass P ts (uniform_arrays c fv gv)) (m P u + next P + displacement P 11) =
    itaurho P * gv 11 + tmp1_11 P t (uniform_arrays c fv gv) + tmp2_11 P t (uniform_arrays c fv gv)"
    unfolding pass_value_g11 [OF assms(1) u(1) u(2), of "uniform_arrays c fv gv"]
    by (simp only: uniform_fields tmp1_11_local [OF local_inputs_uniform [of P u c fv gv t]]
        tmp2_11_local [OF local_inputs_uniform [of P u c fv gv t]])
  then show ?thesis
    unfolding idx .
qed

lemma received_g12:
  assumes "race_free P ts" "fed P ts t"
  shows "g12 (pass P ts (uniform_arrays c fv gv)) (m P t + next P) =
    itaurho P * gv 12 + tmp1_11 P t (uniform_arrays c fv gv) - tmp2_11 P t (uniform_arrays c fv gv)"
proof -
  obtain u where u: "u \<in> set ts" "inside P u" "m P u + displacement P 12 = m P t"
    using fedD [OF assms(2), of 12] by auto
  have idx: "m P t + next P = m P u + next P + displacement P 12"
    using u(3) by simp
  have "g12 (pass P ts (uniform_arrays c fv gv)) (m P u + next P + displacement P 12) =
    itaurho P * gv 12 + tmp1_11 P t (uniform_arrays c fv gv) - tmp2_11 P t (uniform_arrays c fv gv)"
    unfolding pass_value_g12 [OF assms(1) u(1) u(2), of "uniform_arrays c fv gv"]
    by (simp only: uniform_fields tmp1_11_local [OF local_inputs_uniform [of P u c fv gv t]]
        tmp2_11_local [OF local_inputs_uniform [of P u c fv gv t]])
  then show ?thesis
    unfolding idx .
qed

lemma received_g13:
  assumes "race_free P ts" "fed P ts t"
  shows "g13 (pass P ts (uniform_arrays c fv gv)) (m P t + next P) =
    itaurho P * gv 13 + tmp1_13 P t (uniform_arrays c fv gv) + tmp2_13 P t (uniform_arrays c fv gv)"
proof -
  obtain u where u: "u \<in> set ts" "inside P u" "m P u + displacement P 13 = m P t"
    using fedD [OF assms(2), of 13] by auto
  have idx: "m P t + next P = m P u + next P + displacement P 13"
    using u(3) by simp
  have "g13 (pass P ts (uniform_arrays c fv gv)) (m P u + next P + displacement P 13) =
    itaurho P * gv 13 + tmp1_13 P t (uniform_arrays c fv gv) + tmp2_13 P t (uniform_arrays c fv gv)"
    unfolding pass_value_g13 [OF assms(1) u(1) u(2), of "uniform_arrays c fv gv"]
    by (simp only: uniform_fields tmp1_13_local [OF local_inputs_uniform [of P u c fv gv t]]
        tmp2_13_local [OF local_inputs_uniform [of P u c fv gv t]])
  then show ?thesis
    unfolding idx .
qed

lemma received_g14:
  assumes "race_free P ts" "fed P ts t"
  shows "g14 (pass P ts (uniform_arrays c fv gv)) (m P t + next P) =
    itaurho P * gv 14 + tmp1_13 P t (uniform_arrays c fv gv) - tmp2_13 P t (uniform_arrays c fv gv)"
proof -
  obtain u where u: "u \<in> set ts" "inside P u" "m P u + displacement P 14 = m P t"
    using fedD [OF assms(2), of 14] by auto
  have idx: "m P t + next P = m P u + next P + displacement P 14"
    using u(3) by simp
  have "g14 (pass P ts (uniform_arrays c fv gv)) (m P u + next P + displacement P 14) =
    itaurho P * gv 14 + tmp1_13 P t (uniform_arrays c fv gv) - tmp2_13 P t (uniform_arrays c fv gv)"
    unfolding pass_value_g14 [OF assms(1) u(1) u(2), of "uniform_arrays c fv gv"]
    by (simp only: uniform_fields tmp1_13_local [OF local_inputs_uniform [of P u c fv gv t]]
        tmp2_13_local [OF local_inputs_uniform [of P u c fv gv t]])
  then show ?thesis
    unfolding idx .
qed

lemma received_g15:
  assumes "race_free P ts" "fed P ts t"
  shows "g15 (pass P ts (uniform_arrays c fv gv)) (m P t + next P) =
    itaurho P * gv 15 + tmp1_15 P t (uniform_arrays c fv gv) + tmp2_15 P t (uniform_arrays c fv gv)"
proof -
  obtain u where u: "u \<in> set ts" "inside P u" "m P u + displacement P 15 = m P t"
    using fedD [OF assms(2), of 15] by auto
  have idx: "m P t + next P = m P u + next P + displacement P 15"
    using u(3) by simp
  have "g15 (pass P ts (uniform_arrays c fv gv)) (m P u + next P + displacement P 15) =
    itaurho P * gv 15 + tmp1_15 P t (uniform_arrays c fv gv) + tmp2_15 P t (uniform_arrays c fv gv)"
    unfolding pass_value_g15 [OF assms(1) u(1) u(2), of "uniform_arrays c fv gv"]
    by (simp only: uniform_fields tmp1_15_local [OF local_inputs_uniform [of P u c fv gv t]]
        tmp2_15_local [OF local_inputs_uniform [of P u c fv gv t]])
  then show ?thesis
    unfolding idx .
qed

lemma received_g16:
  assumes "race_free P ts" "fed P ts t"
  shows "g16 (pass P ts (uniform_arrays c fv gv)) (m P t + next P) =
    itaurho P * gv 16 + tmp1_15 P t (uniform_arrays c fv gv) - tmp2_15 P t (uniform_arrays c fv gv)"
proof -
  obtain u where u: "u \<in> set ts" "inside P u" "m P u + displacement P 16 = m P t"
    using fedD [OF assms(2), of 16] by auto
  have idx: "m P t + next P = m P u + next P + displacement P 16"
    using u(3) by simp
  have "g16 (pass P ts (uniform_arrays c fv gv)) (m P u + next P + displacement P 16) =
    itaurho P * gv 16 + tmp1_15 P t (uniform_arrays c fv gv) - tmp2_15 P t (uniform_arrays c fv gv)"
    unfolding pass_value_g16 [OF assms(1) u(1) u(2), of "uniform_arrays c fv gv"]
    by (simp only: uniform_fields tmp1_15_local [OF local_inputs_uniform [of P u c fv gv t]]
        tmp2_15_local [OF local_inputs_uniform [of P u c fv gv t]])
  then show ?thesis
    unfolding idx .
qed

lemma received_g17:
  assumes "race_free P ts" "fed P ts t"
  shows "g17 (pass P ts (uniform_arrays c fv gv)) (m P t + next P) =
    itaurho P * gv 17 + tmp1_17 P t (uniform_arrays c fv gv) + tmp2_17 P t (uniform_arrays c fv gv)"
proof -
  obtain u where u: "u \<in> set ts" "inside P u" "m P u + displacement P 17 = m P t"
    using fedD [OF assms(2), of 17] by auto
  have idx: "m P t + next P = m P u + next P + displacement P 17"
    using u(3) by simp
  have "g17 (pass P ts (uniform_arrays c fv gv)) (m P u + next P + displacement P 17) =
    itaurho P * gv 17 + tmp1_17 P t (uniform_arrays c fv gv) + tmp2_17 P t (uniform_arrays c fv gv)"
    unfolding pass_value_g17 [OF assms(1) u(1) u(2), of "uniform_arrays c fv gv"]
    by (simp only: uniform_fields tmp1_17_local [OF local_inputs_uniform [of P u c fv gv t]]
        tmp2_17_local [OF local_inputs_uniform [of P u c fv gv t]])
  then show ?thesis
    unfolding idx .
qed

lemma received_g18:
  assumes "race_free P ts" "fed P ts t"
  shows "g18 (pass P ts (uniform_arrays c fv gv)) (m P t + next P) =
    itaurho P * gv 18 + tmp1_17 P t (uniform_arrays c fv gv) - tmp2_17 P t (uniform_arrays c fv gv)"
proof -
  obtain u where u: "u \<in> set ts" "inside P u" "m P u + displacement P 18 = m P t"
    using fedD [OF assms(2), of 18] by auto
  have idx: "m P t + next P = m P u + next P + displacement P 18"
    using u(3) by simp
  have "g18 (pass P ts (uniform_arrays c fv gv)) (m P u + next P + displacement P 18) =
    itaurho P * gv 18 + tmp1_17 P t (uniform_arrays c fv gv) - tmp2_17 P t (uniform_arrays c fv gv)"
    unfolding pass_value_g18 [OF assms(1) u(1) u(2), of "uniform_arrays c fv gv"]
    by (simp only: uniform_fields tmp1_17_local [OF local_inputs_uniform [of P u c fv gv t]]
        tmp2_17_local [OF local_inputs_uniform [of P u c fv gv t]])
  then show ?thesis
    unfolding idx .
qed

text \<open>The local values of a thread on a uniform memory on which the recovered velocity
  is zero.\<close>

lemma uniform_force:
  "fx P t (uniform_arrays c fv gv) = 0" "fy P t (uniform_arrays c fv gv) = 0"
  "fz P t (uniform_arrays c fv gv) = 0"
  by (simp_all add: fx_def fy_def fz_def uniform_fields)

lemma uniform_locals_at_rest:
  assumes "ux P t (uniform_arrays c fv gv) = 0" "uy P t (uniform_arrays c fv gv) = 0"
    "uz P t (uniform_arrays c fv gv) = 0"
  shows "v P t (uniform_arrays c fv gv) = 0" "uf P t (uniform_arrays c fv gv) = 0"
    "tmp1_1 P t (uniform_arrays c fv gv) = eg1 P * ag P t (uniform_arrays c fv gv)" "tmp2_1 P t (uniform_arrays c fv gv) = 0"
    "tmp1_3 P t (uniform_arrays c fv gv) = eg1 P * ag P t (uniform_arrays c fv gv)" "tmp2_3 P t (uniform_arrays c fv gv) = 0"
    "tmp1_5 P t (uniform_arrays c fv gv) = eg1 P * ag P t (uniform_arrays c fv gv)" "tmp2_5 P t (uniform_arrays c fv gv) = 0"
    "tmp1_7 P t (uniform_arrays c fv gv) = eg2 P * ag P t (uniform_arrays c fv gv)" "tmp2_7 P t (uniform_arrays c fv gv) = 0"
    "tmp1_9 P t (uniform_arrays c fv gv) = eg2 P * ag P t (uniform_arrays c fv gv)" "tmp2_9 P t (uniform_arrays c fv gv) = 0"
    "tmp1_11 P t (uniform_arrays c fv gv) = eg2 P * ag P t (uniform_arrays c fv gv)" "tmp2_11 P t (uniform_arrays c fv gv) = 0"
    "tmp1_13 P t (uniform_arrays c fv gv) = eg2 P * ag P t (uniform_arrays c fv gv)" "tmp2_13 P t (uniform_arrays c fv gv) = 0"
    "tmp1_15 P t (uniform_arrays c fv gv) = eg2 P * ag P t (uniform_arrays c fv gv)" "tmp2_15 P t (uniform_arrays c fv gv) = 0"
    "tmp1_17 P t (uniform_arrays c fv gv) = eg2 P * ag P t (uniform_arrays c fv gv)" "tmp2_17 P t (uniform_arrays c fv gv) = 0"
  by (simp_all add: v_def uf_def assms uniform_force eg1ag_def eg2ag_def
      tmp1_1_def tmp2_1_def tmp1_3_def tmp2_3_def tmp1_5_def tmp2_5_def tmp1_7_def tmp2_7_def
      tmp1_9_def tmp2_9_def tmp1_11_def tmp2_11_def tmp1_13_def tmp2_13_def tmp1_15_def
      tmp2_15_def tmp1_17_def tmp2_17_def)

lemma uniform_rho:
  "rho P t (uniform_arrays c fv gv) =
     gv 0 + gv 1 + gv 2 + gv 3 + gv 4 + gv 5 + gv 6 + gv 7 + gv 8 + gv 9 + gv 10 + gv 11 +
     gv 12 + gv 13 + gv 14 + gv 15 + gv 16 + gv 17 + gv 18"
  by (simp add: rho_def uniform_fields)

lemma uniform_first_moments:
  assumes "rho P t (uniform_arrays c fv gv) \<noteq> 0"
    and "ux P t (uniform_arrays c fv gv) = 0" "uy P t (uniform_arrays c fv gv) = 0"
    "uz P t (uniform_arrays c fv gv) = 0"
  shows "gv 1 - gv 2 + gv 7 - gv 8 + gv 9 - gv 10 + gv 11 - gv 12 + gv 13 - gv 14 = 0"
    "gv 3 - gv 4 + gv 7 - gv 8 - gv 9 + gv 10 + gv 15 - gv 16 + gv 17 - gv 18 = 0"
    "gv 5 - gv 6 + gv 11 - gv 12 - gv 13 + gv 14 + gv 15 - gv 16 - gv 17 + gv 18 = 0"
  using assms by (simp_all add: ux_def uy_def uz_def irho_def uniform_force uniform_fields)

lemma m_current: "m (P\<lparr>current := x\<rparr>) t = m P t"
  by (simp add: m_def)

lemma pass_scalar_fields:
  "phi (pass P ts s) = phi s" "laplacian_phi (pass P ts s) = laplacian_phi s"
  "grad_phi_x (pass P ts s) = grad_phi_x s" "grad_phi_y (pass P ts s) = grad_phi_y s"
  "grad_phi_z (pass P ts s) = grad_phi_z s"
  unfolding pass_def
  by (rule fold_unchanged, simp add: kernel_fields)+

section \<open>The uniform state at rest\<close>

lemma conservation_algebra:
  fixes r p q w0 w1 w2 tr :: real
  assumes "tr + w0 + 6 * w1 + 12 * w2 = 1" "6 * w0 = 18 * w1 + 36 * w2"
  shows "tr * r + w0 * (r - 6 * (p * q)) + 6 * (w1 * (3.0 * p * q + r)) +
    12 * (w2 * (3.0 * p * q + r)) = r"
proof -
  have "tr * r + w0 * (r - 6 * (p * q)) + 6 * (w1 * (3.0 * p * q + r)) +
    12 * (w2 * (3.0 * p * q + r)) =
    r * (tr + w0 + 6 * w1 + 12 * w2) + p * q * (18 * w1 + 36 * w2 - 6 * w0)"
    by (simp add: algebra_simps)
  then show ?thesis
    by (simp add: assms)
qed

lemma streamed_density_value:
  assumes vel: "ux P t (uniform_arrays c fv gv) = 0" "uy P t (uniform_arrays c fv gv) = 0"
      "uz P t (uniform_arrays c fv gv) = 0"
    and rf: "race_free P ts" and t: "t \<in> set ts" "inside P t" and fed: "fed P ts t"
  shows "zeroth_moment (pass P ts (uniform_arrays c fv gv)) (m P t) (m P t + next P) =
    itaurho P * rho P t (uniform_arrays c fv gv) +
    eg0 P * (rho P t (uniform_arrays c fv gv) -
      6 * (current_phi P t (uniform_arrays c fv gv) * mu_phi P t (uniform_arrays c fv gv))) +
    6 * (eg1 P * ag P t (uniform_arrays c fv gv)) +
    12 * (eg2 P * ag P t (uniform_arrays c fv gv))"
proof -
  let ?U = "uniform_arrays c fv gv"
  let ?r = "rho P t ?U"
  let ?a = "current_phi P t ?U * mu_phi P t ?U"
  have "zeroth_moment (pass P ts ?U) (m P t) (m P t + next P) =
    itaurho P * (gv 0 + gv 1 + gv 2 + gv 3 + gv 4 + gv 5 + gv 6 + gv 7 + gv 8 + gv 9 + gv 10 +
      gv 11 + gv 12 + gv 13 + gv 14 + gv 15 + gv 16 + gv 17 + gv 18) +
    eg0 P * (?r - 6 * ?a) + 6 * (eg1 P * ag P t ?U) + 12 * (eg2 P * ag P t ?U)"
    unfolding zeroth_moment_def hydro_directions_def list.map sum_list.Cons sum_list.Nil
      pass_value_g0 [OF rf t] received_g1 [OF rf fed] received_g2 [OF rf fed] received_g3 [OF rf fed] received_g4 [OF rf fed] received_g5 [OF rf fed] received_g6 [OF rf fed] received_g7 [OF rf fed] received_g8 [OF rf fed] received_g9 [OF rf fed] received_g10 [OF rf fed] received_g11 [OF rf fed] received_g12 [OF rf fed] received_g13 [OF rf fed] received_g14 [OF rf fed] received_g15 [OF rf fed] received_g16 [OF rf fed] received_g17 [OF rf fed] received_g18 [OF rf fed]
    by (simp add: uniform_locals_at_rest [OF vel] uniform_fields algebra_simps)
  then show ?thesis
    by (simp add: uniform_rho)
qed

lemma streamed_density:
  assumes vel: "ux P t (uniform_arrays c fv gv) = 0" "uy P t (uniform_arrays c fv gv) = 0"
      "uz P t (uniform_arrays c fv gv) = 0"
    and weights: "itaurho P + eg0 P + 6 * eg1 P + 12 * eg2 P = 1"
      "6 * eg0 P = 18 * eg1 P + 36 * eg2 P"
    and rf: "race_free P ts" and t: "t \<in> set ts" "inside P t" and fed: "fed P ts t"
  shows "zeroth_moment (pass P ts (uniform_arrays c fv gv)) (m P t) (m P t + next P) =
    rho P t (uniform_arrays c fv gv)"
  unfolding streamed_density_value [OF vel rf t fed] ag_def
  using weights by (rule conservation_algebra)

lemma phase_moment_after:
  assumes rf: "race_free P ts" and t: "t \<in> set ts" "inside P t"
  shows "phase_zeroth_moment (pass P ts s) (m P t) (m P t + current P) =
    itauphi1 P * phase_zeroth_moment s (m P t) (m P t + current P) + itauphi P * phi s (m P t)"
  unfolding phase_zeroth_moment_def phase_directions_def list.map sum_list.Cons sum_list.Nil
    pass_value_f0 [OF rf t] pass_value_f1 [OF rf t] pass_value_f2 [OF rf t]
    pass_value_f3 [OF rf t] pass_value_f4 [OF rf t] pass_value_f5 [OF rf t]
    pass_value_f6 [OF rf t]
  by (simp add: af_def current_phi_def algebra_simps)

lemma velocity_after:
  assumes rho: "rho P t (uniform_arrays c fv gv) \<noteq> 0"
    and vel: "ux P t (uniform_arrays c fv gv) = 0" "uy P t (uniform_arrays c fv gv) = 0"
      "uz P t (uniform_arrays c fv gv) = 0"
    and rf: "race_free P ts" and fed: "fed P ts t"
  shows "ux (P\<lparr>current := next P\<rparr>) t (pass P ts (uniform_arrays c fv gv)) = 0"
    "uy (P\<lparr>current := next P\<rparr>) t (pass P ts (uniform_arrays c fv gv)) = 0"
    "uz (P\<lparr>current := next P\<rparr>) t (pass P ts (uniform_arrays c fv gv)) = 0"
proof -
  note fm = uniform_first_moments [OF rho vel]
  have x: "itaurho P * gv 1 - itaurho P * gv 2 + itaurho P * gv 7 - itaurho P * gv 8 +
      itaurho P * gv 9 - itaurho P * gv 10 + itaurho P * gv 11 - itaurho P * gv 12 +
      itaurho P * gv 13 - itaurho P * gv 14 = 0"
    using arg_cong [OF fm(1), of "\<lambda>q. itaurho P * q"] by (simp add: algebra_simps)
  have y: "itaurho P * gv 3 - itaurho P * gv 4 + itaurho P * gv 7 - itaurho P * gv 8 -
      itaurho P * gv 9 + itaurho P * gv 10 + itaurho P * gv 15 - itaurho P * gv 16 +
      itaurho P * gv 17 - itaurho P * gv 18 = 0"
    using arg_cong [OF fm(2), of "\<lambda>q. itaurho P * q"] by (simp add: algebra_simps)
  have z: "itaurho P * gv 5 - itaurho P * gv 6 + itaurho P * gv 11 - itaurho P * gv 12 -
      itaurho P * gv 13 + itaurho P * gv 14 + itaurho P * gv 15 - itaurho P * gv 16 -
      itaurho P * gv 17 + itaurho P * gv 18 = 0"
    using arg_cong [OF fm(3), of "\<lambda>q. itaurho P * q"] by (simp add: algebra_simps)
  note r = received_g1 [OF rf fed] received_g2 [OF rf fed] received_g3 [OF rf fed] received_g4 [OF rf fed] received_g5 [OF rf fed] received_g6 [OF rf fed] received_g7 [OF rf fed] received_g8 [OF rf fed] received_g9 [OF rf fed] received_g10 [OF rf fed] received_g11 [OF rf fed] received_g12 [OF rf fed] received_g13 [OF rf fed] received_g14 [OF rf fed] received_g15 [OF rf fed] received_g16 [OF rf fed] received_g17 [OF rf fed] received_g18 [OF rf fed]
  show "ux (P\<lparr>current := next P\<rparr>) t (pass P ts (uniform_arrays c fv gv)) = 0"
    using x
    by (simp add: ux_def fx_def current_pos_def m_current pass_scalar_fields uniform_fields r
        uniform_locals_at_rest [OF vel])
  show "uy (P\<lparr>current := next P\<rparr>) t (pass P ts (uniform_arrays c fv gv)) = 0"
    using y
    by (simp add: uy_def fy_def current_pos_def m_current pass_scalar_fields uniform_fields r
        uniform_locals_at_rest [OF vel])
  show "uz (P\<lparr>current := next P\<rparr>) t (pass P ts (uniform_arrays c fv gv)) = 0"
    using z
    by (simp add: uz_def fz_def current_pos_def m_current pass_scalar_fields uniform_fields r
        uniform_locals_at_rest [OF vel])
qed

section \<open>The concrete launch is free of races\<close>

lemma example_launch_sites:
  "map (m example_params) (filter (inside example_params) example_launch) =
     [0, 1, 2, 5, 6, 7, 10, 11, 12, 25, 26, 27, 30, 31, 32, 35, 36, 37, 50, 51, 52, 55, 56, 57, 60, 61, 62]"
  by (simp add: example_launch_def example_thread_def inside_def m_def i_def j_def z_def example_params_def)

lemma example_thread_guard: "inside example_params example_thread"
  using example_thread_inside by (simp add: inside_def)

lemma example_thread_launch: "example_thread \<in> set example_launch"
  by (simp add: example_launch_def example_thread_def)

lemma example_launch_bounds:
  assumes "t \<in> set example_launch" "inside example_params t"
  shows "0 \<le> m example_params t" "m example_params t \<le> 62"
proof -
  have "m example_params t \<in> set (map (m example_params) (filter (inside example_params) example_launch))"
    using assms by simp
  then have "m example_params t \<in> {0, 1, 2, 5, 6, 7, 10, 11, 12, 25, 26, 27, 30, 31, 32, 35, 36, 37, 50, 51, 52, 55, 56, 57, 60, 61, 62}"
    unfolding example_launch_sites by simp
  then show "0 \<le> m example_params t" "m example_params t \<le> 62"
    by auto
qed

lemma direction_cases:
  assumes "n \<in> {1..18::nat}"
  shows "n \<in> {1, 2, 3, 4, 5, 6, 7, 8, 9, 10, 11, 12, 13, 14, 15, 16, 17, 18}"
  using assms by (simp; arith)

lemma example_displacement_bound:
  assumes "d \<in> displacement example_params ` {1..18}"
  shows "- 30 \<le> d"
proof -
  obtain n where n: "n \<in> {1..18}" "d = displacement example_params n"
    using assms by auto
  show ?thesis
    using direction_cases [OF n(1)] unfolding n(2)
    by (auto simp add: displacement_def step_x_def step_y_def step_z_def example_params_def)
qed

lemma example_launch_race_free: "race_free example_params example_launch"
  unfolding race_free_def
proof (intro conjI ballI impI)
  show "distinct (map (m example_params) (filter (inside example_params) example_launch))"
    unfolding example_launch_sites by simp
next
  fix t u d
  assume "t \<in> set example_launch" "u \<in> set example_launch" "inside example_params t"
    "inside example_params u" "d \<in> displacement example_params ` {1..18}"
  then have "m example_params t \<le> 62" "0 \<le> m example_params u" "- 30 \<le> d"
    using example_launch_bounds example_displacement_bound by auto
  then show "m example_params u + next example_params + d \<noteq> m example_params t + current example_params"
    by (simp add: example_params_def)
qed

lemma example_thread_fed: "fed example_params example_launch example_thread"
proof -
  have "\<exists>u\<in>set example_launch. inside example_params u \<and>
      m example_params u + displacement example_params n = m example_params example_thread"
    if "n \<in> {1..18}" for n
  proof -
    have "31 - displacement example_params n \<in>
      set (map (m example_params) (filter (inside example_params) example_launch))"
      using direction_cases [OF that] unfolding example_launch_sites
      by (auto simp add: displacement_def step_x_def step_y_def step_z_def example_params_def)
    then obtain u where "u \<in> set example_launch" "inside example_params u"
      "m example_params u = 31 - displacement example_params n"
      by auto
    then show ?thesis
      by (auto simp add: example_site)
  qed
  then show ?thesis
    by (auto simp add: fed_def upstream_def filter_empty_conv)
qed

lemma example_arrays_uniform:
  "example_arrays =
     uniform_arrays (1 / 2) (\<lambda>n. if n = 0 then 1 / 2 else 0) (\<lambda>n. if n = 0 then 1 else 0)"
  by (simp add: example_arrays_def uniform_arrays_def)

lemma geometry_eg0:
  "m (P\<lparr>eg0 := x\<rparr>) = m P" "inside (P\<lparr>eg0 := x\<rparr>) = inside P"
  "displacement (P\<lparr>eg0 := x\<rparr>) = displacement P"
  by (simp_all add: fun_eq_iff m_def inside_def displacement_def step_x_def step_y_def step_z_def)

lemma race_free_eg0: "race_free (P\<lparr>eg0 := x\<rparr>) ts = race_free P ts"
  by (simp add: race_free_def geometry_eg0)

lemma fed_eg0: "fed (P\<lparr>eg0 := x\<rparr>) ts t = fed P ts t"
  by (simp add: fed_def upstream_def geometry_eg0)


section \<open>Streaming of the hydrodynamic family\<close>

text \<open>
  Claim C1, as amended. For every thread that passes the guard, with
  \<open>m = i + ldx * (j + ldy * z)\<close>, the only store to each of \<open>g1\<close>, ..., \<open>g18\<close> is at
  \<open>m + next + displacement\<close> of that direction, and the value stored is \<open>itaurho\<close> times the
  old value at \<open>m + current\<close> plus \<open>tmp1 + tmp2\<close> (odd directions) or \<open>tmp1 - tmp2\<close> (even
  directions) of the pair. The displacements are \<open>\<plusminus>1\<close>, \<open>\<plusminus>ldx\<close>, \<open>\<plusminus>ldx * ldy\<close> for directions
  1 to 6 and, for the twelve directions 7 to 18, the twelve sums of two of these along
  different axes.
\<close>

theorem streaming_targets:
  assumes "i t \<le> nx P" "j t \<le> ny P" "z t \<le> nz P"
  shows
    "(g1 (kernel P t s) =
       (g1 s)(m P t + next P + displacement P 1 :=
          itaurho P * g1 s (m P t + current P) + tmp1_1 P t s + tmp2_1 P t s) \<and>
     g2 (kernel P t s) =
       (g2 s)(m P t + next P + displacement P 2 :=
          itaurho P * g2 s (m P t + current P) + tmp1_1 P t s - tmp2_1 P t s) \<and>
     g3 (kernel P t s) =
       (g3 s)(m P t + next P + displacement P 3 :=
          itaurho P * g3 s (m P t + current P) + tmp1_3 P t s + tmp2_3 P t s) \<and>
     g4 (kernel P t s) =
       (g4 s)(m P t + next P + displacement P 4 :=
          itaurho P * g4 s (m P t + current P) + tmp1_3 P t s - tmp2_3 P t s) \<and>
     g5 (kernel P t s) =
       (g5 s)(m P t + next P + displacement P 5 :=
          itaurho P * g5 s (m P t + current P) + tmp1_5 P t s + tmp2_5 P t s) \<and>
     g6 (kernel P t s) =
       (g6 s)(m P t + next P + displacement P 6 :=
          itaurho P * g6 s (m P t + current P) + tmp1_5 P t s - tmp2_5 P t s) \<and>
     g7 (kernel P t s) =
       (g7 s)(m P t + next P + displacement P 7 :=
          itaurho P * g7 s (m P t + current P) + tmp1_7 P t s + tmp2_7 P t s) \<and>
     g8 (kernel P t s) =
       (g8 s)(m P t + next P + displacement P 8 :=
          itaurho P * g8 s (m P t + current P) + tmp1_7 P t s - tmp2_7 P t s) \<and>
     g9 (kernel P t s) =
       (g9 s)(m P t + next P + displacement P 9 :=
          itaurho P * g9 s (m P t + current P) + tmp1_9 P t s + tmp2_9 P t s) \<and>
     g10 (kernel P t s) =
       (g10 s)(m P t + next P + displacement P 10 :=
          itaurho P * g10 s (m P t + current P) + tmp1_9 P t s - tmp2_9 P t s) \<and>
     g11 (kernel P t s) =
       (g11 s)(m P t + next P + displacement P 11 :=
          itaurho P * g11 s (m P t + current P) + tmp1_11 P t s + tmp2_11 P t s) \<and>
     g12 (kernel P t s) =
       (g12 s)(m P t + next P + displacement P 12 :=
          itaurho P * g12 s (m P t + current P) + tmp1_11 P t s - tmp2_11 P t s) \<and>
     g13 (kernel P t s) =
       (g13 s)(m P t + next P + displacement P 13 :=
          itaurho P * g13 s (m P t + current P) + tmp1_13 P t s + tmp2_13 P t s) \<and>
     g14 (kernel P t s) =
       (g14 s)(m P t + next P + displacement P 14 :=
          itaurho P * g14 s (m P t + current P) + tmp1_13 P t s - tmp2_13 P t s) \<and>
     g15 (kernel P t s) =
       (g15 s)(m P t + next P + displacement P 15 :=
          itaurho P * g15 s (m P t + current P) + tmp1_15 P t s + tmp2_15 P t s) \<and>
     g16 (kernel P t s) =
       (g16 s)(m P t + next P + displacement P 16 :=
          itaurho P * g16 s (m P t + current P) + tmp1_15 P t s - tmp2_15 P t s) \<and>
     g17 (kernel P t s) =
       (g17 s)(m P t + next P + displacement P 17 :=
          itaurho P * g17 s (m P t + current P) + tmp1_17 P t s + tmp2_17 P t s) \<and>
     g18 (kernel P t s) =
       (g18 s)(m P t + next P + displacement P 18 :=
          itaurho P * g18 s (m P t + current P) + tmp1_17 P t s - tmp2_17 P t s)) \<and>
     displacement P 1 = 1 \<and> displacement P 2 = - 1 \<and>
     displacement P 3 = ldx P \<and> displacement P 4 = - ldx P \<and>
     displacement P 5 = ldx P * ldy P \<and> displacement P 6 = - (ldx P * ldy P) \<and>
     displacement P 7 = 1 + ldx P \<and> displacement P 8 = - 1 - ldx P \<and>
     displacement P 9 = 1 - ldx P \<and> displacement P 10 = - 1 + ldx P \<and>
     displacement P 11 = 1 + ldx P * ldy P \<and> displacement P 12 = - 1 - ldx P * ldy P \<and>
     displacement P 13 = 1 - ldx P * ldy P \<and> displacement P 14 = - 1 + ldx P * ldy P \<and>
     displacement P 15 = ldx P + ldx P * ldy P \<and> displacement P 16 = - ldx P - ldx P * ldy P \<and>
     displacement P 17 = ldx P - ldx P * ldy P \<and> displacement P 18 = - ldx P + ldx P * ldy P"
proof -
  have A: "g1 (kernel P t s) =
         (g1 s)(m P t + next P + displacement P 1 :=
            itaurho P * g1 s (m P t + current P) + tmp1_1 P t s + tmp2_1 P t s) \<and>
       g2 (kernel P t s) =
         (g2 s)(m P t + next P + displacement P 2 :=
            itaurho P * g2 s (m P t + current P) + tmp1_1 P t s - tmp2_1 P t s) \<and>
       g3 (kernel P t s) =
         (g3 s)(m P t + next P + displacement P 3 :=
            itaurho P * g3 s (m P t + current P) + tmp1_3 P t s + tmp2_3 P t s) \<and>
       g4 (kernel P t s) =
         (g4 s)(m P t + next P + displacement P 4 :=
            itaurho P * g4 s (m P t + current P) + tmp1_3 P t s - tmp2_3 P t s) \<and>
       g5 (kernel P t s) =
         (g5 s)(m P t + next P + displacement P 5 :=
            itaurho P * g5 s (m P t + current P) + tmp1_5 P t s + tmp2_5 P t s) \<and>
       g6 (kernel P t s) =
         (g6 s)(m P t + next P + displacement P 6 :=
            itaurho P * g6 s (m P t + current P) + tmp1_5 P t s - tmp2_5 P t s) \<and>
       g7 (kernel P t s) =
         (g7 s)(m P t + next P + displacement P 7 :=
            itaurho P * g7 s (m P t + current P) + tmp1_7 P t s + tmp2_7 P t s) \<and>
       g8 (kernel P t s) =
         (g8 s)(m P t + next P + displacement P 8 :=
            itaurho P * g8 s (m P t + current P) + tmp1_7 P t s - tmp2_7 P t s) \<and>
       g9 (kernel P t s) =
         (g9 s)(m P t + next P + displacement P 9 :=
            itaurho P * g9 s (m P t + current P) + tmp1_9 P t s + tmp2_9 P t s) \<and>
       g10 (kernel P t s) =
         (g10 s)(m P t + next P + displacement P 10 :=
            itaurho P * g10 s (m P t + current P) + tmp1_9 P t s - tmp2_9 P t s) \<and>
       g11 (kernel P t s) =
         (g11 s)(m P t + next P + displacement P 11 :=
            itaurho P * g11 s (m P t + current P) + tmp1_11 P t s + tmp2_11 P t s) \<and>
       g12 (kernel P t s) =
         (g12 s)(m P t + next P + displacement P 12 :=
            itaurho P * g12 s (m P t + current P) + tmp1_11 P t s - tmp2_11 P t s) \<and>
       g13 (kernel P t s) =
         (g13 s)(m P t + next P + displacement P 13 :=
            itaurho P * g13 s (m P t + current P) + tmp1_13 P t s + tmp2_13 P t s) \<and>
       g14 (kernel P t s) =
         (g14 s)(m P t + next P + displacement P 14 :=
            itaurho P * g14 s (m P t + current P) + tmp1_13 P t s - tmp2_13 P t s) \<and>
       g15 (kernel P t s) =
         (g15 s)(m P t + next P + displacement P 15 :=
            itaurho P * g15 s (m P t + current P) + tmp1_15 P t s + tmp2_15 P t s) \<and>
       g16 (kernel P t s) =
         (g16 s)(m P t + next P + displacement P 16 :=
            itaurho P * g16 s (m P t + current P) + tmp1_15 P t s - tmp2_15 P t s) \<and>
       g17 (kernel P t s) =
         (g17 s)(m P t + next P + displacement P 17 :=
            itaurho P * g17 s (m P t + current P) + tmp1_17 P t s + tmp2_17 P t s) \<and>
       g18 (kernel P t s) =
         (g18 s)(m P t + next P + displacement P 18 :=
            itaurho P * g18 s (m P t + current P) + tmp1_17 P t s - tmp2_17 P t s)"
    using assms unfolding target_index by (simp add: kernel_fields current_pos_def)
  have B: "displacement P 1 = 1 \<and> displacement P 2 = - 1 \<and>
     displacement P 3 = ldx P \<and> displacement P 4 = - ldx P \<and>
     displacement P 5 = ldx P * ldy P \<and> displacement P 6 = - (ldx P * ldy P) \<and>
     displacement P 7 = 1 + ldx P \<and> displacement P 8 = - 1 - ldx P \<and>
     displacement P 9 = 1 - ldx P \<and> displacement P 10 = - 1 + ldx P \<and>
     displacement P 11 = 1 + ldx P * ldy P \<and> displacement P 12 = - 1 - ldx P * ldy P \<and>
     displacement P 13 = 1 - ldx P * ldy P \<and> displacement P 14 = - 1 + ldx P * ldy P \<and>
     displacement P 15 = ldx P + ldx P * ldy P \<and> displacement P 16 = - ldx P - ldx P * ldy P \<and>
     displacement P 17 = ldx P - ldx P * ldy P \<and> displacement P 18 = - ldx P + ldx P * ldy P"
    by (intro conjI displacement_values)
  from A B show ?thesis
    by (rule conjI)
qed

theorem streaming_targets_witness:
  "i example_thread \<le> nx example_params \<and> j example_thread \<le> ny example_params \<and>
   z example_thread \<le> nz example_params \<and>
   g7 (kernel example_params example_thread example_arrays) (31 + 1000 + (1 + 5)) = 0 * 0 + 7 / 576 + 0 \<and>
   g8 (kernel example_params example_thread example_arrays) (31 + 1000 + (- 1 - 5)) = 0 * 0 + 7 / 576 - 0"
  using streaming_targets [OF example_thread_inside, of example_arrays] example_thread_inside
  by (simp add: example_site example_values) (simp add: example_params_def example_arrays_def)

text \<open>
  Claim C1 as stated speaks of eight combinations for the diagonal directions. On the
  concrete launch the thread changes the twelve arrays \<open>g7\<close>, ..., \<open>g18\<close> at twelve
  different displacements from \<open>m + next\<close>.
\<close>

theorem diagonal_displacements_counterexample:
  "card {d. \<exists>a \<in> set (drop 6 hydro_directions).
       a (kernel example_params example_thread example_arrays) (m example_params example_thread + next example_params + d) \<noteq>
       a example_arrays (m example_params example_thread + next example_params + d)} = 12"
proof -
  have c: 
    "g7 (kernel example_params example_thread example_arrays) (m example_params example_thread + next example_params + d) \<noteq>
       g7 example_arrays (m example_params example_thread + next example_params + d) \<longleftrightarrow> d = 6"
    "g8 (kernel example_params example_thread example_arrays) (m example_params example_thread + next example_params + d) \<noteq>
       g8 example_arrays (m example_params example_thread + next example_params + d) \<longleftrightarrow> d = - 6"
    "g9 (kernel example_params example_thread example_arrays) (m example_params example_thread + next example_params + d) \<noteq>
       g9 example_arrays (m example_params example_thread + next example_params + d) \<longleftrightarrow> d = - 4"
    "g10 (kernel example_params example_thread example_arrays) (m example_params example_thread + next example_params + d) \<noteq>
       g10 example_arrays (m example_params example_thread + next example_params + d) \<longleftrightarrow> d = 4"
    "g11 (kernel example_params example_thread example_arrays) (m example_params example_thread + next example_params + d) \<noteq>
       g11 example_arrays (m example_params example_thread + next example_params + d) \<longleftrightarrow> d = 26"
    "g12 (kernel example_params example_thread example_arrays) (m example_params example_thread + next example_params + d) \<noteq>
       g12 example_arrays (m example_params example_thread + next example_params + d) \<longleftrightarrow> d = - 26"
    "g13 (kernel example_params example_thread example_arrays) (m example_params example_thread + next example_params + d) \<noteq>
       g13 example_arrays (m example_params example_thread + next example_params + d) \<longleftrightarrow> d = - 24"
    "g14 (kernel example_params example_thread example_arrays) (m example_params example_thread + next example_params + d) \<noteq>
       g14 example_arrays (m example_params example_thread + next example_params + d) \<longleftrightarrow> d = 24"
    "g15 (kernel example_params example_thread example_arrays) (m example_params example_thread + next example_params + d) \<noteq>
       g15 example_arrays (m example_params example_thread + next example_params + d) \<longleftrightarrow> d = 30"
    "g16 (kernel example_params example_thread example_arrays) (m example_params example_thread + next example_params + d) \<noteq>
       g16 example_arrays (m example_params example_thread + next example_params + d) \<longleftrightarrow> d = - 30"
    "g17 (kernel example_params example_thread example_arrays) (m example_params example_thread + next example_params + d) \<noteq>
       g17 example_arrays (m example_params example_thread + next example_params + d) \<longleftrightarrow> d = - 20"
    "g18 (kernel example_params example_thread example_arrays) (m example_params example_thread + next example_params + d) \<noteq>
       g18 example_arrays (m example_params example_thread + next example_params + d) \<longleftrightarrow> d = 20"
    for d
    by (simp_all add: kernel_fields example_thread_inside example_site example_values)
      (simp_all add: example_params_def example_arrays_def)
  have "{d. \<exists>a \<in> set (drop 6 hydro_directions).
       a (kernel example_params example_thread example_arrays) (m example_params example_thread + next example_params + d) \<noteq>
       a example_arrays (m example_params example_thread + next example_params + d)} =
    {6, - 6, - 4, 4, 26, - 26, - 24, 24, 30, - 30, - 20, 20}"
    unfolding hydro_directions_def by (simp add: c) blast
  then show ?thesis
    by simp
qed

section \<open>Macroscopic recovery\<close>

text \<open>
  Claim C2. The density that the body uses, the local \<open>rho\<close> of lines 32 to 35, is the
  zeroth moment of the hydrodynamic family at the site: the rest population \<open>g0\<close> read
  at the base index \<open>m\<close>, plus the eighteen others read at \<open>m + current\<close>.
\<close>

theorem rho_zeroth_moment:
  "rho P t s = zeroth_moment s (m P t) (m P t + current P)"
  by (simp add: rho_def zeroth_moment_def hydro_directions_def current_pos_def)

text \<open>
  Claim C4. The chemical potential is \<open>alpha * phi[m] * (phi[m]\<^sup>2 - phi2) - k * laplacian_phi[m]\<close>,
  and the force along each axis is the potential times the gradient of \<open>phi\<close> along that
  axis at \<open>m\<close>.
\<close>

theorem chemical_potential_and_force:
  "mu_phi P t s =
     alpha P * phi s (m P t) * ((phi s (m P t))\<^sup>2 - phi2 P) - k P * laplacian_phi s (m P t) \<and>
   fx P t s = mu_phi P t s * grad_phi_x s (m P t) \<and>
   fy P t s = mu_phi P t s * grad_phi_y s (m P t) \<and>
   fz P t s = mu_phi P t s * grad_phi_z s (m P t)"
  by (simp add: mu_phi_def fx_def fy_def fz_def current_phi_def current_phi_2_def power2_eq_square)

text \<open>
  Claim C3. Where the density is not zero, the velocity along each axis is the signed
  sum of the populations that move along that axis, read at \<open>m + current\<close>, plus one half
  of the force along the axis, the whole divided by the density. These are the
  velocities that the collision of lines 62 to 142 uses.
\<close>

theorem velocity_first_moment:
  assumes "rho P t s \<noteq> 0"
  shows
    "ux P t s =
       (g1 s (m P t + current P) - g2 s (m P t + current P) + g7 s (m P t + current P) -
        g8 s (m P t + current P) + g9 s (m P t + current P) - g10 s (m P t + current P) +
        g11 s (m P t + current P) - g12 s (m P t + current P) + g13 s (m P t + current P) -
        g14 s (m P t + current P) + 0.5 * fx P t s) / rho P t s \<and>
     uy P t s =
       (g3 s (m P t + current P) - g4 s (m P t + current P) + g7 s (m P t + current P) -
        g8 s (m P t + current P) - g9 s (m P t + current P) + g10 s (m P t + current P) +
        g15 s (m P t + current P) - g16 s (m P t + current P) + g17 s (m P t + current P) -
        g18 s (m P t + current P) + 0.5 * fy P t s) / rho P t s \<and>
     uz P t s =
       (g5 s (m P t + current P) - g6 s (m P t + current P) + g11 s (m P t + current P) -
        g12 s (m P t + current P) - g13 s (m P t + current P) + g14 s (m P t + current P) +
        g15 s (m P t + current P) - g16 s (m P t + current P) - g17 s (m P t + current P) +
        g18 s (m P t + current P) + 0.5 * fz P t s) / rho P t s"
  using assms by (simp add: ux_def uy_def uz_def irho_def current_pos_def)

theorem velocity_first_moment_witness:
  "rho example_params example_thread example_arrays \<noteq> 0 \<and>
   ux example_params example_thread example_arrays = (0 - 0 + 0 - 0 + 0 - 0 + 0 - 0 + 0 - 0 + 0.5 * 0) / 1"
  using velocity_first_moment [of example_params example_thread example_arrays]
  by (simp add: example_values)

section \<open>Collision of the phase field\<close>

text \<open>
  Claim C5. For every thread that passes the guard, the only store to \<open>f0\<close> is at the
  base index \<open>m\<close>, the only store to each of \<open>f1\<close>, ..., \<open>f6\<close> is at \<open>m + current\<close>, the
  index it is read at, and the values stored are those of the claim, with
  \<open>af = 0.5 * gamma * mu * itauphi\<close> and \<open>cf = itauphi * ieta * phi[m]\<close>. Every other entry
  of the seven arrays keeps its value.
\<close>

theorem phase_field_update:
  assumes "i t \<le> nx P" "j t \<le> ny P" "z t \<le> nz P"
  shows
    "f0 (kernel P t s) =
       (f0 s)(m P t :=
          itauphi1 P * f0 s (m P t) - 3 * gamma P * mu_phi P t s * itauphi P +
          itauphi P * phi s (m P t)) \<and>
     f1 (kernel P t s) =
       (f1 s)(m P t + current P :=
          itauphi1 P * f1 s (m P t + current P) + 0.5 * gamma P * mu_phi P t s * itauphi P +
          itauphi P * ieta P * phi s (m P t) * ux P t s) \<and>
     f2 (kernel P t s) =
       (f2 s)(m P t + current P :=
          itauphi1 P * f2 s (m P t + current P) + 0.5 * gamma P * mu_phi P t s * itauphi P -
          itauphi P * ieta P * phi s (m P t) * ux P t s) \<and>
     f3 (kernel P t s) =
       (f3 s)(m P t + current P :=
          itauphi1 P * f3 s (m P t + current P) + 0.5 * gamma P * mu_phi P t s * itauphi P +
          itauphi P * ieta P * phi s (m P t) * uy P t s) \<and>
     f4 (kernel P t s) =
       (f4 s)(m P t + current P :=
          itauphi1 P * f4 s (m P t + current P) + 0.5 * gamma P * mu_phi P t s * itauphi P -
          itauphi P * ieta P * phi s (m P t) * uy P t s) \<and>
     f5 (kernel P t s) =
       (f5 s)(m P t + current P :=
          itauphi1 P * f5 s (m P t + current P) + 0.5 * gamma P * mu_phi P t s * itauphi P +
          itauphi P * ieta P * phi s (m P t) * uz P t s) \<and>
     f6 (kernel P t s) =
       (f6 s)(m P t + current P :=
          itauphi1 P * f6 s (m P t + current P) + 0.5 * gamma P * mu_phi P t s * itauphi P -
          itauphi P * ieta P * phi s (m P t) * uz P t s)"
  using assms
  by (simp add: kernel_fields af_def cf_def current_phi_def current_pos_def)

theorem phase_field_update_witness:
  "i example_thread \<le> nx example_params \<and> j example_thread \<le> ny example_params \<and>
   z example_thread \<le> nz example_params \<and>
   f0 (kernel example_params example_thread example_arrays) 31 = 13 / 8 \<and> f0 (kernel example_params example_thread example_arrays) 32 = 1 / 2 \<and>
   f1 (kernel example_params example_thread example_arrays) 31 = - (3 / 16) \<and> f1 (kernel example_params example_thread example_arrays) 1031 = 0"
  using phase_field_update [OF example_thread_inside, of example_arrays] example_thread_inside
  by (simp add: example_site example_values) (simp add: example_params_def example_arrays_def)

section \<open>Threads outside the guard\<close>

text \<open>
  Claim C6. A thread with \<open>i > nx\<close> or \<open>j > ny\<close> or \<open>z > nz\<close> leaves all 31 arrays as
  they are.
\<close>

theorem outside_guard_no_effect:
  assumes "nx P < i t \<or> ny P < j t \<or> nz P < z t"
  shows "kernel P t s = s"
  using assms by (auto simp add: kernel_def)

theorem outside_guard_no_effect_witness:
  "(nx example_params < i outside_thread \<or> ny example_params < j outside_thread \<or>
    nz example_params < z outside_thread) \<and>
   kernel example_params outside_thread example_arrays = example_arrays"
proof -
  have h: "nx example_params < i outside_thread"
    by (simp add: i_def outside_thread_def example_thread_def example_params_def)
  show ?thesis
    using outside_guard_no_effect [of example_params outside_thread example_arrays] h
    by blast
qed

section \<open>The unused parameter\<close>

text \<open>
  Claim C9. Two invocations that differ in the value of \<open>grav\<close> only leave the same
  arrays: nothing that the kernel stores depends on \<open>grav\<close>.
\<close>

theorem grav_unused:
  "kernel (P\<lparr>grav := a\<rparr>) t s = kernel (P\<lparr>grav := b\<rparr>) t s"
  by (simp add: kernel_grav)

section \<open>Locality of the reads\<close>

text \<open>
  Claim C10. Take two memories that agree on the 31 local inputs of a thread that
  passes the guard: \<open>phi\<close>, \<open>laplacian_phi\<close>, the three gradients, \<open>f0\<close> and \<open>g0\<close> at \<open>m\<close>, and
  \<open>f1\<close>, ..., \<open>f6\<close>, \<open>g1\<close>, ..., \<open>g18\<close> at \<open>m + current\<close>. Whatever the other entries are,
  the thread stores the same 26 values in both.
\<close>

theorem local_reads_only:
  assumes "i t \<le> nx P" "j t \<le> ny P" "z t \<le> nz P"
    and L: "local_inputs P t s = local_inputs P t s'"
  shows "written_values P t (kernel P t s) = written_values P t (kernel P t s')"
  using assms(1-3)
  by (simp add: written_values_def kernel_fields locals_local [OF L] local_inputs_eqD [OF L]
      current_pos_def local_inputs_eqD [OF L, unfolded current_pos_def])

theorem local_reads_only_witness:
  "i example_thread \<le> nx example_params \<and> j example_thread \<le> ny example_params \<and>
   z example_thread \<le> nz example_params \<and>
   local_inputs example_params example_thread example_arrays =
   local_inputs example_params example_thread (example_arrays\<lparr>g1 := (g1 example_arrays)(32 := 5)\<rparr>) \<and>
   written_values example_params example_thread (kernel example_params example_thread example_arrays) =
   written_values example_params example_thread
     (kernel example_params example_thread (example_arrays\<lparr>g1 := (g1 example_arrays)(32 := 5)\<rparr>))"
proof -
  have L: "local_inputs example_params example_thread example_arrays =
    local_inputs example_params example_thread (example_arrays\<lparr>g1 := (g1 example_arrays)(32 := 5)\<rparr>)"
    by (simp add: local_inputs_def example_site) (simp add: example_params_def)
  show ?thesis
    using local_reads_only [OF example_thread_inside L] example_thread_inside L
    by blast
qed

section \<open>The frame of a pass\<close>

text \<open>
  Claim C7 as stated fails at the edge of the domain. On the domain of one site the one
  thread of the pass changes \<open>g1\<close> at index 1001, one step along x beyond the site, which
  is neither the base index 0 of the site nor that index moved by \<open>current = 0\<close> or by
  \<open>next = 1000\<close>.
\<close>

theorem pass_frame_counterexample:
  "1001 \<in> changed (g1 example_arrays) (g1 (pass single_site_params [origin_thread] example_arrays)) \<and>
   1001 \<notin> addressed single_site_params"
proof -
  have "g1 (kernel single_site_params origin_thread example_arrays) 1001 = 7 / 288"
    by (simp add: kernel_g1 single_site_thread single_site_values current_pos_def)
      (simp add: single_site_params_def example_params_def example_arrays_def)
  moreover have "g1 example_arrays 1001 = 0"
    by (simp add: example_arrays_def)
  moreover have "addressed single_site_params = {0, 1000}"
    by (auto simp add: addressed_def region_def single_site_params_def example_params_def)
  ultimately show ?thesis
    by (simp add: changed_def pass_def)
qed

text \<open>
  Claim C7, as amended. Take a pass over any threads whose indices are not negative.
  An entry of \<open>f0\<close> or \<open>g0\<close> that the pass changes is at the base index of a site of
  \<open>[0, nx] \<times> [0, ny] \<times> [0, nz]\<close>; an entry of \<open>f1\<close>, ..., \<open>f6\<close> is at such an index plus
  \<open>current\<close>; an entry of \<open>g\<^sub>n\<close>, for \<open>n\<close> from 1 to 18, is at such an index plus \<open>next\<close>
  plus the displacement of direction \<open>n\<close>, which for a site on the edge lies one step
  outside the domain.
\<close>

theorem pass_frame:
  assumes "\<forall>t\<in>set ts. 0 \<le> i t \<and> 0 \<le> j t \<and> 0 \<le> z t"
  shows
    "changed (f0 s) (f0 (pass P ts s)) \<subseteq> region P \<and>
     changed (f1 s) (f1 (pass P ts s)) \<subseteq> (\<lambda>q. q + current P) ` region P \<and>
     changed (f2 s) (f2 (pass P ts s)) \<subseteq> (\<lambda>q. q + current P) ` region P \<and>
     changed (f3 s) (f3 (pass P ts s)) \<subseteq> (\<lambda>q. q + current P) ` region P \<and>
     changed (f4 s) (f4 (pass P ts s)) \<subseteq> (\<lambda>q. q + current P) ` region P \<and>
     changed (f5 s) (f5 (pass P ts s)) \<subseteq> (\<lambda>q. q + current P) ` region P \<and>
     changed (f6 s) (f6 (pass P ts s)) \<subseteq> (\<lambda>q. q + current P) ` region P \<and>
     changed (g0 s) (g0 (pass P ts s)) \<subseteq> region P \<and>
     changed (g1 s) (g1 (pass P ts s)) \<subseteq>
       (\<lambda>q. q + next P + displacement P 1) ` region P \<and>
     changed (g2 s) (g2 (pass P ts s)) \<subseteq>
       (\<lambda>q. q + next P + displacement P 2) ` region P \<and>
     changed (g3 s) (g3 (pass P ts s)) \<subseteq>
       (\<lambda>q. q + next P + displacement P 3) ` region P \<and>
     changed (g4 s) (g4 (pass P ts s)) \<subseteq>
       (\<lambda>q. q + next P + displacement P 4) ` region P \<and>
     changed (g5 s) (g5 (pass P ts s)) \<subseteq>
       (\<lambda>q. q + next P + displacement P 5) ` region P \<and>
     changed (g6 s) (g6 (pass P ts s)) \<subseteq>
       (\<lambda>q. q + next P + displacement P 6) ` region P \<and>
     changed (g7 s) (g7 (pass P ts s)) \<subseteq>
       (\<lambda>q. q + next P + displacement P 7) ` region P \<and>
     changed (g8 s) (g8 (pass P ts s)) \<subseteq>
       (\<lambda>q. q + next P + displacement P 8) ` region P \<and>
     changed (g9 s) (g9 (pass P ts s)) \<subseteq>
       (\<lambda>q. q + next P + displacement P 9) ` region P \<and>
     changed (g10 s) (g10 (pass P ts s)) \<subseteq>
       (\<lambda>q. q + next P + displacement P 10) ` region P \<and>
     changed (g11 s) (g11 (pass P ts s)) \<subseteq>
       (\<lambda>q. q + next P + displacement P 11) ` region P \<and>
     changed (g12 s) (g12 (pass P ts s)) \<subseteq>
       (\<lambda>q. q + next P + displacement P 12) ` region P \<and>
     changed (g13 s) (g13 (pass P ts s)) \<subseteq>
       (\<lambda>q. q + next P + displacement P 13) ` region P \<and>
     changed (g14 s) (g14 (pass P ts s)) \<subseteq>
       (\<lambda>q. q + next P + displacement P 14) ` region P \<and>
     changed (g15 s) (g15 (pass P ts s)) \<subseteq>
       (\<lambda>q. q + next P + displacement P 15) ` region P \<and>
     changed (g16 s) (g16 (pass P ts s)) \<subseteq>
       (\<lambda>q. q + next P + displacement P 16) ` region P \<and>
     changed (g17 s) (g17 (pass P ts s)) \<subseteq>
       (\<lambda>q. q + next P + displacement P 17) ` region P \<and>
     changed (g18 s) (g18 (pass P ts s)) \<subseteq>
       (\<lambda>q. q + next P + displacement P 18) ` region P"
  by (intro conjI
    pass_changed_f0 [OF assms] pass_changed_f1 [OF assms] pass_changed_f2 [OF assms]
    pass_changed_f3 [OF assms] pass_changed_f4 [OF assms] pass_changed_f5 [OF assms]
    pass_changed_f6 [OF assms] pass_changed_g0 [OF assms] pass_changed_g1 [OF assms]
    pass_changed_g2 [OF assms] pass_changed_g3 [OF assms] pass_changed_g4 [OF assms]
    pass_changed_g5 [OF assms] pass_changed_g6 [OF assms] pass_changed_g7 [OF assms]
    pass_changed_g8 [OF assms] pass_changed_g9 [OF assms] pass_changed_g10 [OF assms]
    pass_changed_g11 [OF assms] pass_changed_g12 [OF assms] pass_changed_g13 [OF assms]
    pass_changed_g14 [OF assms] pass_changed_g15 [OF assms] pass_changed_g16 [OF assms]
    pass_changed_g17 [OF assms] pass_changed_g18 [OF assms])


theorem pass_frame_witness:
  "0 \<le> i example_thread \<and> 0 \<le> j example_thread \<and> 0 \<le> z example_thread \<and>
   0 \<le> i outside_thread \<and> 0 \<le> j outside_thread \<and> 0 \<le> z outside_thread \<and>
   changed (f0 example_arrays) (f0 (pass example_params [example_thread, outside_thread] example_arrays))
     \<subseteq> region example_params"
proof -
  have h: "0 \<le> i example_thread" "0 \<le> j example_thread" "0 \<le> z example_thread"
    "0 \<le> i outside_thread" "0 \<le> j outside_thread" "0 \<le> z outside_thread"
    by (simp_all add: i_def j_def z_def outside_thread_def example_thread_def)
  then have "\<forall>t\<in>set [example_thread, outside_thread]. 0 \<le> i t \<and> 0 \<le> j t \<and> 0 \<le> z t"
    by simp
  from pass_frame [OF this, of example_arrays example_params, THEN conjunct1] h show ?thesis
    by (intro conjI)
qed

lemma zeroth_moment_rho:
  "zeroth_moment s (m P t) (m P t + current P) = rho P t s"
  by (simp add: rho_def zeroth_moment_def hydro_directions_def current_pos_def)

lemma unbalanced_velocity:
  "ux example_params example_thread unbalanced_arrays = 0" "uy example_params example_thread unbalanced_arrays = 0" "uz example_params example_thread unbalanced_arrays = 0"
  by (simp_all add: ux_def uy_def uz_def uniform_force unbalanced_arrays_def uniform_fields)

lemma example_velocity:
  "ux P t (uniform_arrays (1 / 2) (\<lambda>n. if n = 0 then 1 / 2 else 0) (\<lambda>n. if n = 0 then 1 else 0)) = 0"
  "uy P t (uniform_arrays (1 / 2) (\<lambda>n. if n = 0 then 1 / 2 else 0) (\<lambda>n. if n = 0 then 1 else 0)) = 0"
  "uz P t (uniform_arrays (1 / 2) (\<lambda>n. if n = 0 then 1 / 2 else 0) (\<lambda>n. if n = 0 then 1 else 0)) = 0"
  by (simp_all add: ux_def uy_def uz_def uniform_force uniform_fields)

section \<open>The uniform state at rest: the claim\<close>

text \<open>
  Claim C8 as stated fails in three ways. On the concrete launch, with the usual weights
  and a uniform memory at rest: (a) when the seven phase-field populations add up to 1
  and the order parameter is 1/2, one pass moves their sum at the middle site from 1 to
  1/2; (b) when the weight \<open>eg0\<close> is 1 in place of 1/3, one pass moves the density that the
  middle site receives from 1 to 29/12. (c) On the domain of one site, with the usual
  weights, the populations stream out of the domain and the density that the site reads
  at the \<open>next\<close> offset after the pass is 17/24, not 1.
\<close>

theorem uniform_rest_counterexample:
  "(ux example_params example_thread unbalanced_arrays = 0 \<and> uy example_params example_thread unbalanced_arrays = 0 \<and> uz example_params example_thread unbalanced_arrays = 0 \<and>
    phase_zeroth_moment unbalanced_arrays (m example_params example_thread) ((m example_params example_thread) + current example_params) = 1 \<and>
    phase_zeroth_moment (pass example_params example_launch unbalanced_arrays) (m example_params example_thread) ((m example_params example_thread) + current example_params) = 1 / 2) \<and>
   (ux unbalanced_params example_thread example_arrays = 0 \<and> uy unbalanced_params example_thread example_arrays = 0 \<and> uz unbalanced_params example_thread example_arrays = 0 \<and>
    zeroth_moment example_arrays (m unbalanced_params example_thread) (m unbalanced_params example_thread + current unbalanced_params) = 1 \<and>
    zeroth_moment (pass unbalanced_params example_launch example_arrays) (m unbalanced_params example_thread) (m unbalanced_params example_thread + next unbalanced_params) = 29 / 12) \<and>
   (ux single_site_params origin_thread example_arrays = 0 \<and> uy single_site_params origin_thread example_arrays = 0 \<and>
    uz single_site_params origin_thread example_arrays = 0 \<and>
    zeroth_moment example_arrays (m single_site_params origin_thread)
      (m single_site_params origin_thread + current single_site_params) = 1 \<and>
    zeroth_moment (pass single_site_params [origin_thread] example_arrays) (m single_site_params origin_thread)
      (m single_site_params origin_thread + next single_site_params) = 17 / 24)"
proof -
  have a1: "phase_zeroth_moment unbalanced_arrays (m example_params example_thread) ((m example_params example_thread) + current example_params) = 1"
    by (simp add: phase_zeroth_moment_def phase_directions_def unbalanced_arrays_def uniform_fields)
  have a2: "phase_zeroth_moment (pass example_params example_launch unbalanced_arrays) (m example_params example_thread) ((m example_params example_thread) + current example_params) = 1 / 2"
    unfolding phase_moment_after [OF example_launch_race_free example_thread_launch
        example_thread_guard] a1
    by (simp add: unbalanced_arrays_def uniform_fields) (simp add: example_params_def)
  have b0: "ux unbalanced_params example_thread example_arrays = 0" "uy unbalanced_params example_thread example_arrays = 0" "uz unbalanced_params example_thread example_arrays = 0"
    unfolding example_arrays_uniform by (rule example_velocity)+
  have b1: "zeroth_moment example_arrays (m unbalanced_params example_thread) (m unbalanced_params example_thread + current unbalanced_params) = 1"
    unfolding zeroth_moment_rho by (simp add: rho_def example_arrays_def)
  have rf: "race_free unbalanced_params example_launch" and fd: "fed unbalanced_params example_launch example_thread" and ins: "inside unbalanced_params example_thread"
    unfolding unbalanced_params_def race_free_eg0 fed_eg0 geometry_eg0
    using example_launch_race_free example_thread_fed example_thread_guard
    by simp_all
  have b2: "zeroth_moment (pass unbalanced_params example_launch example_arrays) (m unbalanced_params example_thread) (m unbalanced_params example_thread + next unbalanced_params) = 29 / 12"
    unfolding example_arrays_uniform
      streamed_density_value [OF b0 [unfolded example_arrays_uniform] rf example_thread_launch ins fd]
    by (simp add: rho_def ag_def mu_phi_def current_phi_def current_phi_2_def uniform_fields)
      (simp add: unbalanced_params_def example_params_def)
  have c0: "ux single_site_params origin_thread example_arrays = 0" "uy single_site_params origin_thread example_arrays = 0"
    "uz single_site_params origin_thread example_arrays = 0"
    unfolding example_arrays_uniform by (rule example_velocity)+
  have c1: "zeroth_moment example_arrays (m single_site_params origin_thread)
      (m single_site_params origin_thread + current single_site_params) = 1"
    unfolding zeroth_moment_rho by (simp add: rho_def example_arrays_def)
  have c2: "zeroth_moment (pass single_site_params [origin_thread] example_arrays) (m single_site_params origin_thread)
      (m single_site_params origin_thread + next single_site_params) = 17 / 24"
  proof -
    have "g0 (kernel single_site_params origin_thread example_arrays) 0 = 17 / 24"
      by (simp add: kernel_g0 single_site_thread single_site_geometry single_site_values)
        (simp add: single_site_params_def example_params_def example_arrays_def)
    moreover have
      "g1 (kernel single_site_params origin_thread example_arrays) 1000 = 0"
      "g2 (kernel single_site_params origin_thread example_arrays) 1000 = 0"
      "g3 (kernel single_site_params origin_thread example_arrays) 1000 = 0"
      "g4 (kernel single_site_params origin_thread example_arrays) 1000 = 0"
      "g5 (kernel single_site_params origin_thread example_arrays) 1000 = 0"
      "g6 (kernel single_site_params origin_thread example_arrays) 1000 = 0"
      "g7 (kernel single_site_params origin_thread example_arrays) 1000 = 0"
      "g8 (kernel single_site_params origin_thread example_arrays) 1000 = 0"
      "g9 (kernel single_site_params origin_thread example_arrays) 1000 = 0"
      "g10 (kernel single_site_params origin_thread example_arrays) 1000 = 0"
      "g11 (kernel single_site_params origin_thread example_arrays) 1000 = 0"
      "g12 (kernel single_site_params origin_thread example_arrays) 1000 = 0"
      "g13 (kernel single_site_params origin_thread example_arrays) 1000 = 0"
      "g14 (kernel single_site_params origin_thread example_arrays) 1000 = 0"
      "g15 (kernel single_site_params origin_thread example_arrays) 1000 = 0"
      "g16 (kernel single_site_params origin_thread example_arrays) 1000 = 0"
      "g17 (kernel single_site_params origin_thread example_arrays) 1000 = 0"
      "g18 (kernel single_site_params origin_thread example_arrays) 1000 = 0"
      by (simp_all add: kernel_fields single_site_thread single_site_geometry)
        (simp_all add: example_arrays_def)
    ultimately show ?thesis
      unfolding zeroth_moment_def hydro_directions_def list.map sum_list.Cons sum_list.Nil pass_def
      by (simp add: single_site_thread single_site_geometry)
  qed
  show ?thesis
    using unbalanced_velocity a1 a2 b0 b1 b2 c0 c1 c2 by (intro conjI)
qed

text \<open>
  Claim C8, as amended. Take a uniform memory (every entry of \<open>phi\<close> is \<open>c\<close>, gradient and
  Laplacian zero, every array of populations constant) on which the density is not zero
  and the recovered velocity is zero, and suppose in addition that the weights satisfy
  \<open>itaurho + eg0 + 6 * eg1 + 12 * eg2 = 1\<close> and \<open>6 * eg0 = 18 * eg1 + 36 * eg2\<close>, that
  \<open>itauphi1 + itauphi = 1\<close>, and that the seven phase-field populations add up to \<open>c\<close>.
  Then after one pass without races, at a site that passes the guard and receives all
  eighteen moving populations from threads of the pass: the zeroth moment of the
  hydrodynamic populations, read at the \<open>next\<close> offset, is the density before the pass;
  the zeroth moment of the phase-field populations, read where the kernel stores them,
  is what it was; and the velocity that the next application recovers, reading at the
  \<open>next\<close> offset, is zero again.
\<close>

theorem uniform_rest_preserved:
  assumes rho: "rho P t (uniform_arrays c fv gv) \<noteq> 0"
    and vel: "ux P t (uniform_arrays c fv gv) = 0" "uy P t (uniform_arrays c fv gv) = 0"
      "uz P t (uniform_arrays c fv gv) = 0"
    and weights: "itaurho P + eg0 P + 6 * eg1 P + 12 * eg2 P = 1"
      "6 * eg0 P = 18 * eg1 P + 36 * eg2 P"
    and relax: "itauphi1 P + itauphi P = 1"
    and moment: "phase_zeroth_moment (uniform_arrays c fv gv) (m P t) (m P t + current P) = c"
    and rf: "race_free P ts" and t: "t \<in> set ts" "inside P t" and fed: "fed P ts t"
  shows
    "zeroth_moment (pass P ts (uniform_arrays c fv gv)) (m P t) (m P t + next P) =
       zeroth_moment (uniform_arrays c fv gv) (m P t) (m P t + current P) \<and>
     phase_zeroth_moment (pass P ts (uniform_arrays c fv gv)) (m P t) (m P t + current P) =
       phase_zeroth_moment (uniform_arrays c fv gv) (m P t) (m P t + current P) \<and>
     ux (P\<lparr>current := next P\<rparr>) t (pass P ts (uniform_arrays c fv gv)) = 0 \<and>
     uy (P\<lparr>current := next P\<rparr>) t (pass P ts (uniform_arrays c fv gv)) = 0 \<and>
     uz (P\<lparr>current := next P\<rparr>) t (pass P ts (uniform_arrays c fv gv)) = 0"
proof (intro conjI)
  show "zeroth_moment (pass P ts (uniform_arrays c fv gv)) (m P t) (m P t + next P) =
    zeroth_moment (uniform_arrays c fv gv) (m P t) (m P t + current P)"
    unfolding zeroth_moment_rho by (rule streamed_density [OF vel weights rf t fed])
  have "itauphi1 P * c + itauphi P * c = c"
    using arg_cong [OF relax, of "\<lambda>q. q * c"] by (simp add: algebra_simps)
  then show "phase_zeroth_moment (pass P ts (uniform_arrays c fv gv)) (m P t) (m P t + current P) =
    phase_zeroth_moment (uniform_arrays c fv gv) (m P t) (m P t + current P)"
    unfolding phase_moment_after [OF rf t] moment by (simp add: uniform_fields)
  show "ux (P\<lparr>current := next P\<rparr>) t (pass P ts (uniform_arrays c fv gv)) = 0"
    "uy (P\<lparr>current := next P\<rparr>) t (pass P ts (uniform_arrays c fv gv)) = 0"
    "uz (P\<lparr>current := next P\<rparr>) t (pass P ts (uniform_arrays c fv gv)) = 0"
    by (rule velocity_after [OF rho vel rf fed])+
qed

theorem uniform_rest_preserved_witness:
  "rho example_params example_thread example_arrays \<noteq> 0 \<and>
   ux example_params example_thread example_arrays = 0 \<and> uy example_params example_thread example_arrays = 0 \<and> uz example_params example_thread example_arrays = 0 \<and>
   itaurho example_params + eg0 example_params + 6 * eg1 example_params + 12 * eg2 example_params = 1 \<and>
   6 * eg0 example_params = 18 * eg1 example_params + 36 * eg2 example_params \<and>
   itauphi1 example_params + itauphi example_params = 1 \<and>
   phase_zeroth_moment example_arrays (m example_params example_thread) ((m example_params example_thread) + current example_params) = 1 / 2 \<and>
   example_thread \<in> set example_launch \<and> inside example_params example_thread \<and>
   zeroth_moment (pass example_params example_launch example_arrays) (m example_params example_thread) ((m example_params example_thread) + next example_params) = 1 \<and>
   phase_zeroth_moment (pass example_params example_launch example_arrays) (m example_params example_thread) ((m example_params example_thread) + current example_params) = 1 / 2"
proof -
  let ?fv = "\<lambda>n::nat. if n = 0 then 1 / 2 else (0::real)"
  let ?gv = "\<lambda>n::nat. if n = 0 then 1 else (0::real)"
  have U: "example_arrays = uniform_arrays (1 / 2) ?fv ?gv"
    by (rule example_arrays_uniform)
  have h1: "rho example_params example_thread (uniform_arrays (1 / 2) ?fv ?gv) \<noteq> 0"
    by (simp add: uniform_rho)
  have h2: "itaurho example_params + eg0 example_params + 6 * eg1 example_params + 12 * eg2 example_params = 1"
    "6 * eg0 example_params = 18 * eg1 example_params + 36 * eg2 example_params" "itauphi1 example_params + itauphi example_params = 1"
    by (simp_all add: example_params_def)
  have h3: "phase_zeroth_moment (uniform_arrays (1 / 2) ?fv ?gv) (m example_params example_thread) ((m example_params example_thread) + current example_params) = 1 / 2"
    by (simp add: phase_zeroth_moment_def phase_directions_def uniform_fields)
  note h4 = example_thread_guard
  have r0: "zeroth_moment (uniform_arrays (1 / 2) ?fv ?gv) (m example_params example_thread) ((m example_params example_thread) + current example_params) = 1"
    unfolding zeroth_moment_rho by (simp add: uniform_rho)
  note w = uniform_rest_preserved [OF h1 example_velocity h2 h3 example_launch_race_free
      example_thread_launch h4 example_thread_fed]
  show ?thesis
    unfolding U
    using h1 example_velocity [of example_params example_thread] h2 h3 example_thread_launch h4
      w [THEN conjunct1, unfolded r0] w [THEN conjunct2, THEN conjunct1, unfolded h3]
    by (intro conjI)
qed

end
